theory Spec2Isabelle
  imports Complex_Main "HOL-Library.Sublist" "HOL-Library.AList" "HOL-Library.List_Lexorder"
begin

section \<open>Text\<close>

text \<open>
  A Python \<open>str\<close> is a sequence of Unicode code points, and \<open>len\<close>, slicing and
  \<open>in\<close> count code points; so a text is the list of its code points (the integers
  \<open>ord\<close> gives). The literals of
  \<open>main.py\<close> are written out as code points, with a transliteration beside them.
  Dictionary keys the program writes as ASCII literals (\<open>"total_messages"\<close>,
  \<open>"question"\<close>, \<open>"weather"\<close>) are HOL strings.

  \<open>str.lower\<close> and the class \<open>\w\<close> of the \<open>re\<close> module are tables of the Unicode
  database, which is not part of the program: they are parameters, and every theorem
  holds for every such table. The white space of \<open>\s\<close> and \<open>str.strip\<close> is a
  short list and is written out. \<open>a in b\<close> on two texts is \<^const>\<open>sublist\<close>.
\<close>

type_synonym ustr = "int list"

record unicode =
  lower :: "ustr \<Rightarrow> ustr"
  word_char :: "int \<Rightarrow> bool"

definition isspace :: "int \<Rightarrow> bool" where
  "isspace c \<longleftrightarrow>
     (9 \<le> c \<and> c \<le> 13) \<or> (28 \<le> c \<and> c \<le> 32) \<or> c = 133 \<or> c = 160 \<or> c = 5760 \<or>
     (8192 \<le> c \<and> c \<le> 8202) \<or> c = 8232 \<or> c = 8233 \<or> c = 8239 \<or> c = 8287 \<or> c = 12288"

definition strip :: "ustr \<Rightarrow> ustr" where
  "strip s = rev (dropWhile isspace (rev (dropWhile isspace s)))"

text \<open>The truth value of an \<open>Optional[str]\<close>: \<open>None\<close> and \<open>""\<close> are false.\<close>

definition truthy :: "ustr option \<Rightarrow> bool" where
  "truthy v \<longleftrightarrow> (case v of None \<Rightarrow> False | Some s \<Rightarrow> s \<noteq> [])"

text \<open>\<open>str(n)\<close> of an integer, as an f-string prints it.\<close>

fun digits :: "nat \<Rightarrow> ustr" where
  "digits n = (if n < 10 then [48 + int n] else digits (n div 10) @ [48 + int (n mod 10)])"

declare digits.simps [simp del]

definition str_int :: "int \<Rightarrow> ustr" where
  "str_int i = (if i < 0 then 45 # digits (nat (- i)) else digits (nat i))"

text \<open>\<open>sep.join(xs)\<close>.\<close>

fun join :: "ustr \<Rightarrow> ustr list \<Rightarrow> ustr" where
  "join sep [] = []"
| "join sep [x] = x"
| "join sep (x # y # ys) = x @ sep @ join sep (y # ys)"

text \<open>
  \<open>random.choice(xs)\<close>, with the random source as an argument. Every list the
  program passes is a non-empty literal, or is tested to be non-empty before the call.
\<close>

definition choice :: "nat \<Rightarrow> 'a list \<Rightarrow> 'a" where
  "choice r xs = xs ! (r mod length xs)"

subsection \<open>The regular expressions\<close>

text \<open>
  The rule patterns are alternations of literal texts (\<open>a|b|c\<close>, no other operator):
  \<open>re.search\<close> finds one exactly when an alternative occurs in the text.
\<close>

definition re_search_alts :: "ustr list \<Rightarrow> ustr \<Rightarrow> bool" where
  "re_search_alts alts s = list_ex (\<lambda>a. sublist a s) alts"

text \<open>
  The two patterns with a group, \<open>zapomni\s*(?:chto|,)?\s*(.+)\<close> and \<open>pogoda\s+(.+)\<close>,
  are a sequence of atoms followed by the group \<open>(.+)\<close>. The matcher backtracks as
  \<open>re\<close> does: \<^term>\<open>rx_step a s\<close> lists what can remain of \<open>s\<close> after the atom \<open>a\<close>, the
  choice \<open>re\<close> tries first coming first (the longest run for the greedy \<open>\s*\<close> and
  \<open>\s+\<close>, the alternatives in their order and then nothing for the optional group).
  \<open>.\<close> is every character but the line feed, and \<open>(.+)\<close>, which is greedy and last,
  takes the rest of the line. \<open>re.search\<close> tries the start positions from the left.
\<close>

datatype rx = Lit ustr | Opt_alt "ustr list" | Ws_star | Ws_plus

fun rx_step :: "rx \<Rightarrow> ustr \<Rightarrow> ustr list" where
  "rx_step (Lit l) s = (if prefix l s then [drop (length l) s] else [])"
| "rx_step (Opt_alt ls) s = map (\<lambda>l. drop (length l) s) (filter (\<lambda>l. prefix l s) ls) @ [s]"
| "rx_step Ws_star s = map (\<lambda>n. drop n s) (rev [0 ..< Suc (length (takeWhile isspace s))])"
| "rx_step Ws_plus s = map (\<lambda>n. drop n s) (rev [1 ..< Suc (length (takeWhile isspace s))])"

fun rx_seq :: "rx list \<Rightarrow> ustr \<Rightarrow> ustr list" where
  "rx_seq [] s = [s]"
| "rx_seq (a # ps) s = concat (map (rx_seq ps) (rx_step a s))"

definition dot_plus :: "ustr \<Rightarrow> ustr" where
  "dot_plus s = takeWhile (\<lambda>c. c \<noteq> 10) s"

definition match_group :: "rx list \<Rightarrow> ustr \<Rightarrow> ustr option" where
  "match_group ps s =
     (case filter (\<lambda>r. dot_plus r \<noteq> []) (rx_seq ps s) of
        [] \<Rightarrow> None
      | r # _ \<Rightarrow> Some (dot_plus r))"

fun search_group :: "rx list \<Rightarrow> ustr \<Rightarrow> ustr option" where
  "search_group ps [] = match_group ps []"
| "search_group ps (c # cs) =
     (case match_group ps (c # cs) of
        Some g \<Rightarrow> Some g
      | None \<Rightarrow> search_group ps cs)"

definition remember_rx :: "rx list" where
  "remember_rx =
     [Lit ([1079, 1072, 1087, 1086, 1084, 1085, 1080] \<comment> \<open>zapomni\<close>), Ws_star,
      Opt_alt [[1095, 1090, 1086] \<comment> \<open>chto\<close>, [44] \<comment> \<open>,\<close>], Ws_star]"

definition weather_city_rx :: "rx list" where
  "weather_city_rx = [Lit ([1087, 1086, 1075, 1086, 1076, 1072] \<comment> \<open>pogoda\<close>), Ws_plus]"

text \<open>
  \<open>re.findall(r'\b\w+\b', text)\<close>: the maximal runs of word characters, from the left.
\<close>

fun findall_words :: "(int \<Rightarrow> bool) \<Rightarrow> ustr \<Rightarrow> ustr \<Rightarrow> ustr list" where
  "findall_words w cur [] = (if cur = [] then [] else [cur])"
| "findall_words w cur (c # cs) =
     (if w c then findall_words w (cur @ [c]) cs
      else (if cur = [] then [] else [cur]) @ findall_words w [] cs)"

section \<open>Keywords (\<open>_extract_keywords\<close>)\<close>

definition stop_words :: "ustr list" where
  "stop_words =
    [[1095, 1090, 1086] \<comment> \<open>chto\<close>,
     [1082, 1072, 1082] \<comment> \<open>kak\<close>,
     [1082, 1090, 1086] \<comment> \<open>kto\<close>,
     [1075, 1076, 1077] \<comment> \<open>gde\<close>,
     [1082, 1086, 1075, 1076, 1072] \<comment> \<open>kogda\<close>,
     [1087, 1086, 1095, 1077, 1084, 1091] \<comment> \<open>pochemu\<close>,
     [1079, 1072, 1095, 1077, 1084] \<comment> \<open>zachem\<close>,
     [1101, 1090, 1086] \<comment> \<open>eto\<close>,
     [1101, 1090, 1086, 1090] \<comment> \<open>etot\<close>,
     [1101, 1090, 1072] \<comment> \<open>eta\<close>,
     [1101, 1090, 1080] \<comment> \<open>eti\<close>,
     [1090, 1086, 1090] \<comment> \<open>tot\<close>,
     [1090, 1072] \<comment> \<open>ta\<close>,
     [1090, 1077] \<comment> \<open>te\<close>,
     [1089, 1074, 1086, 1081] \<comment> \<open>svoj\<close>,
     [1084, 1086, 1080] \<comment> \<open>moi\<close>,
     [1090, 1074, 1086, 1080] \<comment> \<open>tvoi\<close>,
     [1077, 1075, 1086] \<comment> \<open>ego\<close>,
     [1077, 1105] \<comment> \<open>eyo\<close>,
     [1080, 1093] \<comment> \<open>ih\<close>,
     [1085, 1072, 1096] \<comment> \<open>nash\<close>,
     [1074, 1072, 1096] \<comment> \<open>vash\<close>,
     [1074, 1077, 1089, 1100] \<comment> \<open>ves\<close>,
     [1074, 1089, 1077] \<comment> \<open>vse\<close>,
     [1074, 1089, 1105] \<comment> \<open>vsyo\<close>,
     [1082, 1072, 1082, 1086, 1081] \<comment> \<open>kakoj\<close>,
     [1082, 1072, 1082, 1072, 1103] \<comment> \<open>kakaya\<close>,
     [1082, 1072, 1082, 1080, 1077] \<comment> \<open>kakie\<close>,
     [1090, 1072, 1082, 1086, 1081] \<comment> \<open>takoj\<close>,
     [1090, 1072, 1082, 1072, 1103] \<comment> \<open>takaya\<close>]"

definition extract_keywords :: "unicode \<Rightarrow> ustr \<Rightarrow> ustr list" where
  "extract_keywords U text =
     (let words = findall_words (word_char U) [] (lower U text)
      in filter (\<lambda>w. w \<notin> set stop_words \<and> length w > 2) words)"

section \<open>The knowledge document\<close>

text \<open>
  \<open>self.knowledge\<close> is the dictionary read from \<open>knowledge.json\<close>. Its entries
  \<open>"facts"\<close> and \<open>"statistics"\<close> are read without a test and are fields; the program
  tests for \<open>"qna"\<close>, \<open>"learned_facts"\<close>, \<open>"interaction_stats"\<close> and \<open>"user_profiles"\<close>
  (or reads them with a default) before it uses them, so these may be absent
  (\<open>None\<close>). A \<open>dict\<close> keeps its keys in insertion order: the dictionaries the program
  iterates over (\<open>qna\<close>, \<open>learned_facts\<close>) are association lists, updated by
  \<^const>\<open>AList.update\<close> (a new key goes last, an old one keeps its place); the others are
  maps. \<open>statistics\<close> holds the integer counters; its entry \<open>"first_start"\<close>, a text
  no operation of the core reads or writes, and the entries \<open>"memory"\<close> and
  \<open>"learned_phrases"\<close> of the document, never used, are left out. Reading a key that is
  not there raises \<open>KeyError\<close>. Instants (\<open>datetime\<close>) are microseconds, as integers.
  \<open>_save_knowledge\<close> writes the document to the file and logs a failure without raising
  it: it changes nothing of the state modelled here.
\<close>

datatype exn = KeyError

record user_profile =
  user_id :: int
  username :: "ustr option"
  first_name :: "ustr option"
  last_name :: "ustr option"
  conversation_count :: int
  total_messages :: int
  learned_contributions :: int
  last_active :: int
  preferences :: "(ustr \<times> ustr) list"

record learned_fact =
  fact :: ustr
  learned_at :: int
  learned_by :: "int option"

record knowledge =
  facts :: "ustr \<rightharpoonup> ustr"
  statistics :: "string \<rightharpoonup> int"
  qna :: "(ustr \<times> ustr) list option"
  learned_facts :: "(ustr \<times> learned_fact) list option"
  interaction_stats :: "(ustr \<rightharpoonup> (ustr \<rightharpoonup> int)) option"
  user_profiles :: "(int \<rightharpoonup> user_profile) option"

text \<open>\<open>self.knowledge.get("qna", {})\<close> and \<open>self.knowledge.get("user_profiles", {})\<close>.\<close>

definition get_qna :: "knowledge \<Rightarrow> (ustr \<times> ustr) list" where
  "get_qna K = (case qna K of None \<Rightarrow> [] | Some q \<Rightarrow> q)"

definition get_user_profiles :: "knowledge \<Rightarrow> (int \<rightharpoonup> user_profile)" where
  "get_user_profiles K = (case user_profiles K of None \<Rightarrow> Map.empty | Some m \<Rightarrow> m)"

text \<open>The document \<open>_create_default_knowledge\<close> makes.\<close>

definition default_knowledge :: knowledge where
  "default_knowledge =
     \<lparr>facts = map_of
        [([1089, 1086, 1079, 1076, 1072, 1090, 1077, 1083, 1100] \<comment> \<open>sozdatel\<close>,
      [1052, 1077, 1085, 1103, 32, 1089, 1086, 1079, 1076, 1072, 1083, 32, 1040, 1089,
       1083, 1072, 1085] \<comment> \<open>Menya sozdal Aslan\<close>),
     ([1080, 1084, 1103] \<comment> \<open>imya\<close>,
      [78, 105, 120, 32, 65, 73] \<comment> \<open>Nix AI\<close>),
     ([1074, 1077, 1088, 1089, 1080, 1103] \<comment> \<open>versiya\<close>,
      [48, 46, 49, 32, 40, 84, 101, 108, 101, 103, 114, 97, 109, 32, 69, 100, 105, 116,
       105, 111, 110, 41] \<comment> \<open>0.1 Telegram Edition\<close>),
     ([1094, 1077, 1083, 1100] \<comment> \<open>cel\<close>,
      [1055, 1086, 1084, 1086, 1075, 1072, 1090, 1100, 32, 1083, 1102, 1076, 1103, 1084,
       32, 1074, 32, 84, 101, 108, 101, 103, 114, 97, 109] \<comment> \<open>Pomogat lyudyam v Telegram\<close>)],
      statistics = [''total_conversations'' \<mapsto> 0, ''total_messages'' \<mapsto> 0, ''learned_qna'' \<mapsto> 0,
        ''corrections_received'' \<mapsto> 0, ''total_users'' \<mapsto> 0],
      qna = Some
        [([1095, 1090, 1086, 32, 1090, 1072, 1082, 1086, 1077, 32, 112, 121, 116, 104, 111, 110] \<comment> \<open>chto takoe python\<close>,
      [80, 121, 116, 104, 111, 110, 32, 8212, 32, 1101, 1090, 1086, 32, 1103, 1079, 1099,
       1082, 32, 1087, 1088, 1086, 1075, 1088, 1072, 1084, 1084, 1080, 1088, 1086, 1074,
       1072, 1085, 1080, 1103] \<comment> \<open>Python U+2014 eto yazyk programmirovaniya\<close>),
     ([1095, 1090, 1086, 32, 1090, 1072, 1082, 1086, 1077, 32, 1080, 1089, 1082, 1091,
       1089, 1089, 1090, 1074, 1077, 1085, 1085, 1099, 1081, 32, 1080, 1085, 1090, 1077,
       1083, 1083, 1077, 1082, 1090] \<comment> \<open>chto takoe iskusstvennyj intellekt\<close>,
      [1048, 1048, 32, 8212, 32, 1101, 1090, 1086, 32, 1089, 1080, 1089, 1090, 1077, 1084,
       1072, 44, 32, 1080, 1084, 1080, 1090, 1080, 1088, 1091, 1102, 1097, 1072, 1103, 32,
       1095, 1077, 1083, 1086, 1074, 1077, 1095, 1077, 1089, 1082, 1080, 1081, 32, 1080,
       1085, 1090, 1077, 1083, 1083, 1077, 1082, 1090] \<comment> \<open>II U+2014 eto sistema, imitiruyushchaya chelovecheskij in...\<close>),
     ([1082, 1072, 1082, 32, 1090, 1077, 1073, 1103, 32, 1079, 1086, 1074, 1091, 1090] \<comment> \<open>kak tebya zovut\<close>,
      [1052, 1077, 1085, 1103, 32, 1079, 1086, 1074, 1091, 1090, 32, 78, 105, 120, 32, 65,
       73] \<comment> \<open>Menya zovut Nix AI\<close>),
     ([1082, 1090, 1086, 32, 1089, 1086, 1079, 1076, 1072, 1083, 32, 1090, 1077, 1073, 1103] \<comment> \<open>kto sozdal tebya\<close>,
      [1052, 1077, 1085, 1103, 32, 1089, 1086, 1079, 1076, 1072, 1083, 32, 1088, 1072,
       1079, 1088, 1072, 1073, 1086, 1090, 1095, 1080, 1082, 44, 32, 1082, 1086, 1090,
       1086, 1088, 1099, 1081, 32, 1093, 1086, 1095, 1077, 1090, 32, 1089, 1076, 1077,
       1083, 1072, 1090, 1100, 32, 1087, 1086, 1083, 1077, 1079, 1085, 1086, 1075, 1086,
       32, 1048, 1048] \<comment> \<open>Menya sozdal razrabotchik, kotoryj hochet sdelat poleznog...\<close>)],
      learned_facts = None,
      interaction_stats = None,
      user_profiles = Some Map.empty\<rparr>"

subsection \<open>User profiles\<close>

text \<open>
  \<open>_save_user_profile\<close>: the profile is stored under \<open>str(profile.user_id)\<close>; \<open>str\<close> is
  one-to-one on integers, so the key is the integer itself.
\<close>

definition save_user_profile :: "knowledge \<Rightarrow> user_profile \<Rightarrow> knowledge" where
  "save_user_profile K profile =
     K\<lparr>user_profiles := Some ((get_user_profiles K)(user_id profile \<mapsto> profile))\<rparr>"

text \<open>
  \<open>get_or_create_user_profile\<close>; \<open>t\<close> is \<open>datetime.now()\<close>. It returns the profile and
  the document.
\<close>

definition get_or_create_user_profile ::
  "int \<Rightarrow> knowledge \<Rightarrow> int \<Rightarrow> ustr option \<Rightarrow> ustr option \<Rightarrow> ustr option
   \<Rightarrow> user_profile \<times> knowledge" where
  "get_or_create_user_profile t K uid uname fname lname =
     (case get_user_profiles K uid of
        Some profile_data \<Rightarrow>
          (let p1 = (if truthy uname \<and> uname \<noteq> username profile_data
                     then profile_data\<lparr>username := uname\<rparr> else profile_data);
               p2 = (if truthy fname \<and> fname \<noteq> first_name p1
                     then p1\<lparr>first_name := fname\<rparr> else p1);
               p3 = (if truthy lname \<and> lname \<noteq> last_name p2
                     then p2\<lparr>last_name := lname\<rparr> else p2);
               profile = p3\<lparr>last_active := t\<rparr>
           in (profile, save_user_profile K profile))
      | None \<Rightarrow>
          (let profile = \<lparr>user_id = uid, username = uname, first_name = fname,
                          last_name = lname, conversation_count = 1, total_messages = 0,
                          learned_contributions = 0, last_active = t, preferences = []\<rparr>;
               total = (case statistics K ''total_users'' of None \<Rightarrow> 0 | Some n \<Rightarrow> n);
               K1 = K\<lparr>statistics := (statistics K)(''total_users'' \<mapsto> total + 1)\<rparr>
           in (profile, save_user_profile K1 profile)))"

text \<open>\<open>update_user_stats\<close>.\<close>

definition update_user_stats :: "int \<Rightarrow> knowledge \<Rightarrow> int \<Rightarrow> string \<Rightarrow> knowledge" where
  "update_user_stats t K uid field =
     (let K1 =
        (case get_user_profiles K uid of
           Some p \<Rightarrow>
             (let p1 =
                (if field = ''total_messages'' then p\<lparr>total_messages := total_messages p + 1\<rparr>
                 else if field = ''learned_contributions''
                   then p\<lparr>learned_contributions := learned_contributions p + 1\<rparr>
                 else if field = ''conversation_count''
                   then p\<lparr>conversation_count := conversation_count p + 1\<rparr>
                 else p)
              in K\<lparr>user_profiles := Some ((get_user_profiles K)(uid \<mapsto> p1\<lparr>last_active := t\<rparr>))\<rparr>)
         | None \<Rightarrow> K)
      in (case statistics K1 field of
            Some n \<Rightarrow> K1\<lparr>statistics := (statistics K1)(field \<mapsto> n + 1)\<rparr>
          | None \<Rightarrow> K1))"

text \<open>
  \<open>statistics[key] += 1\<close>, as the correction path writes it for \<open>"learned_qna"\<close> and
  \<open>"corrections_received"\<close>: the key must be there.
\<close>

definition incr_statistic :: "knowledge \<Rightarrow> string \<Rightarrow> exn + knowledge" where
  "incr_statistic K key =
     (case statistics K key of
        None \<Rightarrow> Inl KeyError
      | Some n \<Rightarrow> Inr (K\<lparr>statistics := (statistics K)(key \<mapsto> n + 1)\<rparr>))"

text \<open>
  The handler of the button that clears the memory (\<open>handle_callback\<close>, \<open>clear_yes\<close>), the
  one place outside the core that writes the document.
\<close>

definition clear_memory :: "knowledge \<Rightarrow> knowledge" where
  "clear_memory K = K\<lparr>qna := Some [], learned_facts := Some [], interaction_stats := Some Map.empty\<rparr>"

section \<open>Question and answer matching\<close>

text \<open>
  \<open>_check_qna_match\<close>. The three loops return at the first hit; they are the three
  recursive functions below, over the items of \<open>qna\<close> in their order.
\<close>

fun containment_match :: "ustr \<Rightarrow> (ustr \<times> ustr) list \<Rightarrow> ustr option" where
  "containment_match m [] = None"
| "containment_match m ((question, answer) # items) =
     (if sublist question m \<or> sublist m question then Some answer
      else containment_match m items)"

text \<open>\<open>len(set(keywords) & set(question_keywords))\<close>.\<close>

definition common_count :: "ustr list \<Rightarrow> ustr list \<Rightarrow> nat" where
  "common_count ks qs = length (remdups (filter (\<lambda>k. k \<in> set qs) ks))"

fun keyword_match :: "unicode \<Rightarrow> ustr list \<Rightarrow> (ustr \<times> ustr) list \<Rightarrow> ustr option" where
  "keyword_match U keywords [] = None"
| "keyword_match U keywords ((question, answer) # items) =
     (if common_count keywords (extract_keywords U question) \<ge> 2 then Some answer
      else keyword_match U keywords items)"

definition check_qna_match :: "unicode \<Rightarrow> knowledge \<Rightarrow> ustr \<Rightarrow> ustr option" where
  "check_qna_match U K user_message =
     (let user_msg_lower = lower U user_message in
      case map_of (get_qna K) user_msg_lower of
        Some answer \<Rightarrow> Some answer
      | None \<Rightarrow>
          (case containment_match user_msg_lower (get_qna K) of
             Some answer \<Rightarrow> Some answer
           | None \<Rightarrow> keyword_match U (extract_keywords U user_msg_lower) (get_qna K)))"

text \<open>
  \<open>_calculate_confidence\<close>. The score is a Python float: \<open>0.9\<close>, \<open>0.0\<close>, or the largest
  of quotients of two lengths. It is modelled by the rational number the float rounds;
  rounding is monotone, so the largest float is the float of the largest quotient.
\<close>

fun best_match :: "unicode \<Rightarrow> ustr list \<Rightarrow> rat \<Rightarrow> ustr list \<Rightarrow> rat" where
  "best_match U keywords best [] = best"
| "best_match U keywords best (question # questions) =
     (let question_keywords = extract_keywords U question in
      if question_keywords = [] then best_match U keywords best questions
      else
        (let similarity =
               of_nat (common_count keywords question_keywords)
               / of_nat (max (length keywords) (length question_keywords))
         in best_match U keywords (max best similarity) questions))"

definition calculate_confidence :: "unicode \<Rightarrow> knowledge \<Rightarrow> ustr \<Rightarrow> rat" where
  "calculate_confidence U K user_message =
     (if lower U user_message \<in> fst ` set (get_qna K) then 9 / 10
      else
        (let keywords = extract_keywords U user_message in
         if keywords = [] then 0
         else best_match U keywords 0 (map fst (get_qna K))))"

section \<open>The core and its surroundings\<close>

record weather_config =
  api_key :: ustr
  base_url :: ustr
  units :: ustr
  lang :: ustr

record learning_modes =
  auto_correction :: bool
  ask_before_learning :: bool
  confidence_threshold :: rat

text \<open>
  The state of a \<open>NixAICore\<close>. \<open>weather_cache\<close> maps a lower-cased city to the instant
  and the text of its last answer.
\<close>

record core =
  knowledge :: knowledge
  weather_config :: weather_config
  learning_modes :: learning_modes
  weather_cache :: "ustr \<rightharpoonup> (int \<times> ustr)"

definition cache_duration :: int where
  "cache_duration = 30 * 60 * 1000000"

text \<open>The values \<open>__init__\<close> gives (\<open>WeatherConfig()\<close>, \<open>learning_modes\<close>, an empty cache).\<close>

definition default_weather_config :: weather_config where
  "default_weather_config =
     \<lparr>api_key = [],
      base_url = [104, 116, 116, 112, 58, 47, 47, 97, 112, 105, 46, 111, 112, 101, 110, 119, 101, 97,
       116, 104, 101, 114, 109, 97, 112, 46, 111, 114, 103, 47, 100, 97, 116, 97, 47, 50,
       46, 53, 47, 119, 101, 97, 116, 104, 101, 114] \<comment> \<open>http: api.openweathermap.org data 2.5 weather\<close>,
      units = [109, 101, 116, 114, 105, 99] \<comment> \<open>metric\<close>,
      lang = [114, 117] \<comment> \<open>ru\<close>\<rparr>"

definition default_learning_modes :: learning_modes where
  "default_learning_modes =
     \<lparr>auto_correction = True, ask_before_learning = False, confidence_threshold = 3 / 10\<rparr>"

definition init_core :: "knowledge \<Rightarrow> core" where
  "init_core K =
     \<lparr>knowledge = K, weather_config = default_weather_config,
      learning_modes = default_learning_modes, weather_cache = Map.empty\<rparr>"

text \<open>
  What a turn takes from outside the program: the clock (\<open>now\<close>, and the two texts
  \<open>strftime\<close> makes of it), the random source, and the weather provider. \<open>http_get\<close> is
  the request \<open>session.get(url)\<close>: it fails with the text of an exception, or replies
  with a status and a body, which \<open>response.json()\<close> decodes to data of a type \<open>'d\<close> or
  fails on. \<open>_format_weather_data\<close> prints floats; it is the parameter
  \<open>format_weather_data\<close>, which gives the text or the text of the exception it raises.
\<close>

datatype 'd http_reply = Failed ustr | Reply int "ustr + 'd"

record 'd env =
  now :: int
  rnd :: nat
  strftime_hms :: ustr
  strftime_dmy :: ustr
  http_get :: "ustr \<Rightarrow> 'd http_reply"
  format_weather_data :: "'d \<Rightarrow> ustr + ustr"

section \<open>The rule handlers\<close>

definition greetings :: "ustr list" where
  "greetings =
    [([1055, 1088, 1080, 1074, 1077, 1090, 33, 32, 1071, 32, 78, 105, 120, 32, 65, 73, 44,
       32, 1074, 1072, 1096, 32, 1094, 1080, 1092, 1088, 1086, 1074, 1086, 1081, 32, 1087,
       1086, 1084, 1086, 1097, 1085, 1080, 1082, 32, 1074, 32, 84, 101, 108, 101, 103, 114,
       97, 109, 33, 32, 128075] \<comment> \<open>Privet! Ya Nix AI, vash cifrovoj pomoshchnik v Telegram! ...\<close>),
     ([1047, 1076, 1088, 1072, 1074, 1089, 1090, 1074, 1091, 1081, 1090, 1077, 33, 32,
       1056, 1072, 1076, 32, 1074, 1080, 1076, 1077, 1090, 1100, 32, 1074, 1072, 1089, 32,
       1079, 1076, 1077, 1089, 1100, 33] \<comment> \<open>Zdravstvujte! Rad videt vas zdes!\<close>),
     ([1055, 1088, 1080, 1074, 1077, 1090, 1089, 1090, 1074, 1091, 1102, 33, 32, 1043,
       1086, 1090, 1086, 1074, 32, 1087, 1086, 1084, 1086, 1095, 1100, 32, 1074, 1072,
       1084, 32, 1089, 32, 1083, 1102, 1073, 1099, 1084, 1080, 32, 1074, 1086, 1087, 1088,
       1086, 1089, 1072, 1084, 1080, 46] \<comment> \<open>Privetstvuyu! Gotov pomoch vam s lyubymi voprosami.\<close>),
     ([1055, 1088, 1080, 1074, 1077, 1090, 33, 32, 1050, 1072, 1082, 32, 1103, 32, 1084,
       1086, 1075, 1091, 32, 1074, 1072, 1084, 32, 1087, 1086, 1084, 1086, 1095, 1100, 32,
       1089, 1077, 1075, 1086, 1076, 1085, 1103, 63] \<comment> \<open>Privet! Kak ya mogu vam pomoch segodnya?\<close>)]"

definition name_options :: "ustr \<Rightarrow> ustr list" where
  "name_options fname =
    [(([1057, 32, 1074, 1086, 1079, 1074, 1088, 1072, 1097, 1077, 1085, 1080, 1077, 1084,
       44, 32] \<comment> \<open>S vozvrashcheniem,\<close>)
      @ fname
      @ ([33, 32, 1050, 1072, 1082, 32, 1074, 1072, 1096, 1080, 32, 1076, 1077, 1083, 1072, 63] \<comment> \<open>! Kak vashi dela?\<close>)),
     (([1056, 1072, 1076, 32, 1074, 1072, 1089, 32, 1089, 1085, 1086, 1074, 1072, 32, 1074,
       1080, 1076, 1077, 1090, 1100, 44, 32] \<comment> \<open>Rad vas snova videt,\<close>)
      @ fname
      @ ([33] \<comment> \<open>!\<close>)),
     (([1055, 1088, 1080, 1074, 1077, 1090, 44, 32] \<comment> \<open>Privet,\<close>)
      @ fname
      @ ([33, 32, 1063, 1077, 1084, 32, 1084, 1086, 1075, 1091, 32, 1087, 1086, 1084, 1086,
       1095, 1100, 63] \<comment> \<open>! Chem mogu pomoch?\<close>))]"

definition greet :: "nat \<Rightarrow> user_profile option \<Rightarrow> ustr" where
  "greet r user_profile =
     (case user_profile of
        None \<Rightarrow> choice r greetings
      | Some p \<Rightarrow>
          (case first_name p of
             None \<Rightarrow> choice r greetings
           | Some fname \<Rightarrow>
               if fname \<noteq> [] then choice r (name_options fname) else choice r greetings))"

definition farewells :: "ustr list" where
  "farewells =
    [([1044, 1086, 32, 1089, 1074, 1080, 1076, 1072, 1085, 1080, 1103, 33, 32, 1041, 1091,
       1076, 1091, 32, 1088, 1072, 1076, 32, 1087, 1086, 1084, 1086, 1095, 1100, 32, 1089,
       1085, 1086, 1074, 1072, 46] \<comment> \<open>Do svidaniya! Budu rad pomoch snova.\<close>),
     ([1055, 1086, 1082, 1072, 33, 32, 1042, 1086, 1079, 1074, 1088, 1072, 1097, 1072,
       1081, 1090, 1077, 1089, 1100, 44, 32, 1077, 1089, 1083, 1080, 32, 1087, 1086, 1085,
       1072, 1076, 1086, 1073, 1080, 1090, 1089, 1103, 32, 1087, 1086, 1084, 1086, 1097,
       1100, 46] \<comment> \<open>Poka! Vozvrashchajtes, esli ponadobitsya pomoshch.\<close>),
     ([1042, 1089, 1077, 1075, 1086, 32, 1093, 1086, 1088, 1086, 1096, 1077, 1075, 1086,
       33, 32, 128075] \<comment> \<open>Vsego horoshego! U+1F44B\<close>),
     ([1044, 1086, 32, 1074, 1089, 1090, 1088, 1077, 1095, 1080, 33, 32, 1053, 1077, 32,
       1079, 1072, 1073, 1099, 1074, 1072, 1081, 1090, 1077, 32, 1084, 1077, 1085, 1103, 33] \<comment> \<open>Do vstrechi! Ne zabyvajte menya!\<close>)]"

definition goodbye_named :: "ustr \<Rightarrow> ustr \<Rightarrow> ustr" where
  "goodbye_named fname farewell =
    (([1055, 1086, 1082, 1072, 44, 32] \<comment> \<open>Poka,\<close>)
      @ fname
      @ ([33, 32] \<comment> \<open>!\<close>)
      @ farewell)"

definition goodbye :: "nat \<Rightarrow> user_profile option \<Rightarrow> ustr" where
  "goodbye r user_profile =
     (case user_profile of
        None \<Rightarrow> choice r farewells
      | Some p \<Rightarrow>
          (case first_name p of
             None \<Rightarrow> choice r farewells
           | Some fname \<Rightarrow>
               if fname \<noteq> [] then goodbye_named fname (choice r farewells)
               else choice r farewells))"

definition how_are_you_responses :: "ustr list" where
  "how_are_you_responses =
    [([1059, 32, 1084, 1077, 1085, 1103, 32, 1074, 1089, 1077, 32, 1086, 1090, 1083, 1080,
       1095, 1085, 1086, 33, 32, 1057, 1087, 1072, 1089, 1080, 1073, 1086, 44, 32, 1095,
       1090, 1086, 32, 1089, 1087, 1088, 1086, 1089, 1080, 1083, 1080, 46, 32, 128522] \<comment> \<open>U menya vse otlichno! Spasibo, chto sprosili. U+1F60A\<close>),
     ([1056, 1072, 1073, 1086, 1090, 1072, 1102, 32, 1074, 32, 1096, 1090, 1072, 1090,
       1085, 1086, 1084, 32, 1088, 1077, 1078, 1080, 1084, 1077, 46, 32, 1050, 1072, 1082,
       32, 1074, 1072, 1096, 1080, 32, 1076, 1077, 1083, 1072, 63] \<comment> \<open>Rabotayu v shtatnom rezhime. Kak vashi dela?\<close>),
     ([1055, 1088, 1077, 1082, 1088, 1072, 1089, 1085, 1086, 33, 32, 1043, 1086, 1090,
       1086, 1074, 32, 1087, 1086, 1084, 1086, 1075, 1072, 1090, 1100, 32, 1074, 1072,
       1084, 32, 1089, 32, 1083, 1102, 1073, 1099, 1084, 1080, 32, 1074, 1086, 1087, 1088,
       1086, 1089, 1072, 1084, 1080, 46] \<comment> \<open>Prekrasno! Gotov pomogat vam s lyubymi voprosami.\<close>),
     ([1050, 1072, 1082, 32, 1091, 32, 1094, 1080, 1092, 1088, 1086, 1074, 1086, 1075,
       1086, 32, 1087, 1086, 1084, 1086, 1097, 1085, 1080, 1082, 1072, 44, 32, 1091, 32,
       1084, 1077, 1085, 1103, 32, 1074, 1089, 1077, 1075, 1076, 1072, 32, 1093, 1086,
       1088, 1086, 1096, 1086, 33] \<comment> \<open>Kak u cifrovogo pomoshchnika, u menya vsegda horosho!\<close>)]"

definition how_are_you :: "nat \<Rightarrow> ustr" where
  "how_are_you r = choice r how_are_you_responses"

definition thank_you_responses :: "ustr list" where
  "thank_you_responses =
    [([1042, 1089, 1077, 1075, 1076, 1072, 32, 1087, 1086, 1078, 1072, 1083, 1091, 1081,
       1089, 1090, 1072, 33, 32, 128522] \<comment> \<open>Vsegda pozhalujsta! U+1F60A\<close>),
     ([1056, 1072, 1076, 32, 1073, 1099, 1083, 32, 1087, 1086, 1084, 1086, 1095, 1100, 33] \<comment> \<open>Rad byl pomoch!\<close>),
     ([1054, 1073, 1088, 1072, 1097, 1072, 1081, 1090, 1077, 1089, 1100, 32, 1077, 1097,
       1105, 33] \<comment> \<open>Obrashchajtes eshchyo!\<close>),
     ([1069, 1090, 1086, 32, 1084, 1086, 1103, 32, 1088, 1072, 1073, 1086, 1090, 1072, 32,
       1074, 32, 84, 101, 108, 101, 103, 114, 97, 109, 33] \<comment> \<open>Eto moya rabota v Telegram!\<close>)]"

definition thank_you :: "nat \<Rightarrow> ustr" where
  "thank_you r = choice r thank_you_responses"

definition about_me_text :: "ustr \<Rightarrow> ustr \<Rightarrow> ustr \<Rightarrow> ustr" where
  "about_me_text name version goal =
    (([129302, 32, 1071, 32] \<comment> \<open>U+1F916 Ya\<close>)
      @ name
      @ ([44, 32, 1074, 1077, 1088, 1089, 1080, 1103, 32] \<comment> \<open>, versiya\<close>)
      @ version
      @ ([46, 10, 127919, 32] \<comment> \<open>. / U+1F3AF\<close>)
      @ goal
      @ ([10, 128190, 32, 1057, 1086, 1079, 1076, 1072, 1085, 32, 1085, 1072, 32, 80, 121,
       116, 104, 111, 110, 32, 1089, 32, 1080, 1089, 1087, 1086, 1083, 1100, 1079, 1086,
       1074, 1072, 1085, 1080, 1077, 1084, 32, 97, 105, 111, 103, 114, 97, 109, 33, 10,
       128218, 32, 1071, 32, 1091, 1095, 1091, 1089, 1100, 32, 1085, 1072, 32, 1082, 1072,
       1078, 1076, 1086, 1084, 32, 1085, 1072, 1096, 1077, 1084, 32, 1076, 1080, 1072,
       1083, 1086, 1075, 1077, 46] \<comment> \<open>/ U+1F4BE Sozdan na Python s ispolzovaniem aiogram! / U+1...\<close>))"

definition about_me :: "knowledge \<Rightarrow> exn + ustr" where
  "about_me K =
     (case facts K ([1080, 1084, 1103] \<comment> \<open>imya\<close>) of
        None \<Rightarrow> Inl KeyError
      | Some name \<Rightarrow>
     (case facts K ([1074, 1077, 1088, 1089, 1080, 1103] \<comment> \<open>versiya\<close>) of
        None \<Rightarrow> Inl KeyError
      | Some version \<Rightarrow>
     (case facts K ([1094, 1077, 1083, 1100] \<comment> \<open>cel\<close>) of
        None \<Rightarrow> Inl KeyError
      | Some goal \<Rightarrow> Inr (about_me_text name version goal))))"

definition about_creator :: "knowledge \<Rightarrow> exn + ustr" where
  "about_creator K =
     (case facts K ([1089, 1086, 1079, 1076, 1072, 1090, 1077, 1083, 1100] \<comment> \<open>sozdatel\<close>) of
        None \<Rightarrow> Inl KeyError
      | Some creator \<Rightarrow> Inr creator)"

definition help_text :: ustr where
  "help_text =
    ([10, 129302, 32, 42, 78, 105, 120, 32, 65, 73, 32, 45, 32, 84, 101, 108, 101, 103,
       114, 97, 109, 32, 69, 100, 105, 116, 105, 111, 110, 42, 10, 10, 128203, 32, 42,
       1063, 1090, 1086, 32, 1103, 32, 1091, 1084, 1077, 1102, 58, 42, 10, 10, 8226, 32,
       1055, 1088, 1080, 1074, 1077, 1090, 1089, 1090, 1074, 1086, 1074, 1072, 1090, 1100,
       1089, 1103, 32, 1080, 32, 1087, 1088, 1086, 1097, 1072, 1090, 1100, 1089, 1103, 10,
       8226, 32, 1054, 1090, 1074, 1077, 1095, 1072, 1090, 1100, 32, 1085, 1072, 32, 1074,
       1086, 1087, 1088, 1086, 1089, 1099, 32, 40, 1080, 32, 1091, 1095, 1080, 1090, 1100,
       1089, 1103, 44, 32, 1077, 1089, 1083, 1080, 32, 1085, 1077, 32, 1079, 1085, 1072,
       1102, 32, 1086, 1090, 1074, 1077, 1090, 1072, 41, 10, 8226, 32, 1047, 1072, 1087,
       1086, 1084, 1080, 1085, 1072, 1090, 1100, 32, 1080, 1085, 1092, 1086, 1088, 1084,
       1072, 1094, 1080, 1102, 10, 8226, 32, 1056, 1072, 1089, 1089, 1082, 1072, 1079,
       1099, 1074, 1072, 1090, 1100, 32, 1086, 32, 1089, 1077, 1073, 1077, 10, 8226, 32,
       1055, 1086, 1082, 1072, 1079, 1099, 1074, 1072, 1090, 1100, 32, 1074, 1088, 1077,
       1084, 1103, 32, 1080, 32, 1076, 1072, 1090, 1091, 10, 10, 127780, 65039, 32, 42,
       1055, 1086, 1075, 1086, 1076, 1072, 58, 42, 10, 1053, 1072, 1087, 1080, 1096, 1080,
       32, 34, 1087, 1086, 1075, 1086, 1076, 1072, 34, 32, 1080, 1083, 1080, 32, 1085,
       1072, 1078, 1084, 1080, 32, 1082, 1085, 1086, 1087, 1082, 1091, 44, 32, 1079, 1072,
       1090, 1077, 1084, 32, 1091, 1082, 1072, 1078, 1080, 32, 1075, 1086, 1088, 1086,
       1076, 10, 10, 128190, 32, 42, 1054, 1073, 1091, 1095, 1077, 1085, 1080, 1077, 58,
       42, 10, 1045, 1089, 1083, 1080, 32, 1103, 32, 1085, 1077, 32, 1079, 1085, 1072,
       1102, 32, 1086, 1090, 1074, 1077, 1090, 1072, 32, 45, 32, 1103, 32, 1089, 1087,
       1088, 1086, 1096, 1091, 32, 1091, 32, 1074, 1072, 1089, 32, 1080, 32, 1079, 1072,
       1087, 1086, 1084, 1085, 1102, 32, 1087, 1088, 1072, 1074, 1080, 1083, 1100, 1085,
       1099, 1081, 32, 1086, 1090, 1074, 1077, 1090, 10, 10, 128202, 32, 42, 1057, 1090,
       1072, 1090, 1080, 1089, 1090, 1080, 1082, 1072, 58, 42, 10, 1059, 1079, 1085, 1072,
       1081, 32, 1089, 1082, 1086, 1083, 1100, 1082, 1086, 32, 1103, 32, 1091, 1078, 1077,
       32, 1079, 1085, 1072, 1102, 32, 1080, 32, 1089, 1082, 1086, 1083, 1100, 1082, 1086,
       32, 1084, 1099, 32, 1086, 1073, 1097, 1072, 1083, 1080, 1089, 1100, 10, 10, 127918,
       32, 42, 1044, 1086, 1087, 1086, 1083, 1085, 1080, 1090, 1077, 1083, 1100, 1085,
       1086, 58, 42, 10, 8226, 32, 1050, 1091, 1088, 1089, 1099, 32, 1074, 1072, 1083,
       1102, 1090, 10, 8226, 32, 1040, 1085, 1077, 1082, 1076, 1086, 1090, 1099, 10, 8226,
       32, 1053, 1086, 1074, 1086, 1089, 1090, 1080, 32, 40, 1074, 32, 1088, 1072, 1079,
       1088, 1072, 1073, 1086, 1090, 1082, 1077, 41, 10, 10, 128161, 32, 42, 1055, 1088,
       1086, 1089, 1090, 1086, 32, 1086, 1073, 1097, 1072, 1081, 1090, 1077, 1089, 1100,
       32, 1089, 1086, 32, 1084, 1085, 1086, 1081, 32, 45, 32, 1103, 32, 1085, 1072, 1091,
       1095, 1091, 1089, 1100, 33, 42, 10, 32, 32, 32, 32, 32, 32, 32, 32] \<comment> \<open>/ U+1F916 Nix AI - Telegram Edition / / U+1F4CB Chto ya u...\<close>)"

definition time_text :: "ustr \<Rightarrow> ustr" where
  "time_text hms =
    (([128336, 32, 1057, 1077, 1081, 1095, 1072, 1089, 32] \<comment> \<open>U+1F550 Sejchas\<close>)
      @ hms)"

definition date_text :: "ustr \<Rightarrow> ustr" where
  "date_text dmy =
    (([128197, 32, 1057, 1077, 1075, 1086, 1076, 1085, 1103, 32] \<comment> \<open>U+1F4C5 Segodnya\<close>)
      @ dmy)"

definition remember_done :: "ustr \<Rightarrow> ustr" where
  "remember_done fact_text =
    (([9989, 32, 1047, 1072, 1087, 1086, 1084, 1085, 1080, 1083, 58, 32, 39] \<comment> \<open>U+2705 Zapomnil:\<close>)
      @ fact_text
      @ ([39, 46, 32, 1041, 1091, 1076, 1091, 32, 1087, 1086, 1084, 1085, 1080, 1090, 1100,
       32, 1086, 1073, 32, 1101, 1090, 1086, 1084, 33, 32, 129504] \<comment> \<open>. Budu pomnit ob etom! U+1F9E0\<close>))"

definition remember_ask :: ustr where
  "remember_ask =
    ([1055, 1086, 1078, 1072, 1083, 1091, 1081, 1089, 1090, 1072, 44, 32, 1091, 1082,
       1072, 1078, 1080, 44, 32, 1095, 1090, 1086, 32, 1080, 1084, 1077, 1085, 1085, 1086,
       32, 1079, 1072, 1087, 1086, 1084, 1085, 1080, 1090, 1100, 46, 32, 1053, 1072, 1087,
       1088, 1080, 1084, 1077, 1088, 58, 32, 39, 1079, 1072, 1087, 1086, 1084, 1085, 1080,
       44, 32, 1095, 1090, 1086, 32, 1047, 1077, 1084, 1083, 1103, 32, 1082, 1088, 1091,
       1075, 1083, 1072, 1103, 39] \<comment> \<open>Pozhalujsta, ukazhi, chto imenno zapomnit. Naprimer: zapo...\<close>)"

text \<open>\<open>_remember_info\<close>: the one handler that writes the document.\<close>

definition remember_info ::
  "unicode \<Rightarrow> int \<Rightarrow> knowledge \<Rightarrow> ustr \<Rightarrow> user_profile option \<Rightarrow> ustr \<times> knowledge" where
  "remember_info U t K message user_profile =
     (case search_group remember_rx (lower U message) of
        Some g \<Rightarrow>
          (let fact_text = strip g;
               fact_key = take 50 fact_text;
               known = (case learned_facts K of None \<Rightarrow> [] | Some l \<Rightarrow> l);
               entry = \<lparr>fact = fact_text, learned_at = t,
                        learned_by = map_option user_id user_profile\<rparr>
           in (remember_done fact_text,
               K\<lparr>learned_facts := Some (AList.update fact_key entry known)\<rparr>))
      | None \<Rightarrow> (remember_ask, K))"

definition recall_fact :: "ustr \<Rightarrow> ustr" where
  "recall_fact fact_text =
    (([128218, 32, 1071, 32, 1087, 1086, 1084, 1085, 1102, 44, 32, 1095, 1090, 1086, 58, 32] \<comment> \<open>U+1F4DA Ya pomnyu, chto:\<close>)
      @ fact_text)"

definition recall_none :: ustr where
  "recall_none =
    ([1071, 32, 1077, 1097, 1077, 32, 1084, 1072, 1083, 1086, 32, 1095, 1090, 1086, 32,
       1079, 1085, 1072, 1102, 46, 32, 1056, 1072, 1089, 1089, 1082, 1072, 1078, 1080, 32,
       1084, 1085, 1077, 32, 1095, 1090, 1086, 45, 1085, 1080, 1073, 1091, 1076, 1100, 32,
       1080, 1085, 1090, 1077, 1088, 1077, 1089, 1085, 1086, 1077, 33] \<comment> \<open>Ya eshche malo chto znayu. Rasskazhi mne chto-nibud inter...\<close>)"

fun recall_qna :: "ustr \<Rightarrow> (ustr \<times> ustr) list \<Rightarrow> ustr option" where
  "recall_qna m [] = None"
| "recall_qna m ((question, answer) # items) =
     (if sublist question m then Some answer else recall_qna m items)"

definition recall_info :: "unicode \<Rightarrow> nat \<Rightarrow> knowledge \<Rightarrow> ustr \<Rightarrow> exn + ustr" where
  "recall_info U r K message =
     (case (case learned_facts K of None \<Rightarrow> [] | Some l \<Rightarrow> l) of
        x # xs \<Rightarrow> Inr (recall_fact (fact (choice r (map snd (x # xs)))))
      | [] \<Rightarrow>
          (case qna K of
             None \<Rightarrow> Inl KeyError
           | Some items \<Rightarrow>
               (case recall_qna (lower U message) items of
                  Some answer \<Rightarrow> Inr answer
                | None \<Rightarrow> Inr recall_none)))"

definition clear_memory_text :: ustr where
  "clear_memory_text =
    ([1044, 1083, 1103, 32, 1086, 1095, 1080, 1089, 1090, 1082, 1080, 32, 1087, 1072,
       1084, 1103, 1090, 1080, 32, 1080, 1089, 1087, 1086, 1083, 1100, 1079, 1091, 1081,
       32, 1082, 1086, 1084, 1072, 1085, 1076, 1091, 32, 47, 99, 108, 101, 97, 114, 109,
       101, 109, 111, 114, 121] \<comment> \<open>Dlya ochistki pamyati ispolzuj komandu clearmemory\<close>)"

definition how_i_learn_text :: "ustr \<Rightarrow> int \<Rightarrow> int \<Rightarrow> int \<Rightarrow> int \<Rightarrow> ustr" where
  "how_i_learn_text onoff learned corrections messages users =
    (([129504, 32, 42, 1050, 1072, 1082, 32, 1103, 32, 1091, 1095, 1091, 1089, 1100, 58,
       42, 10, 8226, 32, 1040, 1074, 1090, 1086, 1086, 1073, 1091, 1095, 1077, 1085, 1080,
       1077, 58, 32] \<comment> \<open>U+1F9E0 Kak ya uchus: / U+2022 Avtoobuchenie:\<close>)
      @ onoff
      @ ([10, 8226, 32, 1042, 1099, 1091, 1095, 1077, 1085, 1086, 32, 1086, 1090, 1074, 1077,
       1090, 1086, 1074, 58, 32] \<comment> \<open>/ U+2022 Vyucheno otvetov:\<close>)
      @ str_int learned
      @ ([10, 8226, 32, 1055, 1086, 1083, 1091, 1095, 1077, 1085, 1086, 32, 1080, 1089, 1087,
       1088, 1072, 1074, 1083, 1077, 1085, 1080, 1081, 58, 32] \<comment> \<open>/ U+2022 Polucheno ispravlenij:\<close>)
      @ str_int corrections
      @ ([10, 8226, 32, 1042, 1089, 1077, 1075, 1086, 32, 1089, 1086, 1086, 1073, 1097, 1077,
       1085, 1080, 1081, 58, 32] \<comment> \<open>/ U+2022 Vsego soobshchenij:\<close>)
      @ str_int messages
      @ ([10, 8226, 32, 1042, 1089, 1077, 1075, 1086, 32, 1087, 1086, 1083, 1100, 1079, 1086,
       1074, 1072, 1090, 1077, 1083, 1077, 1081, 58, 32] \<comment> \<open>/ U+2022 Vsego polzovatelej:\<close>)
      @ str_int users
      @ ([10, 10, 1050, 1086, 1075, 1076, 1072, 32, 1103, 32, 1085, 1077, 32, 1079, 1085,
       1072, 1102, 32, 1086, 1090, 1074, 1077, 1090, 1072, 44, 32, 1103, 32, 1089, 1087,
       1088, 1072, 1096, 1080, 1074, 1072, 1102, 32, 1091, 32, 1074, 1072, 1089, 33, 32,
       128161] \<comment> \<open>/ / Kogda ya ne znayu otveta, ya sprashivayu u vas! U+1F4A1\<close>))"

definition how_i_learn :: "learning_modes \<Rightarrow> knowledge \<Rightarrow> exn + ustr" where
  "how_i_learn L K =
     (case statistics K ''learned_qna'' of
        None \<Rightarrow> Inl KeyError
      | Some learned \<Rightarrow>
     (case statistics K ''corrections_received'' of
        None \<Rightarrow> Inl KeyError
      | Some corrections \<Rightarrow>
     (case statistics K ''total_messages'' of
        None \<Rightarrow> Inl KeyError
      | Some messages \<Rightarrow>
          Inr (how_i_learn_text
                (if auto_correction L then [1042, 1050, 1051] \<comment> \<open>VKL\<close>
                 else [1042, 1067, 1050, 1051] \<comment> \<open>VYKL\<close>)
                learned corrections messages
                (case statistics K ''total_users'' of None \<Rightarrow> 0 | Some n \<Rightarrow> n)))))"

definition weather_handler :: ustr where
  "weather_handler =
    ([127780, 65039, 32, 1053, 1072, 1087, 1080, 1096, 1080, 32, 1085, 1072, 1079, 1074,
       1072, 1085, 1080, 1077, 32, 1075, 1086, 1088, 1086, 1076, 1072, 32, 1076, 1083,
       1103, 32, 1087, 1086, 1083, 1091, 1095, 1077, 1085, 1080, 1103, 32, 1087, 1086,
       1075, 1086, 1076, 1099, 44, 32, 1085, 1072, 1087, 1088, 1080, 1084, 1077, 1088, 58,
       32, 39, 1052, 1086, 1089, 1082, 1074, 1072, 39, 32, 1080, 1083, 1080, 32, 39, 1087,
       1086, 1075, 1086, 1076, 1072, 32, 1052, 1086, 1089, 1082, 1074, 1072, 39] \<comment> \<open>U+1F324U+FE0F Napishi nazvanie goroda dlya polucheniya po...\<close>)"

definition user_stats_text :: "user_profile \<Rightarrow> ustr" where
  "user_stats_text p =
    (([10, 128202, 32, 42, 1058, 1074, 1086, 1103, 32, 1089, 1090, 1072, 1090, 1080, 1089,
       1090, 1080, 1082, 1072, 58, 42, 10, 8226, 32, 1057, 1086, 1086, 1073, 1097, 1077,
       1085, 1080, 1081, 58, 32] \<comment> \<open>/ U+1F4CA Tvoya statistika: / U+2022 Soobshchenij:\<close>)
      @ str_int (total_messages p)
      @ ([10, 8226, 32, 1042, 1085, 1077, 1089, 1077, 1085, 1086, 32, 1079, 1085, 1072, 1085,
       1080, 1081, 58, 32] \<comment> \<open>/ U+2022 Vneseno znanij:\<close>)
      @ str_int (learned_contributions p)
      @ ([10, 8226, 32, 1044, 1080, 1072, 1083, 1086, 1075, 1086, 1074, 58, 32] \<comment> \<open>/ U+2022 Dialogov:\<close>)
      @ str_int (conversation_count p))"

definition stats_text :: "int \<Rightarrow> int \<Rightarrow> int \<Rightarrow> ustr \<Rightarrow> ustr" where
  "stats_text messages learned users user_stats =
    (([128200, 32, 42, 1043, 1083, 1086, 1073, 1072, 1083, 1100, 1085, 1072, 1103, 32,
       1089, 1090, 1072, 1090, 1080, 1089, 1090, 1080, 1082, 1072, 58, 42, 10, 8226, 32,
       1042, 1089, 1077, 1075, 1086, 32, 1089, 1086, 1086, 1073, 1097, 1077, 1085, 1080,
       1081, 58, 32] \<comment> \<open>U+1F4C8 Globalnaya statistika: / U+2022 Vsego soobshchenij:\<close>)
      @ str_int messages
      @ ([10, 8226, 32, 1042, 1099, 1091, 1095, 1077, 1085, 1086, 32, 1086, 1090, 1074, 1077,
       1090, 1086, 1074, 58, 32] \<comment> \<open>/ U+2022 Vyucheno otvetov:\<close>)
      @ str_int learned
      @ ([10, 8226, 32, 1042, 1089, 1077, 1075, 1086, 32, 1087, 1086, 1083, 1100, 1079, 1086,
       1074, 1072, 1090, 1077, 1083, 1077, 1081, 58, 32] \<comment> \<open>/ U+2022 Vsego polzovatelej:\<close>)
      @ str_int users
      @ user_stats)"

definition stats_handler :: "knowledge \<Rightarrow> user_profile option \<Rightarrow> exn + ustr" where
  "stats_handler K user_profile =
     (let user_stats = (case user_profile of None \<Rightarrow> [] | Some p \<Rightarrow> user_stats_text p) in
      case statistics K ''total_messages'' of
        None \<Rightarrow> Inl KeyError
      | Some messages \<Rightarrow>
     (case statistics K ''learned_qna'' of
        None \<Rightarrow> Inl KeyError
      | Some learned \<Rightarrow>
          Inr (stats_text messages learned
                (case statistics K ''total_users'' of None \<Rightarrow> 0 | Some n \<Rightarrow> n) user_stats)))"

definition currency_handler :: ustr where
  "currency_handler =
    ([128177, 32, 1060, 1091, 1085, 1082, 1094, 1080, 1103, 32, 1082, 1091, 1088, 1089,
       1086, 1074, 32, 1074, 1072, 1083, 1102, 1090, 32, 1074, 32, 1088, 1072, 1079, 1088,
       1072, 1073, 1086, 1090, 1082, 1077, 46, 32, 1057, 1082, 1086, 1088, 1086, 32, 1073,
       1091, 1076, 1077, 1090, 32, 1076, 1086, 1089, 1090, 1091, 1087, 1085, 1086, 33] \<comment> \<open>U+1F4B1 Funkciya kursov valyut v razrabotke. Skoro budet ...\<close>)"

definition news_handler :: ustr where
  "news_handler =
    ([128240, 32, 1060, 1091, 1085, 1082, 1094, 1080, 1103, 32, 1085, 1086, 1074, 1086,
       1089, 1090, 1077, 1081, 32, 1074, 32, 1088, 1072, 1079, 1088, 1072, 1073, 1086,
       1090, 1082, 1077, 46, 32, 1057, 1082, 1086, 1088, 1086, 32, 1073, 1091, 1076, 1077,
       1090, 32, 1076, 1086, 1089, 1090, 1091, 1087, 1085, 1086, 33] \<comment> \<open>U+1F4F0 Funkciya novostej v razrabotke. Skoro budet dostu...\<close>)"

definition jokes :: "ustr list" where
  "jokes =
    [([1042, 32, 1088, 1072, 1079, 1088, 1072, 1073, 1086, 1090, 1082, 1077] \<comment> \<open>V razrabotke\<close>)]"

definition joke_text :: "ustr \<Rightarrow> ustr" where
  "joke_text joke =
    (([128514, 32] \<comment> \<open>U+1F602\<close>)
      @ joke)"

definition joke_handler :: "nat \<Rightarrow> ustr" where
  "joke_handler r = joke_text (choice r jokes)"

subsection \<open>The rule table\<close>

text \<open>
  \<open>self.rules\<close>: a dictionary from pattern to bound method, in the order it is written.
  A pattern is the list of its alternatives.
\<close>

datatype handler =
  Greet | Goodbye | How_are_you | Thank_you | About_me | About_creator | Help | Time | Date
  | Remember_info | Recall_info | Clear_memory | How_i_learn | Weather_handler
  | Stats_handler | Currency_handler | News_handler | Joke_handler

definition rules :: "(ustr list \<times> handler) list" where
  "rules =
   [([[1087, 1088, 1080, 1074, 1077, 1090] \<comment> \<open>privet\<close>,
      [1079, 1076, 1088, 1072, 1074, 1089, 1090, 1074, 1091, 1081] \<comment> \<open>zdravstvuj\<close>,
      [104, 101, 108, 108, 111] \<comment> \<open>hello\<close>,
      [104, 105] \<comment> \<open>hi\<close>,
      [1093, 1072, 1081] \<comment> \<open>haj\<close>],
     Greet),
    ([[1087, 1086, 1082, 1072] \<comment> \<open>poka\<close>,
      [1087, 1088, 1086, 1097, 1072, 1081] \<comment> \<open>proshchaj\<close>,
      [1076, 1086, 32, 1089, 1074, 1080, 1076, 1072, 1085, 1080, 1103] \<comment> \<open>do svidaniya\<close>,
      [98, 121, 101] \<comment> \<open>bye\<close>],
     Goodbye),
    ([[1082, 1072, 1082, 32, 1076, 1077, 1083, 1072] \<comment> \<open>kak dela\<close>,
      [1082, 1072, 1082, 32, 1090, 1099] \<comment> \<open>kak ty\<close>,
      [104, 111, 119, 32, 97, 114, 101, 32, 121, 111, 117] \<comment> \<open>how are you\<close>],
     How_are_you),
    ([[1089, 1087, 1072, 1089, 1080, 1073, 1086] \<comment> \<open>spasibo\<close>,
      [1073, 1083, 1072, 1075, 1086, 1076, 1072, 1088, 1102] \<comment> \<open>blagodaryu\<close>,
      [116, 104, 97, 110, 107, 115] \<comment> \<open>thanks\<close>],
     Thank_you),
    ([[1090, 1074, 1086, 1077, 32, 1080, 1084, 1103] \<comment> \<open>tvoe imya\<close>,
      [1090, 1077, 1073, 1103, 32, 1079, 1086, 1074, 1091, 1090] \<comment> \<open>tebya zovut\<close>,
      [119, 104, 111, 32, 97, 114, 101, 32, 121, 111, 117] \<comment> \<open>who are you\<close>],
     About_me),
    ([[1089, 1086, 1079, 1076, 1072, 1090, 1077, 1083, 1100] \<comment> \<open>sozdatel\<close>,
      [1082, 1090, 1086, 32, 1089, 1086, 1079, 1076, 1072, 1083] \<comment> \<open>kto sozdal\<close>,
      [119, 104, 111, 32, 99, 114, 101, 97, 116, 101, 100] \<comment> \<open>who created\<close>],
     About_creator),
    ([[1087, 1086, 1084, 1086, 1097, 1100] \<comment> \<open>pomoshch\<close>,
      [104, 101, 108, 112] \<comment> \<open>help\<close>,
      [1095, 1090, 1086, 32, 1090, 1099, 32, 1091, 1084, 1077, 1077, 1096, 1100] \<comment> \<open>chto ty umeesh\<close>],
     Help),
    ([[1074, 1088, 1077, 1084, 1103] \<comment> \<open>vremya\<close>,
      [1082, 1086, 1090, 1086, 1088, 1099, 1081, 32, 1095, 1072, 1089] \<comment> \<open>kotoryj chas\<close>,
      [116, 105, 109, 101] \<comment> \<open>time\<close>],
     Time),
    ([[1076, 1072, 1090, 1072] \<comment> \<open>data\<close>,
      [1095, 1080, 1089, 1083, 1086] \<comment> \<open>chislo\<close>,
      [1082, 1072, 1082, 1086, 1077, 32, 1095, 1080, 1089, 1083, 1086] \<comment> \<open>kakoe chislo\<close>],
     Date),
    ([[1079, 1072, 1087, 1086, 1084, 1085, 1080] \<comment> \<open>zapomni\<close>,
      [114, 101, 109, 101, 109, 98, 101, 114, 32, 116, 104, 97, 116] \<comment> \<open>remember that\<close>],
     Remember_info),
    ([[1095, 1090, 1086, 32, 1090, 1099, 32, 1079, 1085, 1072, 1077, 1096, 1100] \<comment> \<open>chto ty znaesh\<close>,
      [1088, 1072, 1089, 1089, 1082, 1072, 1078, 1080, 32, 1086] \<comment> \<open>rasskazhi o\<close>,
      [1095, 1090, 1086, 32, 1079, 1085, 1072, 1077, 1096, 1100] \<comment> \<open>chto znaesh\<close>],
     Recall_info),
    ([[1086, 1095, 1080, 1089, 1090, 1080, 32, 1087, 1072, 1084, 1103, 1090, 1100] \<comment> \<open>ochisti pamyat\<close>,
      [1079, 1072, 1073, 1091, 1076, 1100, 32, 1074, 1089, 1077] \<comment> \<open>zabud vse\<close>],
     Clear_memory),
    ([[1082, 1072, 1082, 32, 1091, 1095, 1080, 1096, 1100, 1089, 1103] \<comment> \<open>kak uchishsya\<close>,
      [1082, 1072, 1082, 32, 1086, 1073, 1091, 1095, 1072, 1077, 1096, 1100, 1089, 1103] \<comment> \<open>kak obuchaeshsya\<close>],
     How_i_learn),
    ([[1087, 1086, 1075, 1086, 1076, 1072] \<comment> \<open>pogoda\<close>,
      [119, 101, 97, 116, 104, 101, 114] \<comment> \<open>weather\<close>,
      [1087, 1088, 1086, 1075, 1085, 1086, 1079] \<comment> \<open>prognoz\<close>],
     Weather_handler),
    ([[1089, 1090, 1072, 1090, 1080, 1089, 1090, 1080, 1082, 1072] \<comment> \<open>statistika\<close>,
      [115, 116, 97, 116, 115] \<comment> \<open>stats\<close>,
      [1084, 1086, 1103, 32, 1089, 1090, 1072, 1090, 1080, 1089, 1090, 1080, 1082, 1072] \<comment> \<open>moya statistika\<close>],
     Stats_handler),
    ([[1082, 1091, 1088, 1089, 32, 1074, 1072, 1083, 1102, 1090] \<comment> \<open>kurs valyut\<close>,
      [1082, 1091, 1088, 1089, 32, 1076, 1086, 1083, 1083, 1072, 1088, 1072] \<comment> \<open>kurs dollara\<close>,
      [1082, 1091, 1088, 1089, 32, 1077, 1074, 1088, 1086] \<comment> \<open>kurs evro\<close>],
     Currency_handler),
    ([[1085, 1086, 1074, 1086, 1089, 1090, 1080] \<comment> \<open>novosti\<close>,
      [110, 101, 119, 115] \<comment> \<open>news\<close>,
      [1095, 1090, 1086, 32, 1085, 1086, 1074, 1086, 1075, 1086] \<comment> \<open>chto novogo\<close>],
     News_handler),
    ([[1072, 1085, 1077, 1082, 1076, 1086, 1090] \<comment> \<open>anekdot\<close>,
      [1096, 1091, 1090, 1082, 1072] \<comment> \<open>shutka\<close>,
      [1088, 1072, 1089, 1089, 1082, 1072, 1078, 1080, 32, 1096, 1091, 1090, 1082, 1091] \<comment> \<open>rasskazhi shutku\<close>],
     Joke_handler)]"

text \<open>
  \<open>handler(user_message, user_profile)\<close>: the response and the document, or the
  exception the handler raises.
\<close>

fun run_handler ::
  "handler \<Rightarrow> unicode \<Rightarrow> 'd env \<Rightarrow> learning_modes \<Rightarrow> knowledge \<Rightarrow> ustr \<Rightarrow> user_profile option
   \<Rightarrow> exn + (ustr \<times> knowledge)" where
  "run_handler Greet U E L K m p = Inr (greet (rnd E) p, K)"
| "run_handler Goodbye U E L K m p = Inr (goodbye (rnd E) p, K)"
| "run_handler How_are_you U E L K m p = Inr (how_are_you (rnd E), K)"
| "run_handler Thank_you U E L K m p = Inr (thank_you (rnd E), K)"
| "run_handler About_me U E L K m p = map_sum id (\<lambda>r. (r, K)) (about_me K)"
| "run_handler About_creator U E L K m p = map_sum id (\<lambda>r. (r, K)) (about_creator K)"
| "run_handler Help U E L K m p = Inr (help_text, K)"
| "run_handler Time U E L K m p = Inr (time_text (strftime_hms E), K)"
| "run_handler Date U E L K m p = Inr (date_text (strftime_dmy E), K)"
| "run_handler Remember_info U E L K m p = Inr (remember_info U (now E) K m p)"
| "run_handler Recall_info U E L K m p = map_sum id (\<lambda>r. (r, K)) (recall_info U (rnd E) K m)"
| "run_handler Clear_memory U E L K m p = Inr (clear_memory_text, K)"
| "run_handler How_i_learn U E L K m p = map_sum id (\<lambda>r. (r, K)) (how_i_learn L K)"
| "run_handler Weather_handler U E L K m p = Inr (weather_handler, K)"
| "run_handler Stats_handler U E L K m p = map_sum id (\<lambda>r. (r, K)) (stats_handler K p)"
| "run_handler Currency_handler U E L K m p = Inr (currency_handler, K)"
| "run_handler News_handler U E L K m p = Inr (news_handler, K)"
| "run_handler Joke_handler U E L K m p = Inr (joke_handler (rnd E), K)"

text \<open>The loop over \<open>self.rules.items()\<close>: the handler of the first pattern found.\<close>

fun first_rule :: "ustr \<Rightarrow> (ustr list \<times> handler) list \<Rightarrow> handler option" where
  "first_rule m [] = None"
| "first_rule m ((alts, h) # rs) = (if re_search_alts alts m then Some h else first_rule m rs)"

section \<open>Weather (\<open>get_weather\<close>)\<close>

definition weather_no_key :: ustr where
  "weather_no_key =
    ([127780, 65039, 32, 1044, 1083, 1103, 32, 1088, 1072, 1073, 1086, 1090, 1099, 32,
       1087, 1086, 1075, 1086, 1076, 1085, 1086, 1075, 1086, 32, 1089, 1077, 1088, 1074,
       1080, 1089, 1072, 32, 1085, 1091, 1078, 1077, 1085, 32, 65, 80, 73, 32, 1082, 1083,
       1102, 1095, 32, 79, 112, 101, 110, 87, 101, 97, 116, 104, 101, 114, 77, 97, 112, 46,
       10, 1044, 1086, 1073, 1072, 1074, 1100, 1090, 1077, 32, 1077, 1075, 1086, 32, 1074,
       32, 1092, 1072, 1081, 1083, 32, 119, 101, 97, 116, 104, 101, 114, 95, 99, 111, 110,
       102, 105, 103, 46, 106, 115, 111, 110] \<comment> \<open>U+1F324U+FE0F Dlya raboty pogodnogo servisa nuzhen API kl...\<close>)"

definition weather_url :: "weather_config \<Rightarrow> ustr \<Rightarrow> ustr" where
  "weather_url cfg city =
    (base_url cfg
      @ ([63, 113, 61] \<comment> \<open>?q=\<close>)
      @ city
      @ ([38, 97, 112, 112, 105, 100, 61] \<comment> \<open>&appid=\<close>)
      @ api_key cfg
      @ ([38, 117, 110, 105, 116, 115, 61] \<comment> \<open>&units=\<close>)
      @ units cfg
      @ ([38, 108, 97, 110, 103, 61] \<comment> \<open>&lang=\<close>)
      @ lang cfg)"

definition weather_not_found :: "ustr \<Rightarrow> ustr" where
  "weather_not_found city =
    (([127757, 32, 1043, 1086, 1088, 1086, 1076, 32, 39] \<comment> \<open>U+1F30D Gorod\<close>)
      @ city
      @ ([39, 32, 1085, 1077, 32, 1085, 1072, 1081, 1076, 1077, 1085, 46, 32, 1055, 1088,
       1086, 1074, 1077, 1088, 1100, 1090, 1077, 32, 1087, 1088, 1072, 1074, 1080, 1083,
       1100, 1085, 1086, 1089, 1090, 1100, 32, 1085, 1072, 1087, 1080, 1089, 1072, 1085,
       1080, 1103, 46] \<comment> \<open>ne najden. Proverte pravilnost napisaniya.\<close>))"

definition weather_bad_status :: "int \<Rightarrow> ustr" where
  "weather_bad_status status =
    (([9888, 65039, 32, 1054, 1096, 1080, 1073, 1082, 1072, 32, 1087, 1086, 1083, 1091,
       1095, 1077, 1085, 1080, 1103, 32, 1087, 1086, 1075, 1086, 1076, 1099, 46, 32, 1050,
       1086, 1076, 32, 1086, 1096, 1080, 1073, 1082, 1080, 58, 32] \<comment> \<open>U+26A0U+FE0F Oshibka polucheniya pogody. Kod oshibki:\<close>)
      @ str_int status)"

definition weather_failed :: "ustr \<Rightarrow> ustr" where
  "weather_failed detail =
    (([9888, 65039, 32, 1055, 1088, 1086, 1080, 1079, 1086, 1096, 1083, 1072, 32, 1086,
       1096, 1080, 1073, 1082, 1072, 32, 1087, 1088, 1080, 32, 1087, 1086, 1083, 1091,
       1095, 1077, 1085, 1080, 1080, 32, 1087, 1086, 1075, 1086, 1076, 1099, 58, 32] \<comment> \<open>U+26A0U+FE0F Proizoshla oshibka pri poluchenii pogody:\<close>)
      @ detail)"

text \<open>
  The test of the cache: the text of the entry for the city, when there is one and
  \<open>current_time - cache_time < self.cache_duration\<close>.
\<close>

definition cache_lookup :: "core \<Rightarrow> ustr \<Rightarrow> int \<Rightarrow> ustr option" where
  "cache_lookup C city_lower current_time =
     (case weather_cache C city_lower of
        None \<Rightarrow> None
      | Some (cache_time, weather_data) \<Rightarrow>
          if current_time - cache_time < cache_duration then Some weather_data else None)"

text \<open>
  \<open>get_weather\<close> returns the text, the core, and the requests it sent to the provider
  (their URLs). Everything from the request to the formatting stands in the \<open>try\<close>
  block, whose \<open>except Exception\<close> turns an exception into a text; closing the session and
  the response is taken not to fail.
\<close>

definition get_weather :: "unicode \<Rightarrow> 'd env \<Rightarrow> core \<Rightarrow> ustr \<Rightarrow> ustr \<times> core \<times> ustr list" where
  "get_weather U E C city =
     (let city_lower = lower U city;
          current_time = now E
      in case cache_lookup C city_lower current_time of
           Some weather_data \<Rightarrow> (weather_data, C, [])
         | None \<Rightarrow>
             if api_key (weather_config C) = [] then (weather_no_key, C, [])
             else
               (let url = weather_url (weather_config C) city in
                case http_get E url of
                  Failed detail \<Rightarrow> (weather_failed detail, C, [url])
                | Reply status body \<Rightarrow>
                    if status = 200 then
                      (case body of
                         Inl detail \<Rightarrow> (weather_failed detail, C, [url])
                       | Inr data \<Rightarrow>
                           (case format_weather_data E data of
                              Inl detail \<Rightarrow> (weather_failed detail, C, [url])
                            | Inr weather \<Rightarrow>
                                (weather,
                                 C\<lparr>weather_cache :=
                                     (weather_cache C)(city_lower \<mapsto> (current_time, weather))\<rparr>,
                                 [url])))
                    else if status = 404 then (weather_not_found city, C, [url])
                    else (weather_bad_status status, C, [url])))"

section \<open>A turn (\<open>process_message\<close>)\<close>

text \<open>
  The dictionary \<open>process_message\<close> returns: \<open>"correction_data"\<close> is a key of the
  teach-me outcome only.
\<close>

record outcome =
  response :: ustr
  needs_followup :: bool
  action :: "string option"
  correction_data :: "(string \<times> ustr) list option"

definition correction_confirm :: "ustr \<Rightarrow> ustr \<Rightarrow> ustr" where
  "correction_confirm question answer =
    (([9989, 32, 1054, 1090, 1083, 1080, 1095, 1085, 1086, 33, 32, 1047, 1072, 1087, 1086,
       1084, 1085, 1080, 1083, 58, 32, 1085, 1072, 32, 1074, 1086, 1087, 1088, 1086, 1089,
       32, 39] \<comment> \<open>U+2705 Otlichno! Zapomnil: na vopros\<close>)
      @ question
      @ ([39, 32, 1085, 1091, 1078, 1085, 1086, 32, 1086, 1090, 1074, 1077, 1095, 1072, 1090,
       1100, 58, 32, 39] \<comment> \<open>nuzhno otvechat:\<close>)
      @ answer
      @ ([39]))"

definition weather_words :: "ustr list" where
  "weather_words =
    [([1087, 1086, 1075, 1086, 1076, 1072] \<comment> \<open>pogoda\<close>),
     ([119, 101, 97, 116, 104, 101, 114] \<comment> \<open>weather\<close>),
     ([1087, 1088, 1086, 1075, 1085, 1086, 1079] \<comment> \<open>prognoz\<close>)]"

definition weather_prompt :: ustr where
  "weather_prompt =
    ([127780, 65039, 32, 1053, 1072, 1087, 1080, 1096, 1080, 32, 1085, 1072, 1079, 1074,
       1072, 1085, 1080, 1077, 32, 1075, 1086, 1088, 1086, 1076, 1072, 32, 1076, 1083,
       1103, 32, 1087, 1086, 1083, 1091, 1095, 1077, 1085, 1080, 1103, 32, 1087, 1086,
       1075, 1086, 1076, 1099] \<comment> \<open>U+1F324U+FE0F Napishi nazvanie goroda dlya polucheniya po...\<close>)"

definition teach_prompt :: "ustr \<Rightarrow> ustr" where
  "teach_prompt user_message =
    (([129300, 32, 1071, 32, 1085, 1077, 32, 1091, 1074, 1077, 1088, 1077, 1085, 32, 1074,
       32, 1086, 1090, 1074, 1077, 1090, 1077, 32, 1085, 1072, 32, 1074, 1086, 1087, 1088,
       1086, 1089, 58, 32, 39] \<comment> \<open>U+1F914 Ya ne uveren v otvete na vopros:\<close>)
      @ user_message
      @ ([39, 46, 32, 1052, 1086, 1078, 1077, 1096, 1100, 32, 1087, 1086, 1076, 1089, 1082,
       1072, 1079, 1072, 1090, 1100, 32, 1087, 1088, 1072, 1074, 1080, 1083, 1100, 1085,
       1099, 1081, 32, 1086, 1090, 1074, 1077, 1090, 63] \<comment> \<open>. Mozhesh podskazat pravilnyj otvet?\<close>))"

definition fallback_responses :: "ustr \<Rightarrow> ustr list" where
  "fallback_responses user_message =
    [(([1048, 1079, 1074, 1080, 1085, 1080, 44, 32, 1103, 32, 1085, 1077, 32, 1089, 1086,
       1074, 1089, 1077, 1084, 32, 1087, 1086, 1085, 1103, 1083, 32, 1074, 1086, 1087,
       1088, 1086, 1089, 58, 32, 39] \<comment> \<open>Izvini, ya ne sovsem ponyal vopros:\<close>)
      @ user_message
      @ ([39, 46, 32, 1052, 1086, 1078, 1077, 1096, 1100, 32, 1087, 1077, 1088, 1077, 1092,
       1086, 1088, 1084, 1091, 1083, 1080, 1088, 1086, 1074, 1072, 1090, 1100, 63] \<comment> \<open>. Mozhesh pereformulirovat?\<close>)),
     (([1048, 1085, 1090, 1077, 1088, 1077, 1089, 1085, 1086, 46, 46, 46, 32, 39] \<comment> \<open>Interesno...\<close>)
      @ user_message
      @ ([39, 46, 32, 1044, 1072, 1074, 1072, 1081, 32, 1087, 1086, 1075, 1086, 1074, 1086,
       1088, 1080, 1084, 32, 1086, 32, 1095, 1077, 1084, 45, 1085, 1080, 1073, 1091, 1076,
       1100, 32, 1076, 1088, 1091, 1075, 1086, 1084, 63] \<comment> \<open>. Davaj pogovorim o chem-nibud drugom?\<close>)),
     (([1055, 1086, 1082, 1072, 32, 1103, 32, 1085, 1077, 32, 1075, 1086, 1090, 1086, 1074,
       32, 1086, 1090, 1074, 1077, 1090, 1080, 1090, 1100, 32, 1085, 1072, 32, 1101, 1090,
       1086, 1090, 32, 1074, 1086, 1087, 1088, 1086, 1089, 46, 32, 1057, 1087, 1088, 1086,
       1089, 1080, 32, 1095, 1090, 1086, 45, 1085, 1080, 1073, 1091, 1076, 1100, 32, 1076,
       1088, 1091, 1075, 1086, 1077, 33] \<comment> \<open>Poka ya ne gotov otvetit na etot vopros. Sprosi chto-nibu...\<close>)),
     (([1061, 1084, 44, 32, 1084, 1085, 1077, 32, 1085, 1091, 1078, 1085, 1086, 32, 1087,
       1086, 1076, 1091, 1084, 1072, 1090, 1100, 32, 1085, 1072, 1076, 32, 1101, 1090,
       1080, 1084, 46, 32, 1040, 32, 1087, 1086, 1082, 1072, 32, 1084, 1086, 1075, 1091,
       32, 1086, 1090, 1074, 1077, 1090, 1080, 1090, 1100, 32, 1085, 1072, 32, 1076, 1088,
       1091, 1075, 1080, 1077, 32, 1074, 1086, 1087, 1088, 1086, 1089, 1099, 33] \<comment> \<open>Hm, mne nuzhno podumat nad etim. A poka mogu otvetit na d...\<close>)),
     (([1071, 32, 1077, 1097, 1077, 32, 1091, 1095, 1091, 1089, 1100, 33, 32, 1057, 1087,
       1088, 1086, 1089, 1080, 32, 1084, 1077, 1085, 1103, 32, 1086, 32, 1095, 1077, 1084,
       45, 1090, 1086, 32, 1076, 1088, 1091, 1075, 1086, 1084, 44, 32, 1085, 1072, 1087,
       1088, 1080, 1084, 1077, 1088, 32, 1086, 32, 1087, 1086, 1075, 1086, 1076, 1077, 32,
       1080, 1083, 1080, 32, 1074, 1088, 1077, 1084, 1077, 1085, 1080, 46] \<comment> \<open>Ya eshche uchus! Sprosi menya o chem-to drugom, naprimer ...\<close>))]"

definition get_fallback_response :: "nat \<Rightarrow> ustr \<Rightarrow> ustr" where
  "get_fallback_response r user_message = choice r (fallback_responses user_message)"

text \<open>\<open>_learn_from_interaction\<close>; \<open>sorted\<close> orders texts as lists of code points.\<close>

definition learn_from_interaction :: "unicode \<Rightarrow> knowledge \<Rightarrow> ustr \<Rightarrow> ustr \<Rightarrow> knowledge" where
  "learn_from_interaction U K question answer =
     (let keywords = extract_keywords U (lower U question) in
      if length keywords \<ge> 2 then
        (let key = join [32] (take 2 (sort keywords));
             stats = (case interaction_stats K of None \<Rightarrow> Map.empty | Some s \<Rightarrow> s);
             answers = (case stats key of None \<Rightarrow> Map.empty | Some a \<Rightarrow> a);
             n = (case answers answer of None \<Rightarrow> 0 | Some n \<Rightarrow> n)
         in K\<lparr>interaction_stats := Some (stats(key \<mapsto> answers(answer \<mapsto> n + 1)))\<rparr>)
      else K)"

text \<open>
  The question a correction answers: \<open>is_correction and correction_data\<close>, then
  \<open>correction_data.get("question")\<close>, then \<open>if question\<close>. An empty dictionary and an
  empty text are false.
\<close>

definition pending_question :: "bool \<Rightarrow> (string \<times> ustr) list option \<Rightarrow> ustr option" where
  "pending_question is_correction cdata =
     (if is_correction then
        (case cdata of
           None \<Rightarrow> None
         | Some d \<Rightarrow>
             (case map_of d ''question'' of
                None \<Rightarrow> None
              | Some question \<Rightarrow> if question \<noteq> [] then Some question else None))
      else None)"

text \<open>The correction path, from the document after the two statistics updates.\<close>

definition apply_correction :: "unicode \<Rightarrow> int \<Rightarrow> knowledge \<Rightarrow> int \<Rightarrow> ustr \<Rightarrow> ustr \<Rightarrow> exn + knowledge" where
  "apply_correction U t K uid question answer =
     (let K1 = K\<lparr>qna := Some (AList.update (lower U question) answer (get_qna K))\<rparr>;
          K2 = update_user_stats t K1 uid ''learned_contributions''
      in case incr_statistic K2 ''learned_qna'' of
           Inl e \<Rightarrow> Inl e
         | Inr K3 \<Rightarrow> incr_statistic K3 ''corrections_received'')"

text \<open>
  \<open>process_message\<close> returns the outcome, the core, and the requests sent to the weather
  provider, or the exception it leaves to its caller.
\<close>

definition process_message ::
  "unicode \<Rightarrow> 'd env \<Rightarrow> core \<Rightarrow> int \<Rightarrow> ustr \<Rightarrow> ustr option \<Rightarrow> ustr option \<Rightarrow> ustr option
   \<Rightarrow> bool \<Rightarrow> (string \<times> ustr) list option \<Rightarrow> exn + (outcome \<times> core \<times> ustr list)" where
  "process_message U E C uid user_message uname fname lname is_correction cdata =
     (let (user_profile, K1) =
            get_or_create_user_profile (now E) (knowledge C) uid uname fname lname;
          K2 = update_user_stats (now E) K1 uid ''total_messages''
      in
      case pending_question is_correction cdata of
        Some question \<Rightarrow>
          (case apply_correction U (now E) K2 uid question user_message of
             Inl e \<Rightarrow> Inl e
           | Inr K3 \<Rightarrow>
               Inr (\<lparr>response = correction_confirm question user_message,
                     needs_followup = False, action = None, correction_data = None\<rparr>,
                    C\<lparr>knowledge := K3\<rparr>, []))
      | None \<Rightarrow>
      (case first_rule (lower U user_message) rules of
        Some h \<Rightarrow>
          (case run_handler h U E (learning_modes C) K2 user_message (Some user_profile) of
             Inl e \<Rightarrow> Inl e
           | Inr (resp, K3) \<Rightarrow>
               Inr (\<lparr>response = resp, needs_followup = False, action = None,
                     correction_data = None\<rparr>,
                    C\<lparr>knowledge := learn_from_interaction U K3 user_message resp\<rparr>, []))
      | None \<Rightarrow>
      (if truthy (check_qna_match U K2 user_message) then
         (let qna_answer = the (check_qna_match U K2 user_message) in
          Inr (\<lparr>response = qna_answer, needs_followup = False, action = None,
                correction_data = None\<rparr>,
               C\<lparr>knowledge := learn_from_interaction U K2 user_message qna_answer\<rparr>, []))
       else if list_ex (\<lambda>word. sublist word (lower U user_message)) weather_words then
         (case search_group weather_city_rx (lower U user_message) of
            Some g \<Rightarrow>
              (let (weather, C1, requests) = get_weather U E (C\<lparr>knowledge := K2\<rparr>) (strip g) in
               Inr (\<lparr>response = weather, needs_followup = False, action = None,
                     correction_data = None\<rparr>, C1, requests))
          | None \<Rightarrow>
              Inr (\<lparr>response = weather_prompt, needs_followup = True,
                    action = Some ''weather'', correction_data = None\<rparr>,
                   C\<lparr>knowledge := K2\<rparr>, []))
       else if calculate_confidence U K2 user_message < confidence_threshold (learning_modes C)
               \<and> auto_correction (learning_modes C) then
         Inr (\<lparr>response = teach_prompt user_message, needs_followup = True,
               action = Some ''correction'',
               correction_data = Some [(''question'', user_message)]\<rparr>,
              C\<lparr>knowledge := K2\<rparr>, [])
       else
         Inr (\<lparr>response = get_fallback_response (rnd E) user_message, needs_followup = False,
               action = None, correction_data = None\<rparr>,
              C\<lparr>knowledge := K2\<rparr>, []))))"

section \<open>Tables and surroundings for the examples\<close>

text \<open>
  The part of the Unicode tables for the Latin and the Cyrillic letters: \<open>str.lower\<close>
  maps \<open>A\<close>..\<open>Z\<close> and the capital Cyrillic letters (U+0400..U+042F) to their small
  letters, and \<open>\w\<close> holds of the ASCII letters, digits and underscore and of the
  Cyrillic letters. The examples are texts in these letters.
\<close>

definition lower_cp :: "int \<Rightarrow> int" where
  "lower_cp c =
     (if 65 \<le> c \<and> c \<le> 90 then c + 32
      else if 1040 \<le> c \<and> c \<le> 1071 then c + 32
      else if 1024 \<le> c \<and> c \<le> 1039 then c + 80
      else c)"

definition latin_cyrillic :: unicode where
  "latin_cyrillic =
     \<lparr>lower = map lower_cp,
      word_char = (\<lambda>c. (48 \<le> c \<and> c \<le> 57) \<or> (65 \<le> c \<and> c \<le> 90) \<or> c = 95
                      \<or> (97 \<le> c \<and> c \<le> 122) \<or> (1024 \<le> c \<and> c \<le> 1119))\<rparr>"

text \<open>A turn at instant \<open>t\<close> whose provider is out of reach.\<close>

definition offline :: "int \<Rightarrow> nat \<Rightarrow> unit env" where
  "offline t r =
     \<lparr>now = t, rnd = r,
      strftime_hms = [49, 50, 58, 48, 48, 58, 48, 48] \<comment> \<open>12:00:00\<close>,
      strftime_dmy = [48, 49, 46, 48, 49, 46, 50, 48, 50, 53] \<comment> \<open>01.01.2025\<close>,
      http_get = (\<lambda>url. Failed ([116, 105, 109, 101, 111, 117, 116] \<comment> \<open>timeout\<close>)),
      format_weather_data = (\<lambda>d. Inl [])\<rparr>"

text \<open>
  A turn at instant \<open>t\<close> whose provider replies with the given status and a body that
  decodes and formats to a fixed text.
\<close>

definition sample_weather :: ustr where
  "sample_weather = [43, 53, 46, 48, 32, 67, 44, 32, 1103, 1089, 1085, 1086] \<comment> \<open>+5.0 C, yasno\<close>"

definition replying :: "int \<Rightarrow> int \<Rightarrow> unit env" where
  "replying t status =
     \<lparr>now = t, rnd = 0,
      strftime_hms = [49, 50, 58, 48, 48, 58, 48, 48] \<comment> \<open>12:00:00\<close>,
      strftime_dmy = [48, 49, 46, 48, 49, 46, 50, 48, 50, 53] \<comment> \<open>01.01.2025\<close>,
      http_get = (\<lambda>url. Reply status (Inr ())),
      format_weather_data = (\<lambda>d. Inr sample_weather)\<rparr>"

text \<open>
  \<open>main\<close> sets the API key of the core it has made, when the configuration file gives
  one: \<open>bot.ai.weather_config.api_key = weather_api_key\<close>.
\<close>

definition with_api_key :: "ustr \<Rightarrow> core \<Rightarrow> core" where
  "with_api_key key C = C\<lparr>weather_config := (weather_config C)\<lparr>api_key := key\<rparr>\<rparr>"

definition keyed_core :: core where
  "keyed_core = with_api_key ([107, 51, 121] \<comment> \<open>k3y\<close>) (init_core default_knowledge)"

text \<open>The default document after three more answers have been stored.\<close>

definition taught :: knowledge where
  "taught =
     default_knowledge\<lparr>qna := Some
       (AList.update ([1076, 1086, 32, 1088, 1077, 32, 1084, 1080, 32, 1085, 1086, 1090, 1072] \<comment> \<open>do re mi nota\<close>)
          ([1053, 1086, 1090, 1099] \<comment> \<open>Noty\<close>)
       (AList.update ([1089, 1090, 1086, 1083, 1080, 1094, 1072, 32, 1092, 1088, 1072, 1085, 1094, 1080,
       1080] \<comment> \<open>stolica francii\<close>)
          ([1055, 1072, 1088, 1080, 1078] \<comment> \<open>Parizh\<close>)
       (AList.update ([1095, 1090, 1086, 32, 1090, 1072, 1082, 1086, 1077, 32, 1085, 1077, 1081, 1088,
       1086, 1089, 1077, 1090, 1100] \<comment> \<open>chto takoe nejroset\<close>)
          ([1053, 1077, 1081, 1088, 1086, 1089, 1077, 1090, 1100, 32, 45, 32, 1101, 1090, 1086,
       32, 1084, 1086, 1076, 1077, 1083, 1100] \<comment> \<open>Nejroset - eto model\<close>)
          (get_qna default_knowledge))))\<rparr>"

section \<open>Notions the properties are stated with\<close>

text \<open>
  The profile and the document a turn works with, after its first two steps
  (\<open>get_or_create_user_profile\<close>, then \<open>update_user_stats(user_id, "total_messages")\<close>).
\<close>

definition turn_profile ::
  "'d env \<Rightarrow> knowledge \<Rightarrow> int \<Rightarrow> ustr option \<Rightarrow> ustr option \<Rightarrow> ustr option \<Rightarrow> user_profile" where
  "turn_profile E K uid uname fname lname =
     fst (get_or_create_user_profile (now E) K uid uname fname lname)"

definition turn_document ::
  "'d env \<Rightarrow> knowledge \<Rightarrow> int \<Rightarrow> ustr option \<Rightarrow> ustr option \<Rightarrow> ustr option \<Rightarrow> knowledge" where
  "turn_document E K uid uname fname lname =
     update_user_stats (now E)
       (snd (get_or_create_user_profile (now E) K uid uname fname lname)) uid ''total_messages''"

text \<open>
  The entries of the default document that the handlers and the correction path read
  without a test: a document that has them raises no \<open>KeyError\<close>.
\<close>

definition doc_complete :: "knowledge \<Rightarrow> bool" where
  "doc_complete K \<longleftrightarrow>
     facts K ([1080, 1084, 1103] \<comment> \<open>imya\<close>) \<noteq> None \<and>
     facts K ([1074, 1077, 1088, 1089, 1080, 1103] \<comment> \<open>versiya\<close>) \<noteq> None \<and>
     facts K ([1094, 1077, 1083, 1100] \<comment> \<open>cel\<close>) \<noteq> None \<and>
     facts K ([1089, 1086, 1079, 1076, 1072, 1090, 1077, 1083, 1100] \<comment> \<open>sozdatel\<close>) \<noteq> None \<and>
     statistics K ''total_messages'' \<noteq> None \<and>
     statistics K ''learned_qna'' \<noteq> None \<and>
     statistics K ''corrections_received'' \<noteq> None \<and>
     qna K \<noteq> None"

text \<open>\<open>stats.get('total_users', 0)\<close>.\<close>

definition total_users :: "knowledge \<Rightarrow> int" where
  "total_users K = (case statistics K ''total_users'' of None \<Rightarrow> 0 | Some n \<Rightarrow> n)"

text \<open>
  The response variants a rule declares, as \<open>main.py\<close> writes them in its handler: the
  list handed to \<open>random.choice\<close> (the phrasings of \<open>_greet\<close>, \<open>_goodbye\<close>,
  \<open>_how_are_you\<close>, \<open>_thank_you\<close> and \<open>_joke_handler\<close>, the facts \<open>_recall_info\<close>
  chooses from), and for a handler that does not choose, its text: a fixed text, or a
  template filled with the facts, the counters, the clock or the part of the utterance it
  is declared to show. When the document lacks an entry the template needs, the rule has
  no variant.
\<close>

definition greeted_name :: "user_profile option \<Rightarrow> ustr option" where
  "greeted_name user_profile =
     (case user_profile of
        None \<Rightarrow> None
      | Some p \<Rightarrow>
          (case first_name p of
             None \<Rightarrow> None
           | Some fname \<Rightarrow> if fname \<noteq> [] then Some fname else None))"

definition declared_variants ::
  "handler \<Rightarrow> unicode \<Rightarrow> 'd env \<Rightarrow> learning_modes \<Rightarrow> knowledge \<Rightarrow> ustr \<Rightarrow> user_profile option
   \<Rightarrow> ustr list" where
  "declared_variants h U E L K m p =
     (case h of
        Greet \<Rightarrow> (case greeted_name p of None \<Rightarrow> greetings | Some fname \<Rightarrow> name_options fname)
      | Goodbye \<Rightarrow>
          (case greeted_name p of
             None \<Rightarrow> farewells
           | Some fname \<Rightarrow> map (goodbye_named fname) farewells)
      | How_are_you \<Rightarrow> how_are_you_responses
      | Thank_you \<Rightarrow> thank_you_responses
      | About_me \<Rightarrow>
          (case (facts K ([1080, 1084, 1103] \<comment> \<open>imya\<close>),
                 facts K ([1074, 1077, 1088, 1089, 1080, 1103] \<comment> \<open>versiya\<close>),
                 facts K ([1094, 1077, 1083, 1100] \<comment> \<open>cel\<close>)) of
             (Some name, Some version, Some goal) \<Rightarrow> [about_me_text name version goal]
           | _ \<Rightarrow> [])
      | About_creator \<Rightarrow>
          (case facts K ([1089, 1086, 1079, 1076, 1072, 1090, 1077, 1083, 1100] \<comment> \<open>sozdatel\<close>) of
             Some creator \<Rightarrow> [creator]
           | None \<Rightarrow> [])
      | Help \<Rightarrow> [help_text]
      | Time \<Rightarrow> [time_text (strftime_hms E)]
      | Date \<Rightarrow> [date_text (strftime_dmy E)]
      | Remember_info \<Rightarrow>
          (case search_group remember_rx (lower U m) of
             Some g \<Rightarrow> [remember_done (strip g)]
           | None \<Rightarrow> [remember_ask])
      | Recall_info \<Rightarrow>
          (case learned_facts K of
             Some (x # xs) \<Rightarrow> map (\<lambda>e. recall_fact (fact (snd e))) (x # xs)
           | _ \<Rightarrow>
               (case recall_qna (lower U m) (get_qna K) of
                  Some answer \<Rightarrow> [answer]
                | None \<Rightarrow> [recall_none]))
      | Clear_memory \<Rightarrow> [clear_memory_text]
      | How_i_learn \<Rightarrow>
          (case (statistics K ''learned_qna'', statistics K ''corrections_received'',
                 statistics K ''total_messages'') of
             (Some learned, Some corrections, Some messages) \<Rightarrow>
               [how_i_learn_text
                  (if auto_correction L then [1042, 1050, 1051] \<comment> \<open>VKL\<close>
                   else [1042, 1067, 1050, 1051] \<comment> \<open>VYKL\<close>)
                  learned corrections messages (total_users K)]
           | _ \<Rightarrow> [])
      | Weather_handler \<Rightarrow> [weather_handler]
      | Stats_handler \<Rightarrow>
          (case (statistics K ''total_messages'', statistics K ''learned_qna'') of
             (Some messages, Some learned) \<Rightarrow>
               [stats_text messages learned (total_users K)
                  (case p of None \<Rightarrow> [] | Some q \<Rightarrow> user_stats_text q)]
           | _ \<Rightarrow> [])
      | Currency_handler \<Rightarrow> [currency_handler]
      | News_handler \<Rightarrow> [news_handler]
      | Joke_handler \<Rightarrow> map joke_text jokes)"

text \<open>
  Keywords as the specification words them: the text is cut at every character that is not
  a word character, and of the pieces between the cuts those are kept that are longer than
  two characters and are no stop word. Like the program, the specification compares
  lower-cased texts.
\<close>

fun split_words :: "(int \<Rightarrow> bool) \<Rightarrow> ustr \<Rightarrow> ustr list" where
  "split_words w [] = [[]]"
| "split_words w (c # cs) =
     (if w c then
        (case split_words w cs of
           [] \<Rightarrow> [[c]]
         | piece # pieces \<Rightarrow> (c # piece) # pieces)
      else [] # split_words w cs)"

definition claimed_keywords :: "unicode \<Rightarrow> ustr \<Rightarrow> ustr list" where
  "claimed_keywords U text =
     filter (\<lambda>t. \<not> length t \<le> 2 \<and> t \<notin> set stop_words)
       (filter (\<lambda>t. t \<noteq> []) (split_words (word_char U) (lower U text)))"

text \<open>
  The resolution order of the QnA lookup as the specification words it: the first
  stored question equal to the lower-cased utterance; else the first that holds it or is
  held by it; else the first whose keywords share two or more with those of the
  utterance; else nothing.
\<close>

definition qna_resolution :: "unicode \<Rightarrow> (ustr \<times> ustr) list \<Rightarrow> ustr \<Rightarrow> ustr option" where
  "qna_resolution U items user_message =
     (let u = lower U user_message in
      case find (\<lambda>(question, answer). question = u) items of
        Some (question, answer) \<Rightarrow> Some answer
      | None \<Rightarrow>
      (case find (\<lambda>(question, answer). sublist question u \<or> sublist u question) items of
        Some (question, answer) \<Rightarrow> Some answer
      | None \<Rightarrow>
      (case find (\<lambda>(question, answer).
                    card (set (claimed_keywords U u) \<inter> set (claimed_keywords U question)) \<ge> 2)
              items of
        Some (question, answer) \<Rightarrow> Some answer
      | None \<Rightarrow> None)))"

text \<open>
  The score of one stored question, in two readings. As the specification words it, the
  number of keywords the question shares with the utterance over the larger of the sizes
  of the two keyword sets. As the program computes it, the same number over the larger
  of the two numbers of keyword occurrences: \<open>len\<close> of the two keyword lists, in which a
  repeated word counts each time.
\<close>

definition claimed_ratio :: "ustr list \<Rightarrow> ustr list \<Rightarrow> rat" where
  "claimed_ratio ks qs =
     of_nat (card (set ks \<inter> set qs)) / of_nat (max (card (set ks)) (card (set qs)))"

definition occurrence_ratio :: "ustr list \<Rightarrow> ustr list \<Rightarrow> rat" where
  "occurrence_ratio ks qs =
     of_nat (card (set ks \<inter> set qs)) / of_nat (max (length ks) (length qs))"

text \<open>
  The invariant of the user profiles: the counter is the number of profiles, and every
  profile is stored under its own \<open>user_id\<close> (as \<open>_save_user_profile\<close> stores it).
\<close>

definition users_inv :: "knowledge \<Rightarrow> bool" where
  "users_inv K \<longleftrightarrow>
     finite (dom (get_user_profiles K)) \<and>
     total_users K = int (card (dom (get_user_profiles K))) \<and>
     (\<forall>k p. get_user_profiles K k = Some p \<longrightarrow> user_id p = k)"

section \<open>What the updates of a turn leave alone\<close>

lemma get_qna_get_or_create [simp]:
  "get_qna (snd (get_or_create_user_profile t K uid a b c)) = get_qna K"
  by (simp add: get_qna_def get_or_create_user_profile_def save_user_profile_def Let_def
      split: option.splits)

lemma get_qna_update_user_stats [simp]: "get_qna (update_user_stats t K uid f) = get_qna K"
  by (simp add: get_qna_def update_user_stats_def Let_def split: option.splits)

lemma check_qna_match_cong:
  assumes "get_qna K' = get_qna K"
  shows "check_qna_match U K' m = check_qna_match U K m"
  unfolding check_qna_match_def assms by (rule refl)

lemma calculate_confidence_cong:
  assumes "get_qna K' = get_qna K"
  shows "calculate_confidence U K' m = calculate_confidence U K m"
  unfolding calculate_confidence_def assms by (rule refl)

lemma first_rule_None_iff:
  "first_rule m rs = None \<longleftrightarrow> (\<forall>(alts, h) \<in> set rs. \<not> re_search_alts alts m)"
  by (induction rs) (auto split: if_splits)

lemma weather_rule: "(weather_words, Weather_handler) \<in> set rules"
  by (simp add: rules_def weather_words_def)

lemma weather_word_rule:
  assumes "list_ex (\<lambda>w. sublist w m) weather_words"
  shows "first_rule m rules \<noteq> None"
proof
  assume "first_rule m rules = None"
  then have "\<not> re_search_alts weather_words m"
    using weather_rule by (auto simp: first_rule_None_iff)
  then show False using assms by (simp add: re_search_alts_def)
qed

section \<open>The steps of a turn\<close>

lemma choice_in_set: "xs \<noteq> [] \<Longrightarrow> choice r xs \<in> set xs"
  by (simp add: choice_def)

lemma choice_recall:
  assumes "l \<noteq> []"
  shows "recall_fact (fact (choice r (map snd l)))
         \<in> set (map (\<lambda>e. recall_fact (fact (snd e))) l)"
proof -
  have "choice r (map snd l) \<in> set (map snd l)"
    using assms by (intro choice_in_set) simp
  then obtain e where "e \<in> set l" "snd e = choice r (map snd l)"
    by auto
  then show ?thesis by force
qed

lemma first_rule_append:
  "\<forall>(a, g) \<in> set pre. \<not> re_search_alts a m \<Longrightarrow> first_rule m (pre @ rs) = first_rule m rs"
  by (induction pre) auto

lemma lists_nonempty [simp]:
  "greetings \<noteq> []" "name_options f \<noteq> []" "farewells \<noteq> []" "how_are_you_responses \<noteq> []"
  "thank_you_responses \<noteq> []" "jokes \<noteq> []" "fallback_responses m \<noteq> []"
  by (simp_all add: greetings_def name_options_def farewells_def how_are_you_responses_def
      thank_you_responses_def jokes_def fallback_responses_def)

lemma run_handler_variants:
  assumes "doc_complete K"
  shows "\<exists>r K'. run_handler h U E L K m p = Inr (r, K')
           \<and> r \<in> set (declared_variants h U E L K m p)"
proof (cases h)
  case Greet
  then show ?thesis
    by (auto simp: declared_variants_def greet_def greeted_name_def choice_in_set
        split: option.splits)
next
  case Goodbye
  then show ?thesis
    by (auto simp: declared_variants_def goodbye_def greeted_name_def choice_in_set
        split: option.splits)
next
  case About_me
  then show ?thesis using assms
    by (auto simp: declared_variants_def about_me_def doc_complete_def)
next
  case About_creator
  then show ?thesis using assms
    by (auto simp: declared_variants_def about_creator_def doc_complete_def)
next
  case Recall_info
  then show ?thesis using assms
    using choice_recall [of "the (learned_facts K)" "rnd E"]
    by (auto simp: declared_variants_def recall_info_def doc_complete_def get_qna_def
        split: option.splits list.splits)
next
  case How_i_learn
  then show ?thesis using assms
    by (auto simp: declared_variants_def how_i_learn_def doc_complete_def total_users_def)
next
  case Stats_handler
  then show ?thesis using assms
    by (auto simp: declared_variants_def stats_handler_def doc_complete_def Let_def
        total_users_def)
next
  case Remember_info
  then show ?thesis
    by (auto simp: declared_variants_def remember_info_def Let_def split: option.splits)
qed (auto simp: declared_variants_def how_are_you_def thank_you_def joke_handler_def
      choice_in_set)

lemma facts_turn_document [simp]: "facts (turn_document E K uid a b c) = facts K"
  by (simp add: turn_document_def get_or_create_user_profile_def save_user_profile_def
      update_user_stats_def Let_def split: option.splits)

lemma qna_turn_document [simp]: "qna (turn_document E K uid a b c) = qna K"
  by (simp add: turn_document_def get_or_create_user_profile_def save_user_profile_def
      update_user_stats_def Let_def split: option.splits)

lemma statistics_turn_document:
  "statistics K k \<noteq> None \<Longrightarrow> statistics (turn_document E K uid a b c) k \<noteq> None"
  by (simp add: turn_document_def get_or_create_user_profile_def save_user_profile_def
      update_user_stats_def Let_def split: option.splits)

lemma doc_complete_turn_document:
  "doc_complete K \<Longrightarrow> doc_complete (turn_document E K uid a b c)"
  by (simp add: doc_complete_def statistics_turn_document)

lemma process_message_turn:
  "process_message U E C uid m a b c ic cd =
     (case pending_question ic cd of
        Some question \<Rightarrow>
          (case apply_correction U (now E) (turn_document E (knowledge C) uid a b c) uid question m of
             Inl e \<Rightarrow> Inl e
           | Inr K3 \<Rightarrow>
               Inr (\<lparr>response = correction_confirm question m,
                     needs_followup = False, action = None, correction_data = None\<rparr>,
                    C\<lparr>knowledge := K3\<rparr>, []))
      | None \<Rightarrow>
      (case first_rule (lower U m) rules of
        Some h \<Rightarrow>
          (case run_handler h U E (learning_modes C) (turn_document E (knowledge C) uid a b c) m
                  (Some (turn_profile E (knowledge C) uid a b c)) of
             Inl e \<Rightarrow> Inl e
           | Inr (resp, K3) \<Rightarrow>
               Inr (\<lparr>response = resp, needs_followup = False, action = None,
                     correction_data = None\<rparr>,
                    C\<lparr>knowledge := learn_from_interaction U K3 m resp\<rparr>, []))
      | None \<Rightarrow>
      (if truthy (check_qna_match U (knowledge C) m) then
          Inr (\<lparr>response = the (check_qna_match U (knowledge C) m), needs_followup = False, action = None,
                correction_data = None\<rparr>,
               C\<lparr>knowledge := learn_from_interaction U (turn_document E (knowledge C) uid a b c) m (the (check_qna_match U (knowledge C) m))\<rparr>, [])
       else if list_ex (\<lambda>word. sublist word (lower U m)) weather_words then
         (case search_group weather_city_rx (lower U m) of
            Some g \<Rightarrow>
              (let (weather, C1, requests) = get_weather U E (C\<lparr>knowledge := turn_document E (knowledge C) uid a b c\<rparr>) (strip g) in
               Inr (\<lparr>response = weather, needs_followup = False, action = None,
                     correction_data = None\<rparr>, C1, requests))
          | None \<Rightarrow>
              Inr (\<lparr>response = weather_prompt, needs_followup = True,
                    action = Some ''weather'', correction_data = None\<rparr>,
                   C\<lparr>knowledge := turn_document E (knowledge C) uid a b c\<rparr>, []))
       else if calculate_confidence U (knowledge C) m < confidence_threshold (learning_modes C)
               \<and> auto_correction (learning_modes C) then
         Inr (\<lparr>response = teach_prompt m, needs_followup = True,
               action = Some ''correction'',
               correction_data = Some [(''question'', m)]\<rparr>,
              C\<lparr>knowledge := turn_document E (knowledge C) uid a b c\<rparr>, [])
       else
         Inr (\<lparr>response = get_fallback_response (rnd E) m, needs_followup = False,
               action = None, correction_data = None\<rparr>,
              C\<lparr>knowledge := turn_document E (knowledge C) uid a b c\<rparr>, []))))"
proof -
  have q: "get_qna (turn_document E (knowledge C) uid a b c) = get_qna (knowledge C)"
    by (simp add: turn_document_def)
  show ?thesis
    unfolding process_message_def Let_def split_beta
      turn_document_def [symmetric] turn_profile_def [symmetric]
      check_qna_match_cong [OF q] calculate_confidence_cong [OF q]
    by (rule refl)
qed

section \<open>The loops of the QnA lookup and of the confidence\<close>

lemma common_count_card: "common_count ks qs = card (set ks \<inter> set qs)"
proof -
  have "set (filter (\<lambda>k. k \<in> set qs) ks) = set ks \<inter> set qs"
    by auto
  then show ?thesis
    by (simp add: common_count_def length_remdups_card_conv)
qed

lemma map_of_find:
  "map_of items u = (case find (\<lambda>(q, a). q = u) items of None \<Rightarrow> None | Some (q, a) \<Rightarrow> Some a)"
  by (induction items) auto

lemma containment_match_find:
  "containment_match u items =
     (case find (\<lambda>(q, a). sublist q u \<or> sublist u q) items of
        None \<Rightarrow> None | Some (q, a) \<Rightarrow> Some a)"
proof (induction items)
  case Nil
  then show ?case by simp
next
  case (Cons x items)
  then show ?case by (cases x) simp
qed

lemma split_words_nonempty: "split_words w s \<noteq> []"
  by (induction s) (auto split: list.splits)

lemma findall_words_split:
  "findall_words w cur s
   = filter (\<lambda>t. t \<noteq> []) ((cur @ hd (split_words w s)) # tl (split_words w s))"
proof (induction s arbitrary: cur)
  case Nil
  then show ?case by simp
next
  case (Cons c cs)
  obtain piece pieces where p: "split_words w cs = piece # pieces"
    using split_words_nonempty [of w cs] by (cases "split_words w cs") auto
  show ?case
  proof (cases "w c")
    case True
    then show ?thesis using Cons.IH [of "cur @ [c]"] p by simp
  next
    case False
    then show ?thesis using Cons.IH [of "[]"] p by simp
  qed
qed

lemma extract_keywords_claimed: "extract_keywords U text = claimed_keywords U text"
proof -
  obtain piece pieces where p: "split_words (word_char U) (lower U text) = piece # pieces"
    using split_words_nonempty [of "word_char U" "lower U text"]
    by (cases "split_words (word_char U) (lower U text)") auto
  have f: "findall_words (word_char U) [] (lower U text)
           = filter (\<lambda>t. t \<noteq> []) (split_words (word_char U) (lower U text))"
    unfolding findall_words_split [of "word_char U" "[]" "lower U text"] p by simp
  have c: "(\<lambda>w. w \<notin> set stop_words \<and> length w > 2)
           = (\<lambda>t. \<not> length t \<le> 2 \<and> t \<notin> set stop_words)"
    by auto
  show ?thesis
    unfolding extract_keywords_def claimed_keywords_def Let_def f c by (rule refl)
qed

lemma keyword_match_find:
  "keyword_match U ks items =
     (case find (\<lambda>(q, a). card (set ks \<inter> set (claimed_keywords U q)) \<ge> 2) items of
        None \<Rightarrow> None | Some (q, a) \<Rightarrow> Some a)"
proof (induction items)
  case Nil
  then show ?case by simp
next
  case (Cons x items)
  then show ?case by (cases x) (simp add: common_count_card extract_keywords_claimed)
qed

lemma Max_insert_insert:
  fixes b c :: rat
  assumes "finite A"
  shows "Max (insert b (insert c A)) = Max (insert (max b c) A)"
proof (cases "A = {}")
  case True
  then show ?thesis by (simp add: max.commute)
next
  case False
  then show ?thesis using assms by (simp add: max.assoc)
qed

lemma occurrence_ratio_Nil: "occurrence_ratio ks [] = 0"
  by (simp add: occurrence_ratio_def)

lemma best_match_Max:
  assumes "0 \<le> b"
  shows "best_match U ks b qs
         = Max (insert b ((\<lambda>q. occurrence_ratio ks (claimed_keywords U q)) ` set qs))"
  using assms
proof (induction qs arbitrary: b)
  case Nil
  then show ?case by simp
next
  case (Cons q qs)
  let ?f = "\<lambda>q. occurrence_ratio ks (claimed_keywords U q)"
  have m: "Max (insert b (?f ` set (q # qs))) = Max (insert (max b (?f q)) (?f ` set qs))"
    using Max_insert_insert [of "?f ` set qs" b "?f q"] by simp
  show ?case
  proof (cases "claimed_keywords U q = []")
    case True
    then have "max b (?f q) = b"
      using Cons.prems by (simp add: occurrence_ratio_Nil)
    then show ?thesis
      using True Cons.IH [OF Cons.prems] m by (simp add: extract_keywords_claimed)
  next
    case False
    have "0 \<le> max b (?f q)"
      using Cons.prems by (simp add: max_def)
    from Cons.IH [OF this] False m show ?thesis
      by (simp add: occurrence_ratio_def common_count_card Let_def extract_keywords_claimed)
  qed
qed

lemma occurrence_ratio_nonneg: "0 \<le> occurrence_ratio ks qs"
  by (simp add: occurrence_ratio_def)

section \<open>Profiles and counters\<close>

lemma get_or_create_hit:
  assumes "get_user_profiles K uid = Some pd"
  shows "\<exists>profile. get_or_create_user_profile t K uid a b c = (profile, save_user_profile K profile)
           \<and> user_id profile = user_id pd
           \<and> conversation_count profile = conversation_count pd
           \<and> total_messages profile = total_messages pd
           \<and> learned_contributions profile = learned_contributions pd"
  unfolding get_or_create_user_profile_def assms option.case Let_def
  by simp

lemma get_or_create_miss:
  assumes "get_user_profiles K uid = None"
  shows "get_or_create_user_profile t K uid a b c =
           (\<lparr>user_id = uid, username = a, first_name = b, last_name = c,
             conversation_count = 1, total_messages = 0, learned_contributions = 0,
             last_active = t, preferences = []\<rparr>,
            save_user_profile
              (K\<lparr>statistics := (statistics K)(''total_users'' \<mapsto>
                 (case statistics K ''total_users'' of None \<Rightarrow> 0 | Some n \<Rightarrow> n) + 1)\<rparr>)
              \<lparr>user_id = uid, username = a, first_name = b, last_name = c,
                conversation_count = 1, total_messages = 0, learned_contributions = 0,
                last_active = t, preferences = []\<rparr>)"
  unfolding get_or_create_user_profile_def assms option.case Let_def
  by (rule refl)

lemma get_user_profiles_save [simp]:
  "get_user_profiles (save_user_profile K p) = (get_user_profiles K)(user_id p \<mapsto> p)"
  by (simp add: save_user_profile_def get_user_profiles_def)

lemma statistics_save [simp]: "statistics (save_user_profile K p) = statistics K"
  by (simp add: save_user_profile_def)

lemma get_user_profiles_statistics [simp]:
  "get_user_profiles (K\<lparr>statistics := s\<rparr>) = get_user_profiles K"
  by (simp add: get_user_profiles_def)

lemma get_user_profiles_update_user_stats_other:
  "k \<noteq> uid \<Longrightarrow> get_user_profiles (update_user_stats t K uid f) k = get_user_profiles K k"
  by (simp add: update_user_stats_def get_user_profiles_def Let_def split: option.splits)

lemma update_user_stats_miss:
  "get_user_profiles K uid = None \<Longrightarrow>
   get_user_profiles (update_user_stats t K uid f) = get_user_profiles K"
  by (simp add: update_user_stats_def get_user_profiles_def Let_def split: option.splits)

lemma update_user_stats_hit:
  assumes "get_user_profiles K uid = Some p"
  shows "\<exists>p'. get_user_profiles (update_user_stats t K uid f) = (get_user_profiles K)(uid \<mapsto> p')
           \<and> user_id p' = user_id p
           \<and> (f \<noteq> ''learned_contributions''
                \<longrightarrow> learned_contributions p' = learned_contributions p)
           \<and> (f = ''learned_contributions''
                \<longrightarrow> learned_contributions p' = learned_contributions p + 1)"
proof -
  define p1 where
    "p1 = (if f = ''total_messages'' then p\<lparr>total_messages := total_messages p + 1\<rparr>
           else if f = ''learned_contributions''
             then p\<lparr>learned_contributions := learned_contributions p + 1\<rparr>
           else if f = ''conversation_count''
             then p\<lparr>conversation_count := conversation_count p + 1\<rparr>
           else p)"
  have s: "get_user_profiles
             (case statistics X f of Some n \<Rightarrow> X\<lparr>statistics := (statistics X)(f \<mapsto> n + 1)\<rparr>
              | None \<Rightarrow> X) = get_user_profiles X" for X
    by (simp split: option.splits)
  have "get_user_profiles (update_user_stats t K uid f)
        = (get_user_profiles K)(uid \<mapsto> p1\<lparr>last_active := t\<rparr>)"
    unfolding update_user_stats_def Let_def assms option.case p1_def [symmetric] s
    by (simp add: get_user_profiles_def)
  moreover have "user_id (p1\<lparr>last_active := t\<rparr>) = user_id p"
    by (simp add: p1_def)
  moreover have "f \<noteq> ''learned_contributions''
      \<longrightarrow> learned_contributions (p1\<lparr>last_active := t\<rparr>) = learned_contributions p"
    by (simp add: p1_def)
  moreover have "f = ''learned_contributions''
      \<longrightarrow> learned_contributions (p1\<lparr>last_active := t\<rparr>) = learned_contributions p + 1"
    by (simp add: p1_def)
  ultimately show ?thesis by blast
qed

lemma statistics_update_user_stats:
  "k \<noteq> f \<Longrightarrow> statistics (update_user_stats t K uid f) k = statistics K k"
  by (simp add: update_user_stats_def Let_def split: option.splits)

lemma get_or_create_shape:
  "\<exists>p s. snd (get_or_create_user_profile t K uid a b c) = save_user_profile (K\<lparr>statistics := s\<rparr>) p
         \<and> (\<forall>k. k \<noteq> ''total_users'' \<longrightarrow> s k = statistics K k)"
proof (cases "get_user_profiles K uid")
  case None
  show ?thesis
    unfolding get_or_create_miss [OF None] snd_conv
    by (intro exI conjI, rule refl) simp
next
  case (Some pd)
  from get_or_create_hit [OF this, of t a b c] obtain profile where
    "get_or_create_user_profile t K uid a b c = (profile, save_user_profile K profile)"
    by blast
  then have "snd (get_or_create_user_profile t K uid a b c)
             = save_user_profile (K\<lparr>statistics := statistics K\<rparr>) profile"
    by simp
  then show ?thesis by blast
qed

lemma statistics_get_or_create:
  assumes "k \<noteq> ''total_users''"
  shows "statistics (snd (get_or_create_user_profile t K uid a b c)) k = statistics K k"
proof -
  obtain p s where "snd (get_or_create_user_profile t K uid a b c)
                    = save_user_profile (K\<lparr>statistics := s\<rparr>) p"
    and "\<forall>k. k \<noteq> ''total_users'' \<longrightarrow> s k = statistics K k"
    using get_or_create_shape by blast
  then show ?thesis using assms by simp
qed

lemma profile_get_or_create:
  "\<exists>p. get_user_profiles (snd (get_or_create_user_profile t K uid a b c)) uid = Some p
       \<and> learned_contributions p
           = (case get_user_profiles K uid of None \<Rightarrow> 0 | Some q \<Rightarrow> learned_contributions q)"
proof (cases "get_user_profiles K uid")
  case None
  then show ?thesis by (simp add: get_or_create_miss)
next
  case (Some pd)
  from get_or_create_hit [OF this, of t a b c] obtain profile where
    "get_or_create_user_profile t K uid a b c = (profile, save_user_profile K profile)"
    "user_id profile = user_id pd" "learned_contributions profile = learned_contributions pd"
    by blast
  then show ?thesis using Some by (cases "user_id pd = uid") simp_all
qed

lemma profile_turn_document:
  "\<exists>p. get_user_profiles (turn_document E K uid a b c) uid = Some p
       \<and> learned_contributions p
           = (case get_user_profiles K uid of None \<Rightarrow> 0 | Some q \<Rightarrow> learned_contributions q)"
proof -
  obtain p where p: "get_user_profiles (snd (get_or_create_user_profile (now E) K uid a b c)) uid
                  = Some p"
    and l: "learned_contributions p
         = (case get_user_profiles K uid of None \<Rightarrow> 0 | Some q \<Rightarrow> learned_contributions q)"
    using profile_get_or_create by blast
  from update_user_stats_hit [OF p, of "now E" "''total_messages''"] l
  show ?thesis by (auto simp: turn_document_def)
qed

lemma statistics_turn_document_other:
  "k \<noteq> ''total_users'' \<Longrightarrow> k \<noteq> ''total_messages'' \<Longrightarrow>
   statistics (turn_document E K uid a b c) k = statistics K k"
  by (simp add: turn_document_def statistics_update_user_stats statistics_get_or_create)

lemma untouched_get_or_create [simp]:
  "interaction_stats (snd (get_or_create_user_profile t K uid a b c)) = interaction_stats K
   \<and> learned_facts (snd (get_or_create_user_profile t K uid a b c)) = learned_facts K
   \<and> facts (snd (get_or_create_user_profile t K uid a b c)) = facts K"
proof -
  obtain p s where "snd (get_or_create_user_profile t K uid a b c)
                    = save_user_profile (K\<lparr>statistics := s\<rparr>) p"
    using get_or_create_shape by blast
  then show ?thesis by (simp add: save_user_profile_def)
qed

lemma untouched_update_user_stats [simp]:
  "interaction_stats (update_user_stats t K uid f) = interaction_stats K
   \<and> learned_facts (update_user_stats t K uid f) = learned_facts K
   \<and> facts (update_user_stats t K uid f) = facts K"
  by (simp add: update_user_stats_def Let_def split: option.splits)

lemma untouched_turn_document [simp]:
  "interaction_stats (turn_document E K uid a b c) = interaction_stats K"
  "learned_facts (turn_document E K uid a b c) = learned_facts K"
  by (simp_all add: turn_document_def)

lemma apply_correction_result:
  assumes "statistics K ''learned_qna'' = Some x"
    and "statistics K ''corrections_received'' = Some y"
    and "get_user_profiles K uid = Some p"
  shows "\<exists>K'. apply_correction U t K uid question answer = Inr K'
           \<and> map_of (get_qna K') (lower U question) = Some answer
           \<and> statistics K' ''learned_qna'' = Some (x + 1)
           \<and> statistics K' ''corrections_received'' = Some (y + 1)
           \<and> map_option learned_contributions (get_user_profiles K' uid)
               = Some (learned_contributions p + 1)
           \<and> interaction_stats K' = interaction_stats K
           \<and> learned_facts K' = learned_facts K"
proof -
  let ?K1 = "K\<lparr>qna := Some (AList.update (lower U question) answer (get_qna K))\<rparr>"
  let ?K2 = "update_user_stats t ?K1 uid ''learned_contributions''"
  have p1: "get_user_profiles ?K1 uid = Some p"
    using assms(3) by (simp add: get_user_profiles_def)
  from update_user_stats_hit [OF p1, of t "''learned_contributions''"]
  have l: "map_option learned_contributions (get_user_profiles ?K2 uid)
           = Some (learned_contributions p + 1)"
    by auto
  have s: "statistics ?K2 ''learned_qna'' = Some x"
    "statistics ?K2 ''corrections_received'' = Some y"
    using assms(1,2) by (simp_all add: statistics_update_user_stats)
  have q: "get_qna ?K2 = AList.update (lower U question) answer (get_qna K)"
    by (simp only: get_qna_update_user_stats) (simp add: get_qna_def)
  have u: "interaction_stats ?K2 = interaction_stats K" "learned_facts ?K2 = learned_facts K"
    by simp_all
  show ?thesis
    unfolding apply_correction_def Let_def
    using l s q u
    by (simp add: incr_statistic_def get_qna_def get_user_profiles_def update_conv')
qed

section \<open>The invariant of the user profiles, step by step\<close>

lemma total_users_statistics:
  "statistics K' ''total_users'' = statistics K ''total_users'' \<Longrightarrow> total_users K' = total_users K"
  by (simp add: total_users_def)

lemma users_inv_cong:
  assumes "get_user_profiles K' = get_user_profiles K"
    and "statistics K' ''total_users'' = statistics K ''total_users''"
  shows "users_inv K' = users_inv K"
  by (simp add: users_inv_def assms(1) total_users_statistics [OF assms(2)])

lemma get_or_create_users:
  assumes "users_inv K"
  shows "users_inv (snd (get_or_create_user_profile t K uid a b c))
       \<and> dom (get_user_profiles (snd (get_or_create_user_profile t K uid a b c)))
           = insert uid (dom (get_user_profiles K))
       \<and> total_users (snd (get_or_create_user_profile t K uid a b c))
           = total_users K + (if get_user_profiles K uid = None then 1 else 0)
       \<and> (get_user_profiles K uid = None
            \<longrightarrow> conversation_count (fst (get_or_create_user_profile t K uid a b c)) = 1)"
proof (cases "get_user_profiles K uid")
  case None
  let ?p = "\<lparr>user_id = uid, username = a, first_name = b, last_name = c,
             conversation_count = 1, total_messages = 0, learned_contributions = 0,
             last_active = t, preferences = []\<rparr>"
  have n: "uid \<notin> dom (get_user_profiles K)"
    using None by auto
  have f: "finite (dom (get_user_profiles K))"
    using assms by (simp add: users_inv_def)
  have "card (insert uid (dom (get_user_profiles K))) = card (dom (get_user_profiles K)) + 1"
    using n f by simp
  then show ?thesis
    using assms None n
    by (simp add: get_or_create_miss users_inv_def total_users_def)
next
  case (Some pd)
  from get_or_create_hit [OF this, of t a b c] obtain profile where
    g: "get_or_create_user_profile t K uid a b c = (profile, save_user_profile K profile)"
    and u: "user_id profile = user_id pd"
    by blast
  have k: "user_id pd = uid"
    using assms Some by (simp add: users_inv_def)
  have d: "insert uid (dom (get_user_profiles K)) = dom (get_user_profiles K)"
    using Some by auto
  show ?thesis
    using assms Some
    by (simp add: g u k d users_inv_def total_users_def)
qed

lemma update_user_stats_users:
  assumes "users_inv K" and "f \<noteq> ''total_users''"
  shows "users_inv (update_user_stats t K uid f)
       \<and> dom (get_user_profiles (update_user_stats t K uid f)) = dom (get_user_profiles K)
       \<and> total_users (update_user_stats t K uid f) = total_users K"
proof -
  have s: "statistics (update_user_stats t K uid f) ''total_users'' = statistics K ''total_users''"
    using assms(2) by (simp add: statistics_update_user_stats)
  show ?thesis
  proof (cases "get_user_profiles K uid")
    case None
    then show ?thesis
      using assms(1) users_inv_cong [OF update_user_stats_miss [OF None] s]
      by (simp add: update_user_stats_miss total_users_statistics [OF s])
  next
    case (Some p)
    from update_user_stats_hit [OF this, of t f] obtain p' where
      g: "get_user_profiles (update_user_stats t K uid f) = (get_user_profiles K)(uid \<mapsto> p')"
      and u: "user_id p' = user_id p"
      by blast
    have k: "user_id p = uid"
      using assms(1) Some by (simp add: users_inv_def)
    have d: "insert uid (dom (get_user_profiles K)) = dom (get_user_profiles K)"
      using Some by auto
    show ?thesis
      using assms(1)
      by (simp add: users_inv_def g u k d total_users_statistics [OF s])
  qed
qed

lemma turn_document_users:
  assumes "users_inv K"
  shows "users_inv (turn_document E K uid a b c)
       \<and> dom (get_user_profiles (turn_document E K uid a b c))
           = insert uid (dom (get_user_profiles K))
       \<and> total_users (turn_document E K uid a b c)
           = total_users K + (if get_user_profiles K uid = None then 1 else 0)"
  using get_or_create_users [OF assms, of "now E" uid a b c]
    update_user_stats_users [of "snd (get_or_create_user_profile (now E) K uid a b c)"
      "''total_messages''" "now E" uid]
  by (simp add: turn_document_def)

lemma incr_statistic_users:
  assumes "incr_statistic K k = Inr K'" and "k \<noteq> ''total_users''"
  shows "get_user_profiles K' = get_user_profiles K
       \<and> statistics K' ''total_users'' = statistics K ''total_users''"
  using assms by (auto simp: incr_statistic_def split: option.splits)

lemma apply_correction_users:
  assumes "apply_correction U t K uid question answer = Inr K'" and "users_inv K"
  shows "users_inv K' \<and> dom (get_user_profiles K') = dom (get_user_profiles K)
       \<and> total_users K' = total_users K"
proof -
  let ?K1 = "K\<lparr>qna := Some (AList.update (lower U question) answer (get_qna K))\<rparr>"
  let ?K2 = "update_user_stats t ?K1 uid ''learned_contributions''"
  have e: "get_user_profiles ?K1 = get_user_profiles K"
    "statistics ?K1 ''total_users'' = statistics K ''total_users''"
    by (simp_all add: get_user_profiles_def)
  have "users_inv ?K1"
    using users_inv_cong [OF e] assms(2) by simp
  from update_user_stats_users [OF this, of "''learned_contributions''" t uid]
  have k2: "users_inv ?K2" "dom (get_user_profiles ?K2) = dom (get_user_profiles K)"
    "total_users ?K2 = total_users K"
    using e by (simp_all add: total_users_statistics [OF e(2)])
  obtain K3 where k3: "incr_statistic ?K2 ''learned_qna'' = Inr K3"
    and k4: "incr_statistic K3 ''corrections_received'' = Inr K'"
    using assms(1) by (auto simp: apply_correction_def Let_def split: sum.splits)
  from incr_statistic_users [OF k3] incr_statistic_users [OF k4]
  have s: "get_user_profiles K' = get_user_profiles ?K2"
    "statistics K' ''total_users'' = statistics ?K2 ''total_users''"
    by simp_all
  show ?thesis
    using users_inv_cong [OF s] k2 by (simp add: s(1) total_users_statistics [OF s(2)])
qed

lemma run_handler_users:
  assumes "run_handler h U E L K m p = Inr (r, K')"
  shows "get_user_profiles K' = get_user_profiles K
       \<and> statistics K' ''total_users'' = statistics K ''total_users''"
proof (cases h)
  case Remember_info
  then show ?thesis using assms
    by (auto simp: remember_info_def Let_def get_user_profiles_def split: option.splits)
qed (use assms in \<open>auto simp: map_sum_def split: sum.splits\<close>)

lemma learn_from_interaction_users:
  "get_user_profiles (learn_from_interaction U K q a) = get_user_profiles K
   \<and> statistics (learn_from_interaction U K q a) ''total_users'' = statistics K ''total_users''"
  by (simp add: learn_from_interaction_def Let_def get_user_profiles_def)

lemma get_weather_knowledge: "knowledge (fst (snd (get_weather U E C city))) = knowledge C"
  by (simp add: get_weather_def Let_def split: option.splits http_reply.splits sum.splits)

lemma process_message_knowledge:
  assumes "process_message U E C uid m a b c ic cd = Inr (out, C', rq)"
  shows "(\<exists>q K3. pending_question ic cd = Some q \<and> knowledge C' = K3
            \<and> apply_correction U (now E) (turn_document E (knowledge C) uid a b c) uid q m = Inr K3)
       \<or> (get_user_profiles (knowledge C')
             = get_user_profiles (turn_document E (knowledge C) uid a b c)
           \<and> statistics (knowledge C') ''total_users''
             = statistics (turn_document E (knowledge C) uid a b c) ''total_users'')"
proof (cases "pending_question ic cd")
  case (Some q)
  then show ?thesis using assms
    by (auto simp: process_message_turn split: sum.splits)
next
  case None
  note n = this
  show ?thesis
  proof (cases "first_rule (lower U m) rules")
    case (Some h)
    then obtain r K3 where
      "run_handler h U E (learning_modes C) (turn_document E (knowledge C) uid a b c) m
         (Some (turn_profile E (knowledge C) uid a b c)) = Inr (r, K3)"
      and "knowledge C' = learn_from_interaction U K3 m r"
      using assms n by (auto simp: process_message_turn split: sum.splits)
    then show ?thesis
      using run_handler_users [of h U E "learning_modes C"
          "turn_document E (knowledge C) uid a b c" m
          "Some (turn_profile E (knowledge C) uid a b c)" r K3]
        learn_from_interaction_users [of U K3 m r]
      by simp
  next
    case None
    then have w: "\<not> list_ex (\<lambda>word. sublist word (lower U m)) weather_words"
      using weather_word_rule by blast
    show ?thesis
      using assms n None w
      by (auto simp: process_message_turn learn_from_interaction_users split: if_splits)
  qed
qed

lemma process_message_users:
  assumes "process_message U E C uid m a b c ic cd = Inr (out, C', rq)"
    and "users_inv (knowledge C)"
  shows "users_inv (knowledge C')
       \<and> dom (get_user_profiles (knowledge C')) = insert uid (dom (get_user_profiles (knowledge C)))
       \<and> total_users (knowledge C')
           = total_users (knowledge C)
             + (if get_user_profiles (knowledge C) uid = None then 1 else 0)"
proof -
  let ?K = "turn_document E (knowledge C) uid a b c"
  note t = turn_document_users [OF assms(2), of E uid a b c]
  from process_message_knowledge [OF assms(1)] show ?thesis
  proof
    assume "\<exists>q K3. pending_question ic cd = Some q \<and> knowledge C' = K3
            \<and> apply_correction U (now E) ?K uid q m = Inr K3"
    then obtain q where "apply_correction U (now E) ?K uid q m = Inr (knowledge C')"
      by auto
    from apply_correction_users [OF this] t show ?thesis by simp
  next
    assume s: "get_user_profiles (knowledge C') = get_user_profiles ?K
           \<and> statistics (knowledge C') ''total_users'' = statistics ?K ''total_users''"
    then have "users_inv (knowledge C') = users_inv ?K"
      using users_inv_cong by blast
    then show ?thesis
      using t s total_users_statistics [of "knowledge C'" ?K] by simp
  qed
qed

lemma clear_memory_users: "users_inv (clear_memory K) = users_inv K"
  by (rule users_inv_cong) (simp_all add: clear_memory_def get_user_profiles_def)

section \<open>The cases of \<open>get_weather\<close>\<close>

lemma get_weather_hit:
  assumes "cache_lookup C (lower U city) (now E) = Some text"
  shows "get_weather U E C city = (text, C, [])"
  using assms by (simp add: get_weather_def Let_def)

lemma get_weather_miss:
  assumes "cache_lookup C (lower U city) (now E) = None"
  shows "get_weather U E C city =
     (if api_key (weather_config C) = [] then (weather_no_key, C, [])
      else
        (let url = weather_url (weather_config C) city in
         case http_get E url of
           Failed detail \<Rightarrow> (weather_failed detail, C, [url])
         | Reply status body \<Rightarrow>
             if status = 200 then
               (case body of
                  Inl detail \<Rightarrow> (weather_failed detail, C, [url])
                | Inr data \<Rightarrow>
                    (case format_weather_data E data of
                       Inl detail \<Rightarrow> (weather_failed detail, C, [url])
                     | Inr weather \<Rightarrow>
                         (weather,
                          C\<lparr>weather_cache :=
                              (weather_cache C)(lower U city \<mapsto> (now E, weather))\<rparr>,
                          [url])))
             else if status = 404 then (weather_not_found city, C, [url])
             else (weather_bad_status status, C, [url])))"
  using assms by (simp add: get_weather_def Let_def)

lemma cache_lookup_fresh:
  "weather_cache C k = Some (t0, text) \<Longrightarrow> t - t0 < cache_duration \<Longrightarrow>
   cache_lookup C k t = Some text"
  by (simp add: cache_lookup_def)

lemma cache_lookup_stale:
  "weather_cache C k = Some (t0, text) \<Longrightarrow> cache_duration \<le> t - t0 \<Longrightarrow>
   cache_lookup C k t = None"
  by (simp add: cache_lookup_def)

lemma cache_lookup_absent: "weather_cache C k = None \<Longrightarrow> cache_lookup C k t = None"
  by (simp add: cache_lookup_def)

section \<open>The surroundings of the examples\<close>

lemma replying_simps [simp]:
  "now (replying t status) = t"
  "http_get (replying t status) url = Reply status (Inr ())"
  "format_weather_data (replying t status) d = Inr sample_weather"
  by (simp_all add: replying_def)

lemma offline_simps [simp]:
  "now (offline t r) = t"
  "rnd (offline t r) = r"
  "http_get (offline t r) url = Failed ([116, 105, 109, 101, 111, 117, 116] \<comment> \<open>timeout\<close>)"
  by (simp_all add: offline_def)

section \<open>The correction path\<close>

text \<open>
  C1. A turn flagged as a correction whose pending question is not empty stores the
  utterance, as it is, as the answer to the lower-cased question; adds one to the
  \<open>learned_contributions\<close> of the user (0 for a user the turn creates) and to the counters
  \<open>learned_qna\<close> and \<open>corrections_received\<close>; and returns the confirmation with
  \<open>needs_followup\<close> false, whatever the rules, the stored questions and the weather words
  would have matched: no request goes to the provider, and \<open>interaction_stats\<close>,
  \<open>learned_facts\<close> and the cache are as before. The document is taken to hold the two
  counters, as every document the program creates does. When the pending question is
  empty or missing, the flag has no effect: the turn is the turn of the same utterance
  without the flag (the test \<open>if question\<close>; see the counterexample).
\<close>

theorem correction_stored:
  "(map_of d ''question'' = Some question \<and> question \<noteq> []
    \<and> statistics (knowledge C) ''learned_qna'' = Some x
    \<and> statistics (knowledge C) ''corrections_received'' = Some y
    \<longrightarrow>
      (\<exists>C'. process_message U E C uid answer uname fname lname True (Some d) =
           Inr (\<lparr>response = correction_confirm question answer, needs_followup = False,
                 action = None, correction_data = None\<rparr>, C', [])
         \<and> map_of (get_qna (knowledge C')) (lower U question) = Some answer
         \<and> statistics (knowledge C') ''learned_qna'' = Some (x + 1)
         \<and> statistics (knowledge C') ''corrections_received'' = Some (y + 1)
         \<and> map_option learned_contributions (get_user_profiles (knowledge C') uid)
             = Some ((case get_user_profiles (knowledge C) uid of
                        None \<Rightarrow> 0 | Some p \<Rightarrow> learned_contributions p) + 1)
         \<and> interaction_stats (knowledge C') = interaction_stats (knowledge C)
         \<and> learned_facts (knowledge C') = learned_facts (knowledge C)
         \<and> weather_cache C' = weather_cache C))
   \<and> (map_of d ''question'' = Some [] \<or> map_of d ''question'' = None
      \<longrightarrow> process_message U E C uid answer uname fname lname True (Some d)
          = process_message U E C uid answer uname fname lname False cdata)
   \<and> process_message U E C uid answer uname fname lname True None
       = process_message U E C uid answer uname fname lname False cdata"
proof (intro conjI impI)
  assume h: "map_of d ''question'' = Some question \<and> question \<noteq> []
    \<and> statistics (knowledge C) ''learned_qna'' = Some x
    \<and> statistics (knowledge C) ''corrections_received'' = Some y"
  let ?K = "turn_document E (knowledge C) uid uname fname lname"
  have q: "pending_question True (Some d) = Some question"
    using h by (simp add: pending_question_def)
  have s: "statistics ?K ''learned_qna'' = Some x" "statistics ?K ''corrections_received'' = Some y"
    using h by (simp_all add: statistics_turn_document_other)
  obtain p where p: "get_user_profiles ?K uid = Some p"
    and l: "learned_contributions p
            = (case get_user_profiles (knowledge C) uid of
                 None \<Rightarrow> 0 | Some q \<Rightarrow> learned_contributions q)"
    using profile_turn_document by blast
  from apply_correction_result [OF s p, of U "now E" question answer]
  obtain K' where "apply_correction U (now E) ?K uid question answer = Inr K'"
    and "map_of (get_qna K') (lower U question) = Some answer"
    and "statistics K' ''learned_qna'' = Some (x + 1)"
    and "statistics K' ''corrections_received'' = Some (y + 1)"
    and "map_option learned_contributions (get_user_profiles K' uid)
         = Some (learned_contributions p + 1)"
    and "interaction_stats K' = interaction_stats ?K"
    and "learned_facts K' = learned_facts ?K"
    by blast
  then show "\<exists>C'. process_message U E C uid answer uname fname lname True (Some d) =
           Inr (\<lparr>response = correction_confirm question answer, needs_followup = False,
                 action = None, correction_data = None\<rparr>, C', [])
         \<and> map_of (get_qna (knowledge C')) (lower U question) = Some answer
         \<and> statistics (knowledge C') ''learned_qna'' = Some (x + 1)
         \<and> statistics (knowledge C') ''corrections_received'' = Some (y + 1)
         \<and> map_option learned_contributions (get_user_profiles (knowledge C') uid)
             = Some ((case get_user_profiles (knowledge C) uid of
                        None \<Rightarrow> 0 | Some p \<Rightarrow> learned_contributions p) + 1)
         \<and> interaction_stats (knowledge C') = interaction_stats (knowledge C)
         \<and> learned_facts (knowledge C') = learned_facts (knowledge C)
         \<and> weather_cache C' = weather_cache C"
    by (simp add: process_message_turn q l)
next
  assume "map_of d ''question'' = Some [] \<or> map_of d ''question'' = None"
  then have "pending_question True (Some d) = None"
    by (auto simp: pending_question_def)
  moreover have "pending_question False cdata = None"
    by (simp add: pending_question_def)
  ultimately show "process_message U E C uid answer uname fname lname True (Some d)
          = process_message U E C uid answer uname fname lname False cdata"
    by (simp add: process_message_turn)
next
  have "pending_question True None = None" "pending_question False cdata = None"
    by (simp_all add: pending_question_def)
  then show "process_message U E C uid answer uname fname lname True None
       = process_message U E C uid answer uname fname lname False cdata"
    by (simp add: process_message_turn)
qed

text \<open>
  The answer \<open>Parizh\<close> to the pending question \<open>Stolica Francii\<close>, on the default
  document; and the same answer to an empty pending question, a turn like the one
  without the flag.
\<close>

theorem correction_stored_witness:
  "(\<exists>C'. process_message latin_cyrillic (offline 0 0) (init_core default_knowledge) 7
           ([1055, 1072, 1088, 1080, 1078] \<comment> \<open>Parizh\<close>) None None None True
           (Some [(''question'', [1057, 1090, 1086, 1083, 1080, 1094, 1072, 32, 1060, 1088, 1072, 1085, 1094, 1080,
       1080] \<comment> \<open>Stolica Francii\<close>)]) =
         Inr (\<lparr>response = correction_confirm
                  ([1057, 1090, 1086, 1083, 1080, 1094, 1072, 32, 1060, 1088, 1072, 1085, 1094, 1080,
       1080])
                  ([1055, 1072, 1088, 1080, 1078]),
               needs_followup = False, action = None, correction_data = None\<rparr>, C', [])
       \<and> map_of (get_qna (knowledge C'))
            ([1089, 1090, 1086, 1083, 1080, 1094, 1072, 32, 1092, 1088, 1072, 1085, 1094, 1080,
       1080] \<comment> \<open>stolica francii\<close>)
          = Some ([1055, 1072, 1088, 1080, 1078])
       \<and> statistics (knowledge C') ''learned_qna'' = Some 1
       \<and> statistics (knowledge C') ''corrections_received'' = Some 1
       \<and> map_option learned_contributions (get_user_profiles (knowledge C') 7) = Some 1)
   \<and> process_message latin_cyrillic (offline 0 0) (init_core default_knowledge) 7
        ([1055, 1072, 1088, 1080, 1078]) None None None True (Some [(''question'', [])])
      = process_message latin_cyrillic (offline 0 0) (init_core default_knowledge) 7
        ([1055, 1072, 1088, 1080, 1078]) None None None False None"
proof -
  let ?Q = "[1057, 1090, 1086, 1083, 1080, 1094, 1072, 32, 1060, 1088, 1072, 1085, 1094, 1080,
       1080]"
  let ?A = "[1055, 1072, 1088, 1080, 1078]"
  let ?C = "init_core default_knowledge"
  have d: "map_of [(''question'', ?Q)] ''question'' = Some ?Q" "?Q \<noteq> []"
    by simp_all
  have s: "statistics (knowledge ?C) ''learned_qna'' = Some 0"
    "statistics (knowledge ?C) ''corrections_received'' = Some 0"
    by (simp_all add: init_core_def default_knowledge_def)
  have l: "lower latin_cyrillic ?Q = [1089, 1090, 1086, 1083, 1080, 1094, 1072, 32, 1092, 1088, 1072, 1085, 1094, 1080,
       1080]"
    by code_simp
  have u: "get_user_profiles (knowledge ?C) 7 = None"
    by (simp add: init_core_def default_knowledge_def get_user_profiles_def)
  have e: "map_of [(''question'', [])] ''question'' = Some ([] :: ustr)"
    by simp
  note a = correction_stored [where U = latin_cyrillic and E = "offline 0 0" and C = "?C"
      and uid = 7 and answer = "?A" and uname = None and fname = None and lname = None
      and d = "[(''question'', ?Q)]" and question = "?Q" and x = 0 and y = 0 and cdata = None]
  note b = correction_stored [where U = latin_cyrillic and E = "offline 0 0" and C = "?C"
      and uid = 7 and answer = "?A" and uname = None and fname = None and lname = None
      and d = "[(''question'', [])]" and question = "?Q" and x = 0 and y = 0 and cdata = None]
  have 1: "\<exists>C'. process_message latin_cyrillic (offline 0 0) ?C 7 ?A None None None True
           (Some [(''question'', ?Q)]) =
         Inr (\<lparr>response = correction_confirm ?Q ?A,
               needs_followup = False, action = None, correction_data = None\<rparr>, C', [])
       \<and> map_of (get_qna (knowledge C')) ([1089, 1090, 1086, 1083, 1080, 1094, 1072, 32, 1092, 1088, 1072, 1085, 1094, 1080,
       1080]) = Some ?A
       \<and> statistics (knowledge C') ''learned_qna'' = Some 1
       \<and> statistics (knowledge C') ''corrections_received'' = Some 1
       \<and> map_option learned_contributions (get_user_profiles (knowledge C') 7) = Some 1"
    using conjunct1 [OF a] d s unfolding l u by auto
  have 2: "process_message latin_cyrillic (offline 0 0) ?C 7 ?A None None None True
             (Some [(''question'', [])])
           = process_message latin_cyrillic (offline 0 0) ?C 7 ?A None None None False None"
    using conjunct1 [OF conjunct2 [OF b]] e by blast
  from 1 2 show ?thesis by blast
qed

text \<open>
  On a document with no stored question the empty utterance gets the teach-me prompt, with
  the empty text as the pending question; the correction turn that answers it stores
  nothing, counts nothing, and asks again.
\<close>

theorem correction_stored_counterexample:
  "(case process_message latin_cyrillic (offline 0 0)
           (init_core (clear_memory default_knowledge)) 7 [] None None None False None of
      Inl e \<Rightarrow> False
    | Inr (out, C', requests) \<Rightarrow>
        action out = Some ''correction'' \<and> correction_data out = Some [(''question'', [])])
   \<and> (case process_message latin_cyrillic (offline 0 0)
           (init_core (clear_memory default_knowledge)) 7
           ([1055, 1072, 1088, 1080, 1078] \<comment> \<open>Parizh\<close>) None None None True (Some [(''question'', [])]) of
      Inl e \<Rightarrow> False
    | Inr (out, C', requests) \<Rightarrow>
        needs_followup out
        \<and> map_of (get_qna (knowledge C')) (lower latin_cyrillic []) = None
        \<and> statistics (knowledge C') ''learned_qna'' = Some 0
        \<and> statistics (knowledge C') ''corrections_received'' = Some 0)"
  by code_simp

section \<open>Weather intent\<close>

text \<open>
  C2. An utterance that is not a correction reply and holds a weather word
  (\<open>pogoda\<close>, \<open>weather\<close>, \<open>prognoz\<close>) is to be answered by the weather branch of
  \<open>process_message\<close>: the weather of the city that follows the word, or a prompt for
  the city with \<open>needs_followup\<close> true and the action \<open>"weather"\<close>. The branch is never
  reached. The three words are the pattern of a rule, and the rules are tried first: a
  rule answers every such utterance, so the turn sends no request to the provider, leaves
  the cache as it was, and never asks for a follow-up.
\<close>

theorem weather_intent_answered_by_rule:
  assumes "list_ex (\<lambda>w. sublist w (lower U m)) weather_words"
    and "pending_question is_correction cdata = None"
  shows "first_rule (lower U m) rules \<noteq> None
       \<and> (case process_message U E C uid m uname fname lname is_correction cdata of
            Inl e \<Rightarrow> True
          | Inr (out, C', requests) \<Rightarrow>
              \<not> needs_followup out \<and> action out = None \<and> requests = []
              \<and> weather_cache C' = weather_cache C)"
proof -
  from weather_word_rule [OF assms(1)] obtain h where "first_rule (lower U m) rules = Some h"
    by auto
  then show ?thesis
    using assms(2) by (simp add: process_message_turn split: sum.splits prod.splits)
qed

text \<open>
  \<open>pogoda moskva\<close>, with an API key and a provider that answers: the city is there and
  \<open>get_weather\<close> would give its weather, yet the turn returns the fixed text of
  \<open>_weather_handler\<close>. \<open>pogoda\<close> alone gets the same text and no follow-up.
\<close>

theorem weather_intent_answered_by_rule_witness:
  "(case process_message latin_cyrillic (replying 0 200) keyed_core 7
           ([1087, 1086, 1075, 1086, 1076, 1072, 32, 1084, 1086, 1089, 1082, 1074, 1072] \<comment> \<open>pogoda moskva\<close>)
           None None None False None of
      Inl e \<Rightarrow> False
    | Inr (out, C', requests) \<Rightarrow>
        response out = weather_handler \<and> \<not> needs_followup out \<and> action out = None
        \<and> requests = [])
   \<and> search_group weather_city_rx
        (lower latin_cyrillic ([1087, 1086, 1075, 1086, 1076, 1072, 32, 1084, 1086, 1089, 1082, 1074, 1072]))
      = Some ([1084, 1086, 1089, 1082, 1074, 1072] \<comment> \<open>moskva\<close>)
   \<and> fst (get_weather latin_cyrillic (replying 0 200) keyed_core
        ([1084, 1086, 1089, 1082, 1074, 1072])) = sample_weather
   \<and> (case process_message latin_cyrillic (replying 0 200) keyed_core 7
           ([1087, 1086, 1075, 1086, 1076, 1072] \<comment> \<open>pogoda\<close>) None None None False None of
      Inl e \<Rightarrow> False
    | Inr (out, C', requests) \<Rightarrow>
        response out = weather_handler \<and> \<not> needs_followup out \<and> action out = None)"
proof -
  let ?m = "[1087, 1086, 1075, 1086, 1076, 1072, 32, 1084, 1086, 1089, 1082, 1074, 1072]"
  let ?w = "[1087, 1086, 1075, 1086, 1076, 1072]"
  have q: "pending_question False None = None"
    by (simp add: pending_question_def)
  have wm: "list_ex (\<lambda>w. sublist w (lower latin_cyrillic ?m)) weather_words"
    and ww: "list_ex (\<lambda>w. sublist w (lower latin_cyrillic ?w)) weather_words"
    by code_simp+
  have em: "case process_message latin_cyrillic (replying 0 200) keyed_core 7 ?m
                 None None None False None of
              Inl e \<Rightarrow> False
            | Inr (out, C', requests) \<Rightarrow> response out = weather_handler"
    by code_simp
  have ew: "case process_message latin_cyrillic (replying 0 200) keyed_core 7 ?w
                 None None None False None of
              Inl e \<Rightarrow> False
            | Inr (out, C', requests) \<Rightarrow> response out = weather_handler"
    by code_simp
  have g: "search_group weather_city_rx (lower latin_cyrillic ?m)
           = Some ([1084, 1086, 1089, 1082, 1074, 1072])"
    by code_simp
  have l: "fst (get_weather latin_cyrillic (replying 0 200) keyed_core
             ([1084, 1086, 1089, 1082, 1074, 1072])) = sample_weather"
    by code_simp
  from weather_intent_answered_by_rule [OF wm q, where E = "replying 0 200" and C = keyed_core and uid = 7
      and uname = None and fname = None and lname = None]
    weather_intent_answered_by_rule [OF ww q, where E = "replying 0 200" and C = keyed_core and uid = 7
      and uname = None and fname = None and lname = None]
    em ew g l
  show ?thesis by (auto split: sum.splits prod.splits)
qed

section \<open>QnA lookup\<close>

text \<open>
  C3. \<open>_check_qna_match\<close> resolves in this order, the first hit winning: the stored
  question equal to the lower-cased utterance (so the lookup does not depend on the case
  of the utterance); then, over the stored questions in their order, the first that is
  a part of the lower-cased utterance or has it as a part; then the first whose keywords
  (the tokens longer than two characters that are not stop words) share two or more with
  the keywords of the utterance, whatever the size of the overlap of later questions;
  and nothing if none hits.
\<close>

theorem qna_resolution_order:
  "check_qna_match U K user_message = qna_resolution U (get_qna K) user_message"
  unfolding check_qna_match_def qna_resolution_def Let_def
    map_of_find [of "get_qna K"] containment_match_find keyword_match_find
    extract_keywords_claimed
  by (auto split: option.splits)

text \<open>
  With \<open>stolica francii\<close> stored, the question in two other casings finds its answer; a
  longer sentence holding a stored question hits by containment; a sentence sharing two
  keywords with it hits by keywords; \<open>xyz\<close> finds nothing. \<open>chto takoe zhizn\<close> shares
  \<open>chto\<close> and \<open>takoe\<close> with three stored questions and finds nothing, \<open>chto\<close> being a
  stop word; \<open>do re mi pesnya\<close> shares three words of two letters with the stored
  \<open>do re mi nota\<close> and finds nothing, these being too short to be keywords; the tokens of
  a text are cut at the characters that are no word characters.
\<close>

theorem qna_resolution_order_witness:
  "check_qna_match latin_cyrillic taught
     ([1057, 1090, 1086, 1083, 1080, 1094, 1072, 32, 1060, 1088, 1072, 1085, 1094, 1080,
       1080] \<comment> \<open>Stolica Francii\<close>)
     = Some ([1055, 1072, 1088, 1080, 1078] \<comment> \<open>Parizh\<close>)
   \<and> check_qna_match latin_cyrillic taught
     ([1057, 1058, 1054, 1051, 1048, 1062, 1040, 32, 1060, 1056, 1040, 1053, 1062, 1048,
       1048] \<comment> \<open>STOLICA FRANCII\<close>)
     = Some ([1055, 1072, 1088, 1080, 1078])
   \<and> check_qna_match latin_cyrillic taught
     ([1086, 1073, 1098, 1103, 1089, 1085, 1080, 32, 1095, 1090, 1086, 32, 1090, 1072,
       1082, 1086, 1077, 32, 1085, 1077, 1081, 1088, 1086, 1089, 1077, 1090, 1100, 32,
       1087, 1088, 1086, 1089, 1090, 1099, 1084, 1080, 32, 1089, 1083, 1086, 1074, 1072,
       1084, 1080] \<comment> \<open>obyasni chto takoe nejroset prostymi slovami\<close>)
     = Some ([1053, 1077, 1081, 1088, 1086, 1089, 1077, 1090, 1100, 32, 45, 32, 1101, 1090, 1086,
       32, 1084, 1086, 1076, 1077, 1083, 1100] \<comment> \<open>Nejroset - eto model\<close>)
   \<and> check_qna_match latin_cyrillic taught
     ([1090, 1072, 1082, 1086, 1077, 32, 1089, 1083, 1086, 1074, 1086, 32, 1085, 1077,
       1081, 1088, 1086, 1089, 1077, 1090, 1100] \<comment> \<open>takoe slovo nejroset\<close>)
     = Some ([1053, 1077, 1081, 1088, 1086, 1089, 1077, 1090, 1100, 32, 45, 32, 1101, 1090, 1086,
       32, 1084, 1086, 1076, 1077, 1083, 1100])
   \<and> check_qna_match latin_cyrillic taught ([120, 121, 122]) = None
   \<and> check_qna_match latin_cyrillic taught
     ([1095, 1090, 1086, 32, 1090, 1072, 1082, 1086, 1077, 32, 1078, 1080, 1079, 1085, 1100] \<comment> \<open>chto takoe zhizn\<close>) = None
   \<and> check_qna_match latin_cyrillic taught
     ([1076, 1086, 32, 1088, 1077, 32, 1084, 1080, 32, 1087, 1077, 1089, 1085, 1103] \<comment> \<open>do re mi pesnya\<close>) = None
   \<and> claimed_keywords latin_cyrillic
     ([1063, 1090, 1086, 32, 1090, 1072, 1082, 1086, 1077, 58, 32, 1085, 1077, 1081, 1088,
       1086, 45, 1089, 1077, 1090, 1100, 44, 32, 1048, 1048, 63] \<comment> \<open>Chto takoe: nejro-set, II?\<close>)
     = [[1090, 1072, 1082, 1086, 1077] \<comment> \<open>takoe\<close>,
        [1085, 1077, 1081, 1088, 1086] \<comment> \<open>nejro\<close>,
        [1089, 1077, 1090, 1100] \<comment> \<open>set\<close>]"
  unfolding qna_resolution_order by code_simp

section \<open>Confidence\<close>

text \<open>
  C4. \<open>_calculate_confidence\<close> returns 0.9 when the lower-cased utterance is a stored
  question; else 0.0 when the utterance has no keywords; else the largest, over the
  stored questions, of the number of keywords shared with the question over the larger of
  the two numbers of keyword occurrences, a repeated word counting each time (and 0.0
  when nothing is stored). The keywords are those of the specification: the tokens longer
  than two characters that are no stop words. (With the sizes of the two keyword sets in
  place of the numbers of occurrences the value is another: see the counterexample.)
\<close>

theorem confidence_value:
  "(lower U m \<in> fst ` set (get_qna K) \<longrightarrow> calculate_confidence U K m = 9 / 10)
   \<and> (lower U m \<notin> fst ` set (get_qna K) \<and> claimed_keywords U m = []
        \<longrightarrow> calculate_confidence U K m = 0)
   \<and> (lower U m \<notin> fst ` set (get_qna K) \<and> claimed_keywords U m \<noteq> [] \<and> get_qna K \<noteq> []
        \<longrightarrow> calculate_confidence U K m
            = Max ((\<lambda>q. occurrence_ratio (claimed_keywords U m) (claimed_keywords U q))
                   ` fst ` set (get_qna K)))
   \<and> (lower U m \<notin> fst ` set (get_qna K) \<and> get_qna K = []
        \<longrightarrow> calculate_confidence U K m = 0)"
proof -
  let ?f = "\<lambda>q. occurrence_ratio (claimed_keywords U m) (claimed_keywords U q)"
  let ?S = "?f ` fst ` set (get_qna K)"
  have "Max (insert 0 ?S) = Max ?S" if "get_qna K \<noteq> []"
  proof -
    have ne: "?S \<noteq> {}" using that by simp
    have "0 \<le> Max ?S"
      using ne occurrence_ratio_nonneg by (subst Max_ge_iff) auto
    then show ?thesis using ne by (simp add: max_def)
  qed
  then show ?thesis
    by (auto simp: calculate_confidence_def Let_def best_match_Max extract_keywords_claimed)
qed

text \<open>
  On the default document: a stored question scores 0.9; \<open>chto eto\<close>, two stop words,
  scores 0 though \<open>chto\<close> stands in three stored questions; \<open>python python python\<close>
  scores 1/3 (one shared keyword, three occurrences). With \<open>do re mi nota\<close> stored,
  \<open>do re\<close> scores 0, its words being too short to be keywords. With nothing stored the
  score is 0.
\<close>

theorem confidence_value_witness:
  "calculate_confidence latin_cyrillic default_knowledge
     ([1063, 1090, 1086, 32, 1090, 1072, 1082, 1086, 1077, 32, 80, 121, 116, 104, 111, 110] \<comment> \<open>Chto takoe Python\<close>) = 9 / 10
   \<and> calculate_confidence latin_cyrillic default_knowledge
     ([1095, 1090, 1086, 32, 1101, 1090, 1086] \<comment> \<open>chto eto\<close>) = 0
   \<and> calculate_confidence latin_cyrillic taught ([1076, 1086, 32, 1088, 1077] \<comment> \<open>do re\<close>) = 0
   \<and> calculate_confidence latin_cyrillic default_knowledge
     ([112, 121, 116, 104, 111, 110, 32, 112, 121, 116, 104, 111, 110, 32, 112, 121, 116,
       104, 111, 110] \<comment> \<open>python python python\<close>) = 1 / 3
   \<and> calculate_confidence latin_cyrillic (clear_memory default_knowledge)
     ([112, 121, 116, 104, 111, 110, 32, 112, 121, 116, 104, 111, 110, 32, 112, 121, 116,
       104, 111, 110]) = 0"
proof -
  let ?K = default_knowledge
  let ?a = "[1063, 1090, 1086, 32, 1090, 1072, 1082, 1086, 1077, 32, 80, 121, 116, 104, 111, 110]"
  let ?b = "[1095, 1090, 1086, 32, 1101, 1090, 1086]"
  let ?d = "[1076, 1086, 32, 1088, 1077]"
  let ?p = "[112, 121, 116, 104, 111, 110, 32, 112, 121, 116, 104, 111, 110, 32, 112, 121, 116,
       104, 111, 110]"
  have a: "lower latin_cyrillic ?a \<in> fst ` set (get_qna ?K)"
    by code_simp
  have b: "lower latin_cyrillic ?b \<notin> fst ` set (get_qna ?K)
           \<and> claimed_keywords latin_cyrillic ?b = []"
    by code_simp
  have d: "lower latin_cyrillic ?d \<notin> fst ` set (get_qna taught)
           \<and> claimed_keywords latin_cyrillic ?d = []"
    by code_simp
  have p: "lower latin_cyrillic ?p \<notin> fst ` set (get_qna ?K)
           \<and> claimed_keywords latin_cyrillic ?p \<noteq> [] \<and> get_qna ?K \<noteq> []"
    by code_simp
  have m: "Max ((\<lambda>q. occurrence_ratio (claimed_keywords latin_cyrillic ?p)
                       (claimed_keywords latin_cyrillic q)) ` fst ` set (get_qna ?K)) = 1 / 3"
    by code_simp
  have c: "lower latin_cyrillic ?p \<notin> fst ` set (get_qna (clear_memory ?K))
           \<and> get_qna (clear_memory ?K) = []"
    by code_simp
  from confidence_value [of latin_cyrillic "?a" "?K"] confidence_value [of latin_cyrillic "?b" "?K"]
    confidence_value [of latin_cyrillic "?d" taught]
    confidence_value [of latin_cyrillic "?p" "?K"]
    confidence_value [of latin_cyrillic "?p" "clear_memory ?K"] a b d p m c
  show ?thesis by simp
qed

text \<open>
  \<open>python python python python\<close> on the default document: it is no stored question and
  has a keyword, and its score is 1/4, one shared keyword over four occurrences, where
  the sizes of the two keyword sets give 1/2. The threshold 0.3 lies between: the turn
  asks to be taught, where a score of 1/2 would give a fallback phrasing.
\<close>

theorem confidence_value_counterexample:
  "lower latin_cyrillic ([112, 121, 116, 104, 111, 110, 32, 112, 121, 116, 104, 111, 110, 32, 112, 121, 116,
       104, 111, 110, 32, 112, 121, 116, 104, 111, 110] \<comment> \<open>python python python python\<close>)
     \<notin> fst ` set (get_qna default_knowledge)
   \<and> claimed_keywords latin_cyrillic
        ([112, 121, 116, 104, 111, 110, 32, 112, 121, 116, 104, 111, 110, 32, 112, 121, 116,
       104, 111, 110, 32, 112, 121, 116, 104, 111, 110]) \<noteq> []
   \<and> calculate_confidence latin_cyrillic default_knowledge
        ([112, 121, 116, 104, 111, 110, 32, 112, 121, 116, 104, 111, 110, 32, 112, 121, 116,
       104, 111, 110, 32, 112, 121, 116, 104, 111, 110]) = 1 / 4
   \<and> Max ((\<lambda>q. claimed_ratio
                 (claimed_keywords latin_cyrillic
                    ([112, 121, 116, 104, 111, 110, 32, 112, 121, 116, 104, 111, 110, 32, 112, 121, 116,
       104, 111, 110, 32, 112, 121, 116, 104, 111, 110]))
                 (claimed_keywords latin_cyrillic q))
          ` fst ` set (get_qna default_knowledge)) = 1 / 2
   \<and> (case process_message latin_cyrillic (offline 0 0) (init_core default_knowledge) 7
              ([112, 121, 116, 104, 111, 110, 32, 112, 121, 116, 104, 111, 110, 32, 112, 121, 116,
       104, 111, 110, 32, 112, 121, 116, 104, 111, 110])
              None None None False None of
         Inl e \<Rightarrow> False
       | Inr (out, C', requests) \<Rightarrow> action out = Some ''correction'')"
  by code_simp

section \<open>The teach-me prompt and the fallback\<close>

text \<open>
  C5. When a turn is answered neither by the correction path, nor by a rule, nor by a
  QnA match (the weather branch then cannot answer it either: a weather word is a rule
  pattern), it returns the teach-me prompt, with \<open>needs_followup\<close> true, the action
  \<open>"correction"\<close> and the utterance as the pending question, if the confidence is below
  the threshold and auto-learning is on; otherwise it returns one of the fallback
  phrasings with \<open>needs_followup\<close> false. A new core has the threshold 0.3 and
  auto-learning on.
\<close>

theorem teach_or_fallback:
  assumes "pending_question is_correction cdata = None"
    and "first_rule (lower U m) rules = None"
    and "\<not> truthy (check_qna_match U (knowledge C) m)"
  shows "(\<exists>C'. process_message U E C uid m uname fname lname is_correction cdata =
           Inr (if calculate_confidence U (knowledge C) m < confidence_threshold (learning_modes C)
                   \<and> auto_correction (learning_modes C)
                then \<lparr>response = teach_prompt m, needs_followup = True,
                      action = Some ''correction'',
                      correction_data = Some [(''question'', m)]\<rparr>
                else \<lparr>response = get_fallback_response (rnd E) m, needs_followup = False,
                      action = None, correction_data = None\<rparr>, C', []))
       \<and> get_fallback_response (rnd E) m \<in> set (fallback_responses m)
       \<and> confidence_threshold (learning_modes (init_core K)) = 3 / 10
       \<and> auto_correction (learning_modes (init_core K))"
proof -
  have "\<not> list_ex (\<lambda>w. sublist w (lower U m)) weather_words"
    using weather_word_rule assms(2) by blast
  then show ?thesis
    using assms
    by (simp add: process_message_turn get_fallback_response_def choice_in_set init_core_def
        default_learning_modes_def)
qed

text \<open>
  On the default document \<open>xyz\<close> has confidence 0 and gets the prompt;
  \<open>python python python\<close> has confidence 1/3 and gets a fallback phrasing.
\<close>

theorem teach_or_fallback_witness:
  "(\<exists>C'. process_message latin_cyrillic (offline 0 0) (init_core default_knowledge) 7
            ([120, 121, 122]) None None None False None =
          Inr (\<lparr>response = teach_prompt ([120, 121, 122]), needs_followup = True,
                action = Some ''correction'',
                correction_data = Some [(''question'', [120, 121, 122])]\<rparr>, C', []))
   \<and> (\<exists>C'. process_message latin_cyrillic (offline 0 0) (init_core default_knowledge) 7
            ([112, 121, 116, 104, 111, 110, 32, 112, 121, 116, 104, 111, 110, 32, 112, 121, 116,
       104, 111, 110] \<comment> \<open>python python python\<close>)
            None None None False None =
          Inr (\<lparr>response = get_fallback_response 0
                  ([112, 121, 116, 104, 111, 110, 32, 112, 121, 116, 104, 111, 110, 32, 112, 121, 116,
       104, 111, 110]),
                needs_followup = False, action = None, correction_data = None\<rparr>, C', []))"
proof -
  let ?C = "init_core default_knowledge"
  let ?x = "[120, 121, 122]"
  let ?p = "[112, 121, 116, 104, 111, 110, 32, 112, 121, 116, 104, 111, 110, 32, 112, 121, 116,
       104, 111, 110]"
  have q: "pending_question False None = None"
    by (simp add: pending_question_def)
  have rx: "first_rule (lower latin_cyrillic ?x) rules = None"
    and rp: "first_rule (lower latin_cyrillic ?p) rules = None"
    by code_simp+
  have mx: "\<not> truthy (check_qna_match latin_cyrillic (knowledge ?C) ?x)"
    and mp: "\<not> truthy (check_qna_match latin_cyrillic (knowledge ?C) ?p)"
    by code_simp+
  have cx: "calculate_confidence latin_cyrillic (knowledge ?C) ?x
              < confidence_threshold (learning_modes ?C) \<and> auto_correction (learning_modes ?C)"
    by code_simp
  have cp: "\<not> (calculate_confidence latin_cyrillic (knowledge ?C) ?p
              < confidence_threshold (learning_modes ?C) \<and> auto_correction (learning_modes ?C))"
    by code_simp
  have r: "rnd (offline 0 0) = 0"
    by (simp add: offline_def)
  from teach_or_fallback [OF q rx mx, where E = "offline 0 0" and uid = 7 and uname = None
      and fname = None and lname = None and K = default_knowledge]
    teach_or_fallback [OF q rp mp, where E = "offline 0 0" and uid = 7 and uname = None
      and fname = None and lname = None and K = default_knowledge]
  show ?thesis unfolding r if_P [OF cx] if_not_P [OF cp] by blast
qed

section \<open>Rule dispatch\<close>

text \<open>
  C6. The rules are tried in the order they are registered, and the first whose pattern
  is found in the lower-cased utterance answers: when no pattern before a rule of the
  table is found and its own is, a turn that is not flagged as a correction returns one
  of the response variants of that rule, with \<open>needs_followup\<close> false and no action,
  whatever rules after it would match too. The document is taken to hold the entries
  the handlers read without a test, as every document the program creates does;
  without them a handler raises \<open>KeyError\<close> and the turn returns nothing.
\<close>

theorem first_matching_rule_answers:
  assumes "rules = pre @ (alts, h) # post"
    and "\<forall>(a, g) \<in> set pre. \<not> re_search_alts a (lower U m)"
    and "re_search_alts alts (lower U m)"
    and "doc_complete (knowledge C)"
  shows "\<exists>out C'.
           process_message U E C uid m uname fname lname False cdata = Inr (out, C', [])
         \<and> response out \<in> set (declared_variants h U E (learning_modes C)
               (turn_document E (knowledge C) uid uname fname lname) m
               (Some (turn_profile E (knowledge C) uid uname fname lname)))
         \<and> \<not> needs_followup out \<and> action out = None"
proof -
  have f: "first_rule (lower U m) rules = Some h"
    using assms(2,3) by (simp add: assms(1) first_rule_append)
  obtain r K' where
    r: "run_handler h U E (learning_modes C) (turn_document E (knowledge C) uid uname fname lname) m
          (Some (turn_profile E (knowledge C) uid uname fname lname)) = Inr (r, K')"
    and v: "r \<in> set (declared_variants h U E (learning_modes C)
               (turn_document E (knowledge C) uid uname fname lname) m
               (Some (turn_profile E (knowledge C) uid uname fname lname)))"
    using run_handler_variants [OF doc_complete_turn_document [OF assms(4)]] by blast
  show ?thesis
    by (simp add: process_message_turn pending_question_def f r v)
qed

text \<open>
  \<open>poka i spasibo\<close>: the second rule (\<open>_goodbye\<close>) and the fourth (\<open>_thank_you\<close>) both
  match, and the answer is a farewell. \<open>pomoshch\<close> gets the help text, \<open>kakoj kurs
  dollara\<close> the text of \<open>_currency_handler\<close>, \<open>kotoryj chas\<close> the time.
\<close>

theorem first_matching_rule_answers_witness:
  "(\<exists>out C'.
      process_message latin_cyrillic (offline 0 2) (init_core default_knowledge) 7
        ([1087, 1086, 1082, 1072, 32, 1080, 32, 1089, 1087, 1072, 1089, 1080, 1073, 1086] \<comment> \<open>poka i spasibo\<close>)
        None None None False None = Inr (out, C', [])
      \<and> response out \<in> set farewells \<and> \<not> needs_followup out \<and> action out = None)
   \<and> re_search_alts (fst (rules ! 3))
        (lower latin_cyrillic ([1087, 1086, 1082, 1072, 32, 1080, 32, 1089, 1087, 1072, 1089, 1080, 1073, 1086]))
   \<and> (\<exists>out C'.
      process_message latin_cyrillic (offline 0 2) (init_core default_knowledge) 7
        ([1087, 1086, 1084, 1086, 1097, 1100] \<comment> \<open>pomoshch\<close>) None None None False None
        = Inr (out, C', [])
      \<and> response out = help_text \<and> \<not> needs_followup out \<and> action out = None)
   \<and> (\<exists>out C'.
      process_message latin_cyrillic (offline 0 2) (init_core default_knowledge) 7
        ([1082, 1072, 1082, 1086, 1081, 32, 1082, 1091, 1088, 1089, 32, 1076, 1086, 1083,
       1083, 1072, 1088, 1072] \<comment> \<open>kakoj kurs dollara\<close>)
        None None None False None = Inr (out, C', [])
      \<and> response out = currency_handler \<and> \<not> needs_followup out \<and> action out = None)
   \<and> (\<exists>out C'.
      process_message latin_cyrillic (offline 0 2) (init_core default_knowledge) 7
        ([1082, 1086, 1090, 1086, 1088, 1099, 1081, 32, 1095, 1072, 1089] \<comment> \<open>kotoryj chas\<close>)
        None None None False None = Inr (out, C', [])
      \<and> response out = time_text ([49, 50, 58, 48, 48, 58, 48, 48] \<comment> \<open>12:00:00\<close>)
      \<and> \<not> needs_followup out \<and> action out = None)"
proof -
  let ?U = latin_cyrillic
  let ?m = "[1087, 1086, 1082, 1072, 32, 1080, 32, 1089, 1087, 1072, 1089, 1080, 1073, 1086]"
  let ?h = "[1087, 1086, 1084, 1086, 1097, 1100]"
  let ?k = "[1082, 1072, 1082, 1086, 1081, 32, 1082, 1091, 1088, 1089, 32, 1076, 1086, 1083,
       1083, 1072, 1088, 1072]"
  let ?t = "[1082, 1086, 1090, 1086, 1088, 1099, 1081, 32, 1095, 1072, 1089]"
  let ?K = "knowledge (init_core default_knowledge)"
  have c: "doc_complete ?K"
    by code_simp
  have d1: "rules = take 1 rules @ (fst (rules ! 1), Goodbye) # drop 2 rules"
    and d6: "rules = take 6 rules @ (fst (rules ! 6), Help) # drop 7 rules"
    and d15: "rules = take 15 rules @ (fst (rules ! 15), Currency_handler) # drop 16 rules"
    and d7: "rules = take 7 rules @ (fst (rules ! 7), Time) # drop 8 rules"
    by code_simp+
  have p1: "\<forall>(a, g) \<in> set (take 1 rules). \<not> re_search_alts a (lower ?U ?m)"
    and p6: "\<forall>(a, g) \<in> set (take 6 rules). \<not> re_search_alts a (lower ?U ?h)"
    and p15: "\<forall>(a, g) \<in> set (take 15 rules). \<not> re_search_alts a (lower ?U ?k)"
    and p7: "\<forall>(a, g) \<in> set (take 7 rules). \<not> re_search_alts a (lower ?U ?t)"
    by code_simp+
  have a1: "re_search_alts (fst (rules ! 1)) (lower ?U ?m)"
    and a6: "re_search_alts (fst (rules ! 6)) (lower ?U ?h)"
    and a15: "re_search_alts (fst (rules ! 15)) (lower ?U ?k)"
    and a7: "re_search_alts (fst (rules ! 7)) (lower ?U ?t)"
    by code_simp+
  have v: "declared_variants Goodbye ?U (offline 0 2)
             (learning_modes (init_core default_knowledge))
             (turn_document (offline 0 2) ?K 7 None None None) ?m
             (Some (turn_profile (offline 0 2) ?K 7 None None None)) = farewells"
    by code_simp
  have w: "declared_variants Help U E L K' m p = [help_text]"
    "declared_variants Currency_handler U E L K' m p = [currency_handler]"
    "declared_variants Time U E L K' m p = [time_text (strftime_hms E)]"
    for U and E :: "unit env" and L K' m p
    by (simp_all add: declared_variants_def)
  have s: "strftime_hms (offline 0 2) = [49, 50, 58, 48, 48, 58, 48, 48]"
    by (simp add: offline_def)
  have l: "re_search_alts (fst (rules ! 3)) (lower ?U ?m)"
    by code_simp
  from first_matching_rule_answers [OF d1 p1 a1 c, where E = "offline 0 2" and uid = 7
      and uname = None and fname = None and lname = None and cdata = None]
  have 1: "\<exists>out C'.
      process_message ?U (offline 0 2) (init_core default_knowledge) 7 ?m
        None None None False None = Inr (out, C', [])
      \<and> response out \<in> set farewells \<and> \<not> needs_followup out \<and> action out = None"
    unfolding v by simp
  from first_matching_rule_answers [OF d6 p6 a6 c, where E = "offline 0 2" and uid = 7
      and uname = None and fname = None and lname = None and cdata = None]
  have 2: "\<exists>out C'.
      process_message ?U (offline 0 2) (init_core default_knowledge) 7 ?h
        None None None False None = Inr (out, C', [])
      \<and> response out = help_text \<and> \<not> needs_followup out \<and> action out = None"
    unfolding w by simp
  from first_matching_rule_answers [OF d15 p15 a15 c, where E = "offline 0 2" and uid = 7
      and uname = None and fname = None and lname = None and cdata = None]
  have 3: "\<exists>out C'.
      process_message ?U (offline 0 2) (init_core default_knowledge) 7 ?k
        None None None False None = Inr (out, C', [])
      \<and> response out = currency_handler \<and> \<not> needs_followup out \<and> action out = None"
    unfolding w by simp
  from first_matching_rule_answers [OF d7 p7 a7 c, where E = "offline 0 2" and uid = 7
      and uname = None and fname = None and lname = None and cdata = None]
  have 4: "\<exists>out C'.
      process_message ?U (offline 0 2) (init_core default_knowledge) 7 ?t
        None None None False None = Inr (out, C', [])
      \<and> response out = time_text ([49, 50, 58, 48, 48, 58, 48, 48])
      \<and> \<not> needs_followup out \<and> action out = None"
    unfolding w s by simp
  from 1 l 2 3 4 show ?thesis by blast
qed

section \<open>The weather cache\<close>

text \<open>
  C7. When the cache holds an entry for the lower-cased city that is less than 30 minutes
  old, \<open>get_weather\<close> returns the text of the entry and leaves the provider alone.
  When a call finds no fresh entry and the provider answers it with status 200 and a
  body that decodes and formats (the one answer that is cached), a second call for the
  same city less than 30 minutes later sends no request and returns the same text. A
  call 30 minutes or more after the instant of the entry, with an API key, asks the
  provider again. (Two calls within 30 minutes as such may both ask the provider, when
  the first gets a failure, another status, or a 200 whose body does not decode: see the
  counterexample.)
\<close>

theorem cached_weather_reused:
  "(weather_cache C (lower U city) = Some (cached_at, weather) \<and> now E - cached_at < cache_duration
      \<longrightarrow> get_weather U E C city = (weather, C, []))
   \<and> (cache_lookup C (lower U city) (now E) = None \<and> api_key (weather_config C) \<noteq> []
       \<and> http_get E (weather_url (weather_config C) city) = Reply 200 (Inr data)
       \<and> format_weather_data E data = Inr weather
       \<and> lower U city' = lower U city \<and> now E' - now E < cache_duration
      \<longrightarrow> (let C1 = C\<lparr>weather_cache := (weather_cache C)(lower U city \<mapsto> (now E, weather))\<rparr> in
           get_weather U E C city = (weather, C1, [weather_url (weather_config C) city])
           \<and> get_weather U E' C1 city' = (weather, C1, [])))
   \<and> (weather_cache C (lower U city) = Some (cached_at, weather) \<and> cache_duration \<le> now E - cached_at
       \<and> api_key (weather_config C) \<noteq> []
      \<longrightarrow> snd (snd (get_weather U E C city)) = [weather_url (weather_config C) city])
   \<and> cache_duration = 30 * 60 * 1000000"
proof (intro conjI impI)
  assume "weather_cache C (lower U city) = Some (cached_at, weather) \<and> now E - cached_at < cache_duration"
  then show "get_weather U E C city = (weather, C, [])"
    by (simp add: get_weather_hit cache_lookup_fresh)
next
  assume h: "cache_lookup C (lower U city) (now E) = None \<and> api_key (weather_config C) \<noteq> []
       \<and> http_get E (weather_url (weather_config C) city) = Reply 200 (Inr data)
       \<and> format_weather_data E data = Inr weather
       \<and> lower U city' = lower U city \<and> now E' - now E < cache_duration"
  let ?C1 = "C\<lparr>weather_cache := (weather_cache C)(lower U city \<mapsto> (now E, weather))\<rparr>"
  have 1: "get_weather U E C city = (weather, ?C1, [weather_url (weather_config C) city])"
    using h by (simp add: get_weather_miss)
  have "cache_lookup ?C1 (lower U city') (now E') = Some weather"
    using h by (simp add: cache_lookup_def)
  then have 2: "get_weather U E' ?C1 city' = (weather, ?C1, [])"
    by (rule get_weather_hit)
  show "let C1 = ?C1 in
           get_weather U E C city = (weather, C1, [weather_url (weather_config C) city])
           \<and> get_weather U E' C1 city' = (weather, C1, [])"
    using 1 2 by (simp add: Let_def)
next
  assume h: "weather_cache C (lower U city) = Some (cached_at, weather) \<and> cache_duration \<le> now E - cached_at
       \<and> api_key (weather_config C) \<noteq> []"
  then have "cache_lookup C (lower U city) (now E) = None"
    by (simp add: cache_lookup_stale)
  then show "snd (snd (get_weather U E C city)) = [weather_url (weather_config C) city]"
    using h
    by (simp add: get_weather_miss Let_def split: http_reply.splits sum.splits)
next
  show "cache_duration = 30 * 60 * 1000000"
    by (simp add: cache_duration_def)
qed

text \<open>
  A first call at 0, a second one microsecond before the 30 minutes are over (the
  provider would then fail, and is not asked), a third at 30 minutes.
\<close>

theorem cached_weather_reused_witness:
  "(let C1 = keyed_core\<lparr>weather_cache :=
               (weather_cache keyed_core)([1084, 1086, 1089, 1082, 1074, 1072] \<comment> \<open>moskva\<close>
                  \<mapsto> (0, sample_weather))\<rparr>;
        url = weather_url (weather_config keyed_core) ([1052, 1086, 1089, 1082, 1074, 1072] \<comment> \<open>Moskva\<close>)
    in get_weather latin_cyrillic (replying 0 200) keyed_core
         ([1052, 1086, 1089, 1082, 1074, 1072]) = (sample_weather, C1, [url])
     \<and> get_weather latin_cyrillic (replying 1799999999 500) C1
         ([1052, 1054, 1057, 1050, 1042, 1040] \<comment> \<open>MOSKVA\<close>) = (sample_weather, C1, [])
     \<and> snd (snd (get_weather latin_cyrillic (replying 1800000000 500) C1
         ([1052, 1086, 1089, 1082, 1074, 1072]))) = [url])"
proof -
  let ?c = "[1052, 1086, 1089, 1082, 1074, 1072]"
  let ?c2 = "[1052, 1054, 1057, 1050, 1042, 1040]"
  let ?k = "[1084, 1086, 1089, 1082, 1074, 1072]"
  let ?C1 = "keyed_core\<lparr>weather_cache := (weather_cache keyed_core)(?k \<mapsto> (0, sample_weather))\<rparr>"
  have l: "lower latin_cyrillic ?c = ?k" "lower latin_cyrillic ?c2 = ?k"
    by code_simp+
  have m: "cache_lookup keyed_core ?k 0 = None"
    by (simp add: cache_lookup_def keyed_core_def with_api_key_def init_core_def)
  have k: "api_key (weather_config keyed_core) \<noteq> []"
    by (simp add: keyed_core_def with_api_key_def)
  have 1: "let C1 = ?C1 in
      get_weather latin_cyrillic (replying 0 200) keyed_core ?c
        = (sample_weather, C1, [weather_url (weather_config keyed_core) ?c])
      \<and> get_weather latin_cyrillic (replying 1799999999 500) C1 ?c2 = (sample_weather, C1, [])"
    using cached_weather_reused [where U = latin_cyrillic and C = keyed_core and city = "?c"
        and E = "replying 0 200" and data = "()" and weather = sample_weather and city' = "?c2"
        and E' = "replying 1799999999 500"] m k
    by (simp add: l cache_duration_def)
  have 2: "snd (snd (get_weather latin_cyrillic (replying 1800000000 500) ?C1 ?c))
           = [weather_url (weather_config keyed_core) ?c]"
    using cached_weather_reused [where U = latin_cyrillic and C = "?C1" and city = "?c"
        and E = "replying 1800000000 500" and cached_at = 0 and weather = sample_weather] k
    by (simp add: l cache_duration_def)
  from 1 2 show ?thesis by (simp add: Let_def)
qed

text \<open>
  Two calls for \<open>M\<close> one minute apart: when the provider answers 404 both times, both
  calls ask it; when it answers 500 and then 200, both ask it and the texts differ; and
  so when it answers 200 with a body that does not decode, and then 200 with one that
  does.
\<close>

theorem cached_weather_reused_counterexample:
  "(let (t1, C1, r1) = get_weather latin_cyrillic (replying 0 404) keyed_core [1052];
        (t2, C2, r2) = get_weather latin_cyrillic (replying 60000000 404) C1 [1052]
    in length (r1 @ r2) = 2)
   \<and> (let (t1, C1, r1) = get_weather latin_cyrillic (replying 0 500) keyed_core [1052];
        (t2, C2, r2) = get_weather latin_cyrillic (replying 60000000 200) C1 [1052]
    in length (r1 @ r2) = 2 \<and> t1 \<noteq> t2)
   \<and> (let (t1, C1, r1) =
          get_weather latin_cyrillic
            ((replying 0 200)\<lparr>http_get := (\<lambda>url. Reply 200 (Inl ([98, 97, 100, 32, 106, 115, 111, 110] \<comment> \<open>bad json\<close>)))\<rparr>)
            keyed_core [1052];
        (t2, C2, r2) = get_weather latin_cyrillic (replying 60000000 200) C1 [1052]
    in length (r1 @ r2) = 2 \<and> t1 \<noteq> t2)"
  by code_simp

section \<open>Weather failures\<close>

text \<open>
  C8. \<open>get_weather\<close> always returns a text, and only a success enters the cache.
  When no fresh entry answers the call: without an API key it returns the fixed
  needs-configuration message and leaves the cache alone; on status 404 the
  city-not-found message, on any other status but 200 a message that ends with the
  status, and on a failure of the request, of the decoding or of the formatting a message
  that ends with the detail of the exception, each time with the cache as it was. If the
  cache changes at all, the provider has answered 200 and the text returned is the
  formatted answer. After a 404 for a city that has no entry, the next call for it asks
  the provider again.
\<close>

theorem weather_failures_not_cached:
  "(cache_lookup C (lower U city) (now E) = None \<longrightarrow>
      (api_key (weather_config C) = [] \<longrightarrow> get_weather U E C city = (weather_no_key, C, []))
    \<and> (api_key (weather_config C) \<noteq> [] \<longrightarrow>
         (let url = weather_url (weather_config C) city in
          get_weather U E C city =
            (case http_get E url of
               Failed detail \<Rightarrow> (weather_failed detail, C, [url])
             | Reply status body \<Rightarrow>
                 if status = 404 then (weather_not_found city, C, [url])
                 else if status \<noteq> 200 then (weather_bad_status status, C, [url])
                 else
                   (case body of
                      Inl detail \<Rightarrow> (weather_failed detail, C, [url])
                    | Inr data \<Rightarrow>
                        (case format_weather_data E data of
                           Inl detail \<Rightarrow> (weather_failed detail, C, [url])
                         | Inr weather \<Rightarrow>
                             (weather,
                              C\<lparr>weather_cache :=
                                  (weather_cache C)(lower U city \<mapsto> (now E, weather))\<rparr>,
                              [url])))))))
   \<and> (weather_cache (fst (snd (get_weather U E C city))) \<noteq> weather_cache C \<longrightarrow>
        (\<exists>data. http_get E (weather_url (weather_config C) city) = Reply 200 (Inr data)
           \<and> format_weather_data E data = Inr (fst (get_weather U E C city))))
   \<and> (weather_cache C (lower U city) = None \<and> api_key (weather_config C) \<noteq> []
       \<and> http_get E (weather_url (weather_config C) city) = Reply 404 body \<longrightarrow>
        get_weather U E C city
          = (weather_not_found city, C, [weather_url (weather_config C) city])
        \<and> snd (snd (get_weather U E' (fst (snd (get_weather U E C city))) city))
          = [weather_url (weather_config C) city])
   \<and> suffix (str_int status) (weather_bad_status status)
   \<and> suffix detail (weather_failed detail)
   \<and> sublist city (weather_not_found city)"
proof (intro conjI impI)
  assume "cache_lookup C (lower U city) (now E) = None" "api_key (weather_config C) = []"
  then show "get_weather U E C city = (weather_no_key, C, [])"
    by (simp add: get_weather_miss)
next
  assume "cache_lookup C (lower U city) (now E) = None" "api_key (weather_config C) \<noteq> []"
  then show "let url = weather_url (weather_config C) city in
          get_weather U E C city =
            (case http_get E url of
               Failed detail \<Rightarrow> (weather_failed detail, C, [url])
             | Reply status body \<Rightarrow>
                 if status = 404 then (weather_not_found city, C, [url])
                 else if status \<noteq> 200 then (weather_bad_status status, C, [url])
                 else
                   (case body of
                      Inl detail \<Rightarrow> (weather_failed detail, C, [url])
                    | Inr data \<Rightarrow>
                        (case format_weather_data E data of
                           Inl detail \<Rightarrow> (weather_failed detail, C, [url])
                         | Inr weather \<Rightarrow>
                             (weather,
                              C\<lparr>weather_cache :=
                                  (weather_cache C)(lower U city \<mapsto> (now E, weather))\<rparr>,
                              [url]))))"
    by (simp add: get_weather_miss Let_def split: http_reply.splits sum.splits)
next
  assume "weather_cache (fst (snd (get_weather U E C city))) \<noteq> weather_cache C"
  then show "\<exists>data. http_get E (weather_url (weather_config C) city) = Reply 200 (Inr data)
           \<and> format_weather_data E data = Inr (fst (get_weather U E C city))"
    by (auto simp: get_weather_def Let_def
        split: option.splits http_reply.splits sum.splits if_splits)
next
  assume h: "weather_cache C (lower U city) = None \<and> api_key (weather_config C) \<noteq> []
       \<and> http_get E (weather_url (weather_config C) city) = Reply 404 body"
  then have n: "cache_lookup C (lower U city) t = None" for t
    by (simp add: cache_lookup_absent)
  show "get_weather U E C city
          = (weather_not_found city, C, [weather_url (weather_config C) city])"
    using h by (simp add: get_weather_miss [OF n])
  then show "snd (snd (get_weather U E' (fst (snd (get_weather U E C city))) city))
          = [weather_url (weather_config C) city]"
    using h by (simp add: get_weather_miss [OF n] Let_def split: http_reply.splits sum.splits)
next
  show "suffix (str_int status) (weather_bad_status status)"
    by (simp add: weather_bad_status_def suffix_def)
  show "suffix detail (weather_failed detail)"
    by (simp add: weather_failed_def suffix_def)
  show "sublist city (weather_not_found city)"
    unfolding weather_not_found_def by (rule sublist_appendI)
qed

text \<open>
  A core without a key; then, with a key, a provider that answers 404 (and the call after
  it), one that answers 500, and one out of reach.
\<close>

theorem weather_failures_not_cached_witness:
  "(let city = [1052, 1086, 1089, 1082, 1074, 1072] \<comment> \<open>Moskva\<close>;
        url = weather_url (weather_config keyed_core) city
    in get_weather latin_cyrillic (replying 0 200) (init_core default_knowledge) city
         = (weather_no_key, init_core default_knowledge, [])
     \<and> get_weather latin_cyrillic (replying 0 404) keyed_core city
         = (weather_not_found city, keyed_core, [url])
     \<and> snd (snd (get_weather latin_cyrillic (replying 5 200) keyed_core city)) = [url]
     \<and> get_weather latin_cyrillic (replying 0 500) keyed_core city
         = (weather_bad_status 500, keyed_core, [url])
     \<and> get_weather latin_cyrillic (offline 0 0) keyed_core city
         = (weather_failed ([116, 105, 109, 101, 111, 117, 116] \<comment> \<open>timeout\<close>), keyed_core, [url]))"
proof -
  let ?c = "[1052, 1086, 1089, 1082, 1074, 1072]"
  let ?D = "init_core default_knowledge"
  have n: "weather_cache keyed_core k = None" "weather_cache ?D k = None" for k
    by (simp_all add: keyed_core_def with_api_key_def init_core_def)
  have c: "cache_lookup keyed_core k t = None" "cache_lookup ?D k t = None" for k t
    by (simp_all add: cache_lookup_absent n)
  have k: "api_key (weather_config keyed_core) \<noteq> []" "api_key (weather_config ?D) = []"
    by (simp_all add: keyed_core_def with_api_key_def init_core_def default_weather_config_def)
  have 1: "get_weather latin_cyrillic (replying 0 200) ?D ?c = (weather_no_key, ?D, [])"
    using weather_failures_not_cached [where U = latin_cyrillic and C = "?D" and city = "?c"
        and E = "replying 0 200"] c k
    by simp
  note t = weather_failures_not_cached [where U = latin_cyrillic and C = keyed_core
      and city = "?c" and E = "replying 0 404" and E' = "replying 5 200" and body = "Inr ()"]
  have 2: "get_weather latin_cyrillic (replying 0 404) keyed_core ?c
             = (weather_not_found ?c, keyed_core, [weather_url (weather_config keyed_core) ?c])"
    using t n k by simp
  have 5: "snd (snd (get_weather latin_cyrillic (replying 5 200) keyed_core ?c))
             = [weather_url (weather_config keyed_core) ?c]"
    using t n k by (simp add: 2)
  have 3: "get_weather latin_cyrillic (replying 0 500) keyed_core ?c
             = (weather_bad_status 500, keyed_core, [weather_url (weather_config keyed_core) ?c])"
    using weather_failures_not_cached [where U = latin_cyrillic and C = keyed_core
        and city = "?c" and E = "replying 0 500"] c k
    by (simp add: Let_def)
  have 4: "get_weather latin_cyrillic (offline 0 0) keyed_core ?c
             = (weather_failed ([116, 105, 109, 101, 111, 117, 116]), keyed_core,
                [weather_url (weather_config keyed_core) ?c])"
    using weather_failures_not_cached [where U = latin_cyrillic and C = keyed_core
        and city = "?c" and E = "offline 0 0"] c k
    by (simp add: Let_def)
  from 1 2 3 4 5 show ?thesis by (simp add: Let_def)
qed

section \<open>The number of users\<close>

text \<open>
  C9. That \<open>statistics["total_users"]\<close> is the number of keys of \<open>user_profiles\<close> (each
  profile standing under its own id) is kept by every operation:
  \<open>get_or_create_user_profile\<close> adds one to the counter exactly when it creates a
  profile, which it creates with \<open>conversation_count = 1\<close>, and otherwise leaves the
  keys and the counter as they are; \<open>update_user_stats\<close> (for every field but the
  counter's own name, which no caller passes), the clearing of the memory and a whole
  turn keep it; and a turn of a user who has a profile creates no second one and does
  not count again.
\<close>

theorem total_users_invariant:
  assumes "users_inv K"
  shows "users_inv (snd (get_or_create_user_profile t K uid a b c))
       \<and> (get_user_profiles K uid = None \<longrightarrow>
            total_users (snd (get_or_create_user_profile t K uid a b c)) = total_users K + 1
            \<and> conversation_count (fst (get_or_create_user_profile t K uid a b c)) = 1
            \<and> dom (get_user_profiles (snd (get_or_create_user_profile t K uid a b c)))
                = insert uid (dom (get_user_profiles K)))
       \<and> (get_user_profiles K uid \<noteq> None \<longrightarrow>
            total_users (snd (get_or_create_user_profile t K uid a b c)) = total_users K
            \<and> dom (get_user_profiles (snd (get_or_create_user_profile t K uid a b c)))
                = dom (get_user_profiles K))
       \<and> (f \<noteq> ''total_users'' \<longrightarrow> users_inv (update_user_stats t K uid f))
       \<and> users_inv (clear_memory K)
       \<and> (\<forall>out C' rq.
            knowledge C = K
            \<and> process_message U E C uid m a b c ic cd = Inr (out, C', rq)
            \<longrightarrow> users_inv (knowledge C')
              \<and> dom (get_user_profiles (knowledge C')) = insert uid (dom (get_user_profiles K))
              \<and> (get_user_profiles K uid \<noteq> None \<longrightarrow>
                   total_users (knowledge C') = total_users K
                   \<and> dom (get_user_profiles (knowledge C')) = dom (get_user_profiles K)))"
proof -
  have d: "insert uid (dom (get_user_profiles K)) = dom (get_user_profiles K)"
    if "get_user_profiles K uid \<noteq> None"
    using that by auto
  note g = get_or_create_users [OF assms, of t uid a b c]
  have 1: "users_inv (snd (get_or_create_user_profile t K uid a b c))"
    using g by simp
  have 2: "get_user_profiles K uid = None \<longrightarrow>
            total_users (snd (get_or_create_user_profile t K uid a b c)) = total_users K + 1
            \<and> conversation_count (fst (get_or_create_user_profile t K uid a b c)) = 1
            \<and> dom (get_user_profiles (snd (get_or_create_user_profile t K uid a b c)))
                = insert uid (dom (get_user_profiles K))"
    using g by simp
  have 3: "get_user_profiles K uid \<noteq> None \<longrightarrow>
            total_users (snd (get_or_create_user_profile t K uid a b c)) = total_users K
            \<and> dom (get_user_profiles (snd (get_or_create_user_profile t K uid a b c)))
                = dom (get_user_profiles K)"
    using g d by simp
  have 4: "f \<noteq> ''total_users'' \<longrightarrow> users_inv (update_user_stats t K uid f)"
    using update_user_stats_users [OF assms, of f t uid] by simp
  have 5: "users_inv (clear_memory K)"
    using clear_memory_users assms by simp
  have 6: "\<forall>out C' rq.
            knowledge C = K
            \<and> process_message U E C uid m a b c ic cd = Inr (out, C', rq)
            \<longrightarrow> users_inv (knowledge C')
              \<and> dom (get_user_profiles (knowledge C')) = insert uid (dom (get_user_profiles K))
              \<and> (get_user_profiles K uid \<noteq> None \<longrightarrow>
                   total_users (knowledge C') = total_users K
                   \<and> dom (get_user_profiles (knowledge C')) = dom (get_user_profiles K))"
  proof (intro allI impI)
    fix out C' rq
    assume h: "knowledge C = K \<and> process_message U E C uid m a b c ic cd = Inr (out, C', rq)"
    then have "users_inv (knowledge C)" using assms by simp
    from process_message_users [OF conjunct2 [OF h] this] h d
    show "users_inv (knowledge C')
              \<and> dom (get_user_profiles (knowledge C')) = insert uid (dom (get_user_profiles K))
              \<and> (get_user_profiles K uid \<noteq> None \<longrightarrow>
                   total_users (knowledge C') = total_users K
                   \<and> dom (get_user_profiles (knowledge C')) = dom (get_user_profiles K))"
      by simp
  qed
  from 1 2 3 4 5 6 show ?thesis by blast
qed

text \<open>
  The default document has the property; the first call for user 7 creates the profile
  and counts it, the second changes neither the keys nor the counter.
\<close>

theorem total_users_invariant_witness:
  "users_inv default_knowledge
   \<and> users_inv (snd (get_or_create_user_profile 0 default_knowledge 7 None None None))
   \<and> total_users (snd (get_or_create_user_profile 0 default_knowledge 7 None None None)) = 1
   \<and> conversation_count (fst (get_or_create_user_profile 0 default_knowledge 7 None None None))
       = 1
   \<and> dom (get_user_profiles
        (snd (get_or_create_user_profile 0 default_knowledge 7 None None None))) = {7}
   \<and> total_users (snd (get_or_create_user_profile 5
        (snd (get_or_create_user_profile 0 default_knowledge 7 None None None))
        7 None None None)) = 1
   \<and> dom (get_user_profiles (snd (get_or_create_user_profile 5
        (snd (get_or_create_user_profile 0 default_knowledge 7 None None None))
        7 None None None))) = {7}"
proof -
  let ?K1 = "snd (get_or_create_user_profile 0 default_knowledge 7 None None None)"
  have e: "get_user_profiles default_knowledge = Map.empty"
    by (simp add: default_knowledge_def get_user_profiles_def)
  have z: "total_users default_knowledge = 0"
    by (simp add: default_knowledge_def total_users_def)
  have i: "users_inv default_knowledge"
    by (simp add: users_inv_def e z)
  note a = total_users_invariant [OF i, where t = 0 and uid = 7 and a = None and b = None
      and c = None and f = "''total_messages''" and C = "init_core default_knowledge"
      and U = latin_cyrillic and E = "offline 0 0" and m = "[]" and ic = False and cd = None]
  have 1: "users_inv ?K1" "total_users ?K1 = 1"
    "conversation_count (fst (get_or_create_user_profile 0 default_knowledge 7 None None None))
     = 1"
    "dom (get_user_profiles ?K1) = {7}"
    using a by (simp_all add: e z)
  have h: "get_user_profiles ?K1 7 \<noteq> None"
    using 1(4) by blast
  note b = total_users_invariant [OF 1(1), where t = 5 and uid = 7 and a = None and b = None
      and c = None and f = "''total_messages''" and C = "init_core default_knowledge"
      and U = latin_cyrillic and E = "offline 0 0" and m = "[]" and ic = False and cd = None]
  have 2: "total_users (snd (get_or_create_user_profile 5 ?K1 7 None None None)) = 1"
    "dom (get_user_profiles (snd (get_or_create_user_profile 5 ?K1 7 None None None))) = {7}"
    using b h 1(2,4) by simp_all
  from i 1 2 show ?thesis by simp
qed

section \<open>The outcome of a turn\<close>

text \<open>
  C10. Whatever \<open>process_message\<close> returns, \<open>needs_followup\<close> is true exactly when
  \<open>action\<close> is not \<open>None\<close>; the action is then \<open>"weather"\<close> or \<open>"correction"\<close>; and with
  the action \<open>"correction"\<close> the outcome carries \<open>correction_data\<close> whose \<open>"question"\<close> is
  the utterance of the turn.
\<close>

theorem followup_iff_action:
  assumes "process_message U E C uid user_message uname fname lname is_correction cdata
           = Inr (out, C', requests)"
  shows "(needs_followup out \<longleftrightarrow> action out \<noteq> None)
       \<and> (action out \<noteq> None \<longrightarrow> action out = Some ''weather'' \<or> action out = Some ''correction'')
       \<and> (action out = Some ''correction''
            \<longrightarrow> correction_data out = Some [(''question'', user_message)])"
  using assms unfolding process_message_def Let_def
  by (auto split: prod.splits option.splits sum.splits if_splits)

text \<open>The utterance \<open>xyz\<close>, which nothing answers, on the default document.\<close>

theorem followup_iff_action_witness:
  "\<exists>out C' requests.
     process_message latin_cyrillic (offline 0 0) (init_core default_knowledge) 7
       ([120, 121, 122] \<comment> \<open>xyz\<close>) None None None False None = Inr (out, C', requests)
     \<and> needs_followup out \<and> action out = Some ''correction''
     \<and> correction_data out = Some [(''question'', [120, 121, 122])]"
proof -
  have "case process_message latin_cyrillic (offline 0 0) (init_core default_knowledge) 7
          ([120, 121, 122]) None None None False None of
          Inl e \<Rightarrow> False
        | Inr (out, C', requests) \<Rightarrow> needs_followup out \<and> action out = Some ''correction''"
    by code_simp
  then obtain out C' requests where
    r: "process_message latin_cyrillic (offline 0 0) (init_core default_knowledge) 7
          ([120, 121, 122]) None None None False None = Inr (out, C', requests)"
    and f: "needs_followup out" "action out = Some ''correction''"
    by (auto split: sum.splits)
  from followup_iff_action [OF r] f show ?thesis using r by auto
qed


end
